theory Spec2Isabelle
  imports Main "HOL-Library.Word" "HOL-Library.AList"
begin

section \<open>Errors\<close>

text \<open>
  Go errors are values.  The API machinery classifies an error by the reason in its
  status (\<open>errors.IsNotFound\<close>, \<open>errors.IsConflict\<close>); \<open>fmt.Errorf\<close> builds a new,
  unclassified error whose text embeds its arguments.  \<open>Errorf\<close> keeps the format
  and the arguments (\<open>ArgNil\<close> for a nil error argument).  \<open>Panic\<close> stands for a
  run-time panic, which no caller in this program recovers.
\<close>

datatype error =
    NotFound
  | Conflict
  | ApiError string
  | ErrWaitTimeout
  | ErrStorageNotConfigured
  | ConfigurationError string
  | Panic string
  | Errorf string "fmtarg list"
and fmtarg = ArgStr string | ArgInt int | ArgErr error | ArgNil

definition IsNotFound :: "error \<Rightarrow> bool" where
  "IsNotFound e = (e = NotFound)"

definition IsConflict :: "error \<Rightarrow> bool" where
  "IsConflict e = (e = Conflict)"

section \<open>The event handler: conditions and deployment status\<close>

subsection \<open>Operator conditions of the custom resource\<close>

datatype ConditionStatus = ConditionTrue | ConditionFalse | ConditionUnknown

datatype ConditionType =
    OperatorStatusTypeAvailable
  | OperatorStatusTypeSyncSuccessful
  | OperatorStatusTypeOther string

text \<open>\<open>metav1.Time\<close> is read as a number of clock ticks; \<open>metav1.Now()\<close> is an argument.\<close>

type_synonym Time = int

record OperatorCondition =
  cond_Type :: ConditionType
  cond_Status :: ConditionStatus
  cond_LastTransitionTime :: Time
  cond_Reason :: string
  cond_Message :: string

record ImageRegistryStatus =
  Conditions :: "OperatorCondition list"
  InternalRegistryHostname :: string
  ObservedGeneration :: "64 word"

text \<open>
  The loop of \<open>updateCondition\<close> over \<open>cr.Status.Conditions\<close>, with its three local
  variables \<open>modified\<close>, \<open>found\<close> and \<open>conditions\<close> as the accumulator.
\<close>

fun updateCondition_loop ::
  "OperatorCondition \<Rightarrow> OperatorCondition list \<Rightarrow> bool \<times> bool \<times> OperatorCondition list
     \<Rightarrow> bool \<times> bool \<times> OperatorCondition list" where
  "updateCondition_loop condition [] acc = acc"
| "updateCondition_loop condition (c # cs) (modified, found, conditions) =
     (if cond_Type condition \<noteq> cond_Type c
      then updateCondition_loop condition cs (modified, found, conditions @ [c])
      else updateCondition_loop condition cs
             (if cond_Status condition \<noteq> cond_Status c then True else modified,
              True,
              conditions @ [condition]))"

text \<open>\<open>updateCondition\<close> writes \<open>cr.Status.Conditions\<close> and returns \<open>modified\<close>.\<close>

definition updateCondition ::
  "ImageRegistryStatus \<Rightarrow> OperatorCondition \<Rightarrow> ImageRegistryStatus \<times> bool" where
  "updateCondition cr condition =
     (case updateCondition_loop condition (Conditions cr) (False, False, []) of
        (modified, found, conditions) \<Rightarrow>
          if \<not> found
          then (cr\<lparr>Conditions := conditions @ [condition]\<rparr>, True)
          else (cr\<lparr>Conditions := conditions\<rparr>, modified))"

text \<open>
  \<open>conditionResourceApply cr status m modified\<close>, with the clock reading \<open>now\<close> of
  \<open>metav1.Now()\<close>; the pointer \<open>modified\<close> is passed in and returned.  The
  \<open>logrus.Errorf\<close> of a False status writes a log line only.
\<close>

definition conditionResourceApply ::
  "Time \<Rightarrow> ImageRegistryStatus \<Rightarrow> ConditionStatus \<Rightarrow> string \<Rightarrow> bool
     \<Rightarrow> ImageRegistryStatus \<times> bool" where
  "conditionResourceApply now cr status m modified =
     (case updateCondition cr
             \<lparr>cond_Type = OperatorStatusTypeAvailable,
              cond_Status = status,
              cond_LastTransitionTime = now,
              cond_Reason = ''ResourceApplied'',
              cond_Message = m\<rparr> of
        (cr', changed) \<Rightarrow> (cr', if changed then True else modified))"

definition conditionSyncDeployment ::
  "Time \<Rightarrow> ImageRegistryStatus \<Rightarrow> ConditionStatus \<Rightarrow> string \<Rightarrow> bool
     \<Rightarrow> ImageRegistryStatus \<times> bool" where
  "conditionSyncDeployment now cr syncSuccessful m modified =
     (let reason = (if syncSuccessful = ConditionFalse
                    then ''DeploymentInProgress'' else ''DeploymentProgressed'')
      in case updateCondition cr
             \<lparr>cond_Type = OperatorStatusTypeSyncSuccessful,
              cond_Status = syncSuccessful,
              cond_LastTransitionTime = now,
              cond_Reason = reason,
              cond_Message = m\<rparr> of
        (cr', changed) \<Rightarrow> (cr', if changed then True else modified))"

text \<open>The stored \<open>lastTransitionTime\<close> values of the conditions of one type.\<close>

definition transitionTimes :: "ImageRegistryStatus \<Rightarrow> ConditionType \<Rightarrow> Time list" where
  "transitionTimes cr t =
     map cond_LastTransitionTime (filter (\<lambda>c. cond_Type c = t) (Conditions cr))"

subsection \<open>Deployment status\<close>

text \<open>
  The two deployment kinds the handler inspects, with the fields it reads: \<open>int32\<close>
  replica counters and \<open>int64\<close> generations, compared as signed machine integers.
  \<open>Spec.Replicas\<close> of an apps/v1 Deployment is a pointer.
\<close>

record DeploymentConfigObj =
  dc_Generation :: "64 word"
  dc_Spec_Replicas :: "32 word"
  dc_Status_UpdatedReplicas :: "32 word"
  dc_Status_Replicas :: "32 word"
  dc_Status_AvailableReplicas :: "32 word"
  dc_Status_ObservedGeneration :: "64 word"

record DeploymentObj =
  dp_Generation :: "64 word"
  dp_Spec_Replicas :: "32 word option"
  dp_Status_UpdatedReplicas :: "32 word"
  dp_Status_Replicas :: "32 word"
  dp_Status_AvailableReplicas :: "32 word"
  dp_Status_ObservedGeneration :: "64 word"

datatype runtime_Object =
    DeploymentConfig DeploymentConfigObj
  | Deployment DeploymentObj
  | OtherObject string

fun isDeploymentStatusAvailable :: "runtime_Object \<Rightarrow> bool" where
  "isDeploymentStatusAvailable (DeploymentConfig deploy) =
     word_sless 0 (dc_Status_AvailableReplicas deploy)"
| "isDeploymentStatusAvailable (Deployment deploy) =
     word_sless 0 (dp_Status_AvailableReplicas deploy)"
| "isDeploymentStatusAvailable (OtherObject k) = False"

fun isDeploymentStatusComplete :: "runtime_Object \<Rightarrow> bool" where
  "isDeploymentStatusComplete (DeploymentConfig deploy) =
     (dc_Status_UpdatedReplicas deploy = dc_Spec_Replicas deploy \<and>
      dc_Status_Replicas deploy = dc_Spec_Replicas deploy \<and>
      dc_Status_AvailableReplicas deploy = dc_Spec_Replicas deploy \<and>
      word_sle (dc_Generation deploy) (dc_Status_ObservedGeneration deploy))"
| "isDeploymentStatusComplete (Deployment deploy) =
     (let replicas = (case dp_Spec_Replicas deploy of None \<Rightarrow> 1 | Some r \<Rightarrow> r)
      in dp_Status_UpdatedReplicas deploy = replicas \<and>
         dp_Status_Replicas deploy = replicas \<and>
         dp_Status_AvailableReplicas deploy = replicas \<and>
         word_sle (dp_Generation deploy) (dp_Status_ObservedGeneration deploy))"
| "isDeploymentStatusComplete (OtherObject k) = False"

text \<open>
  The cluster-operator status handler \<open>h.clusterStatus\<close> is a collaborator outside the
  handler: its \<open>Update\<close> acts on the cluster \<open>'w\<close> and may fail.  The handler only logs
  such a failure.
\<close>

datatype ClusterStatusConditionType = OperatorAvailable | OperatorProgressing | OperatorFailing

type_synonym 'w StatusHandler =
  "ClusterStatusConditionType \<Rightarrow> ConditionStatus \<Rightarrow> string \<Rightarrow> 'w \<Rightarrow> error option \<times> 'w"

text \<open>
  \<open>syncDeploymentStatus\<close>: the two \<open>clusterStatus.Update\<close> calls in order, then
  \<open>conditionSyncDeployment\<close>.  The result carries the updated resource, the
  \<open>statusChanged\<close> flag, the cluster, and the arguments of the two \<open>Update\<close> calls.
\<close>

definition syncDeploymentStatus ::
  "'w StatusHandler \<Rightarrow> Time \<Rightarrow> ImageRegistryStatus \<Rightarrow> runtime_Object \<Rightarrow> bool \<Rightarrow> 'w
     \<Rightarrow> (ImageRegistryStatus \<times> bool) \<times> 'w
        \<times> (ClusterStatusConditionType \<times> ConditionStatus \<times> string) list" where
  "syncDeploymentStatus clusterStatus_Update now cr o' statusChanged w =
     (let operatorAvailable = (if isDeploymentStatusAvailable o' then ConditionTrue else ConditionFalse);
          operatorAvailableMsg =
            (if isDeploymentStatusAvailable o' then ''deployment has minimum availability'' else '''');
          (errOp1, w1) = clusterStatus_Update OperatorAvailable operatorAvailable operatorAvailableMsg w;
          operatorProgressing = (if isDeploymentStatusComplete o' then ConditionFalse else ConditionTrue);
          operatorProgressingMsg =
            (if isDeploymentStatusComplete o'
             then ''deployment successfully progressed'' else ''deployment is progressing'');
          (errOp2, w2) = clusterStatus_Update OperatorProgressing operatorProgressing operatorProgressingMsg w1;
          syncSuccessful = (if operatorProgressing = ConditionFalse then ConditionTrue else ConditionFalse)
      in (conditionSyncDeployment now cr syncSuccessful operatorProgressingMsg statusChanged,
          w2,
          [(OperatorAvailable, operatorAvailable, operatorAvailableMsg),
           (OperatorProgressing, operatorProgressing, operatorProgressingMsg)]))"

text \<open>The status that \<open>syncDeploymentStatus\<close> reports for the Progressing condition.\<close>

definition reportedProgressing ::
  "(ImageRegistryStatus \<times> bool) \<times> 'w \<times> (ClusterStatusConditionType \<times> ConditionStatus \<times> string) list
     \<Rightarrow> (ConditionStatus \<times> string) list" where
  "reportedProgressing r =
     map snd (filter (\<lambda>u. fst u = OperatorProgressing) (snd (snd r)))"

section \<open>Generating the registry deployment\<close>

subsection \<open>Strings and numbers of the Go library\<close>

text \<open>\<open>strconv.Itoa\<close> and the verb \<open>%d\<close>: decimal digits, with a sign for negatives.\<close>

function nat_to_dec :: "nat \<Rightarrow> string" where
  "nat_to_dec n =
     (if n < 10 then [char_of (48 + n)]
      else nat_to_dec (n div 10) @ [char_of (48 + n mod 10)])"
  by pat_completeness auto
termination
  by (relation "measure id") auto

declare nat_to_dec.simps [simp del]

definition Itoa :: "int \<Rightarrow> string" where
  "Itoa i = (if i < 0 then CHR ''-'' # nat_to_dec (nat (- i)) else nat_to_dec (nat i))"

text \<open>\<open>strings.Index s "/"\<close>: the first position of the byte, \<open>None\<close> for \<open>-1\<close>.\<close>

fun strings_Index :: "string \<Rightarrow> char \<Rightarrow> nat option" where
  "strings_Index [] sep = None"
| "strings_Index (c # cs) sep =
     (if c = sep then Some 0
      else (case strings_Index cs sep of None \<Rightarrow> None | Some i \<Rightarrow> Some (Suc i)))"

text \<open>
  \<open>strconv.ParseInt s 10 64\<close>: an optional sign, then one or more decimal digits; a
  value outside the \<open>int64\<close> range is a range error.
\<close>

definition isDigit :: "char \<Rightarrow> bool" where
  "isDigit c = (48 \<le> (of_char c :: nat) \<and> (of_char c :: nat) \<le> 57)"

definition digits_to_nat :: "string \<Rightarrow> nat" where
  "digits_to_nat ds = foldl (\<lambda>acc c. 10 * acc + ((of_char c :: nat) - 48)) 0 ds"

datatype 'a result = Failed error | Ok 'a

definition ParseInt10_64 :: "string \<Rightarrow> (64 word) result" where
  "ParseInt10_64 s =
     (let neg = (s \<noteq> [] \<and> hd s = CHR ''-'');
          ds = (if s \<noteq> [] \<and> (hd s = CHR ''+'' \<or> hd s = CHR ''-'') then tl s else s)
      in if ds = [] \<or> \<not> list_all isDigit ds
         then Failed (Errorf ''strconv.ParseInt: parsing %q: invalid syntax'' [ArgStr s])
         else let v = (if neg then - int (digits_to_nat ds) else int (digits_to_nat ds))
              in if v < - (2 ^ 63) \<or> 2 ^ 63 - 1 < v
                 then Failed (Errorf ''strconv.ParseInt: parsing %q: value out of range'' [ArgStr s])
                 else Ok (word_of_int v))"

subsection \<open>The custom resource and the parameters\<close>

text \<open>
  A \<open>corev1.VolumeSource\<close> is a struct of pointers, one per kind of volume; the
  generator reads \<open>HostPath\<close> only and copies the rest.
\<close>

record VolumeSource =
  vs_HostPath :: "string option"
  vs_EmptyDir :: bool
  vs_PersistentVolumeClaim :: "string option"
  vs_ConfigMap :: "string option"

record FilesystemStorage =
  fs_VolumeSource :: VolumeSource

record AzureStorage =
  az_AccountName :: string
  az_AccountKey :: string
  az_Container :: string

record GCSStorage =
  gcs_Bucket :: string

record S3Storage =
  s3_AccessKey :: string
  s3_SecretKey :: string
  s3_Bucket :: string
  s3_Region :: string
  s3_RegionEndpoint :: string
  s3_Encrypt :: bool

record SwiftStorage =
  sw_AuthURL :: string
  sw_Username :: string
  sw_Password :: string
  sw_Container :: string

text \<open>\<open>cr.Spec.Storage\<close>: one pointer per backend variant, nil when not populated.\<close>

record StorageSpec =
  Filesystem :: "FilesystemStorage option"
  Azure :: "AzureStorage option"
  GCS :: "GCSStorage option"
  S3 :: "S3Storage option"
  Swift :: "SwiftStorage option"

record RequestsLimits =
  lim_MaxRunning :: int
  lim_MaxInQueue :: int
  lim_MaxWaitInQueue :: string

text \<open>
  The registry resource with the fields both generators read.  \<open>Spec.TLS\<close> is a
  pointer to a bool; \<open>lim_MaxWaitInQueue\<close> is the duration as \<open>%s\<close> prints it.
\<close>

record RegistryCR =
  cr_APIVersion :: string
  cr_Kind :: string
  cr_Name :: string
  cr_Namespace :: string
  cr_UID :: string
  Spec_Storage :: StorageSpec
  Spec_Replicas :: "32 word"
  Spec_NodeSelector :: "(string \<times> string) list"
  Spec_ImagePullSpec :: string
  Spec_HTTPSecret :: string
  Spec_Logging_Level :: int
  Spec_TLS :: "bool option"
  Spec_Requests_Read :: RequestsLimits
  Spec_Requests_Write :: RequestsLimits

record Parameters =
  Deployment_Name :: string
  Deployment_Namespace :: string
  Deployment_Labels :: "(string \<times> string) list"
  Pod_ServiceAccount :: string
  Container_Name :: string
  Container_Port :: int
  Container_UseTLS :: bool
  Healthz_Route :: string
  Healthz_TimeoutSeconds :: int

subsection \<open>The generated objects\<close>

record OwnerReference =
  or_APIVersion :: string
  or_Kind :: string
  or_Name :: string
  or_UID :: string
  or_Controller :: "bool option"

record EnvVar =
  env_Name :: string
  env_Value :: string
  env_SecretKeyRef :: "(string \<times> string) option"

record VolumeMount =
  vm_Name :: string
  vm_MountPath :: string

record Volume =
  vol_Name :: string
  vol_VolumeSource :: VolumeSource

record Probe =
  probe_InitialDelaySeconds :: "32 word"
  probe_TimeoutSeconds :: "32 word"
  probe_Scheme :: string
  probe_Path :: string
  probe_Port :: "32 word"

record PodSecurityContext =
  FSGroup :: "64 word option"

record PodTemplate =
  pod_Labels :: "(string \<times> string) list"
  pod_Annotations :: "(string \<times> string) list"
  pod_NodeSelector :: "(string \<times> string) list"
  pod_ContainerName :: string
  pod_Image :: string
  pod_ContainerPort :: "32 word \<times> string"
  pod_Env :: "EnvVar list"
  pod_VolumeMounts :: "VolumeMount list"
  pod_LivenessProbe :: Probe
  pod_ReadinessProbe :: Probe
  pod_ResourceRequests :: "(string \<times> string) list"
  pod_Volumes :: "Volume list"
  pod_ServiceAccountName :: string
  pod_SecurityContext :: PodSecurityContext

record GeneratedDeploymentConfig =
  gdc_APIVersion :: string
  gdc_Kind :: string
  gdc_Name :: string
  gdc_Namespace :: string
  gdc_Labels :: "(string \<times> string) list"
  gdc_Annotations :: "(string \<times> string) list"
  gdc_OwnerReferences :: "OwnerReference list"
  gdc_Replicas :: "32 word"
  gdc_Selector :: "(string \<times> string) list"
  gdc_Triggers :: "string list"
  gdc_Template :: PodTemplate

text \<open>
  What \<open>sdk.Get\<close> reads from the cluster: the annotations of a project (namespace),
  and for each of the two named objects of the deployment namespace the outcome of
  fetching it and of \<open>checksum\<close> on the fetched object (a SHA-256 digest of its JSON).
\<close>

record ClusterView =
  sdk_Get_Project :: "string \<Rightarrow> ((string \<times> string) list) result"
  sdk_Get_Secret_checksum :: "string \<Rightarrow> string \<Rightarrow> string result"
  sdk_Get_ConfigMap_checksum :: "string \<Rightarrow> string \<Rightarrow> string result"

subsection \<open>Shared helpers of the two generators\<close>

definition checksumOperatorAnnotation :: string where
  "checksumOperatorAnnotation = ''dockerregistry.operator.openshift.io/checksum''"

definition storageTypeOperatorAnnotation :: string where
  "storageTypeOperatorAnnotation = ''dockerregistry.operator.openshift.io/storagetype''"

definition supplementalGroupsAnnotation :: string where
  "supplementalGroupsAnnotation = ''openshift.io/sa.scc.supplemental-groups''"

definition EnvValue :: "string \<Rightarrow> string \<Rightarrow> EnvVar" where
  "EnvValue n v = \<lparr>env_Name = n, env_Value = v, env_SecretKeyRef = None\<rparr>"

definition EnvSecretKey :: "string \<Rightarrow> string \<Rightarrow> string \<Rightarrow> EnvVar" where
  "EnvSecretKey n secret k = \<lparr>env_Name = n, env_Value = [], env_SecretKeyRef = Some (secret, k)\<rparr>"

definition FormatBool :: "bool \<Rightarrow> string" where
  "FormatBool b = (if b then ''true'' else ''false'')"

definition asOwner :: "RegistryCR \<Rightarrow> OwnerReference" where
  "asOwner cr =
     \<lparr>or_APIVersion = cr_APIVersion cr, or_Kind = cr_Kind cr, or_Name = cr_Name cr,
      or_UID = cr_UID cr, or_Controller = Some True\<rparr>"

text \<open>
  \<open>generateSecurityContext\<close>, the same in both files but for the annotation key, which
  \<open>generate.go\<close> declares and the newer file takes from the parameters package.
\<close>

definition generateSecurityContext ::
  "string \<Rightarrow> ClusterView \<Rightarrow> RegistryCR \<Rightarrow> string \<Rightarrow> PodSecurityContext result" where
  "generateSecurityContext groupsAnnotation cluster cr namespace =
     (case sdk_Get_Project cluster namespace of
        Failed err \<Rightarrow> Failed err
      | Ok ns_Annotations \<Rightarrow>
          (case map_of ns_Annotations groupsAnnotation of
             None \<Rightarrow>
               Failed (Errorf ''namespace %q doesn't have annotation %s''
                        [ArgStr namespace, ArgStr groupsAnnotation])
           | Some sgrange \<Rightarrow>
               (case strings_Index sgrange (CHR ''/'') of
                  None \<Rightarrow>
                    Failed (Errorf (''annotation %s in namespace %q doesn't contain '/'' @ [CHR 0x27])
                             [ArgStr groupsAnnotation, ArgStr namespace])
                | Some idx \<Rightarrow>
                    (case ParseInt10_64 (take idx sgrange) of
                       Failed err \<Rightarrow>
                         Failed (Errorf ''unable to parse annotation %s in namespace %q: %s''
                                  [ArgStr groupsAnnotation, ArgStr namespace, ArgErr err])
                     | Ok gid \<Rightarrow> Ok \<lparr>FSGroup = Some gid\<rparr>))))"

text \<open>
  The local variables of the generators while the storage branches run:
  \<open>storageType\<close>, \<open>storageConfigured\<close>, \<open>env\<close>, \<open>mounts\<close> and \<open>volumes\<close>.
\<close>

record GenVars =
  storageType :: string
  storageConfigured :: int
  gen_env :: "EnvVar list"
  gen_mounts :: "VolumeMount list"
  gen_volumes :: "Volume list"

text \<open>
  The branch \<open>if cr.Spec.Storage.Filesystem != nil\<close> (the same text in both files): it
  returns early on a HostPath volume, and otherwise appends to env, volumes and mounts and
  increments \<open>storageConfigured\<close>.
\<close>

definition branch_Filesystem :: "StorageSpec \<Rightarrow> GenVars \<Rightarrow> GenVars result" where
  "branch_Filesystem st v =
     (case Filesystem st of
        None \<Rightarrow> Ok v
      | Some fs \<Rightarrow>
          if vs_HostPath (fs_VolumeSource fs) \<noteq> None
          then Failed (Errorf ''HostPath is not supported'' [])
          else Ok (v\<lparr>gen_env := gen_env v @
                        [EnvValue ''REGISTRY_STORAGE'' ''filesystem'',
                         EnvValue ''REGISTRY_STORAGE_FILESYSTEM_ROOTDIRECTORY'' ''/registry''],
                      gen_volumes := gen_volumes v @
                        [\<lparr>vol_Name = ''registry-storage'', vol_VolumeSource = fs_VolumeSource fs\<rparr>],
                      gen_mounts := gen_mounts v @
                        [\<lparr>vm_Name = ''registry-storage'', vm_MountPath = ''/registry''\<rparr>],
                      storageConfigured := storageConfigured v + 1\<rparr>))"

definition branch_GCS :: "StorageSpec \<Rightarrow> GenVars \<Rightarrow> GenVars" where
  "branch_GCS st v =
     (case GCS st of
        None \<Rightarrow> v
      | Some gcs \<Rightarrow>
          v\<lparr>storageType := ''gcs'',
            gen_env := gen_env v @
              [EnvValue ''REGISTRY_STORAGE'' ''gcs'',
               EnvValue ''REGISTRY_STORAGE_GCS_BUCKET'' (gcs_Bucket gcs)],
            storageConfigured := storageConfigured v + 1\<rparr>)"

subsection \<open>\<open>GenerateDeploymentConfig\<close> (generate.go)\<close>

definition dc_branch_Azure :: "StorageSpec \<Rightarrow> GenVars \<Rightarrow> GenVars" where
  "dc_branch_Azure st v =
     (case Azure st of
        None \<Rightarrow> v
      | Some az \<Rightarrow>
          v\<lparr>storageType := ''azure'',
            gen_env := gen_env v @
              [EnvValue ''REGISTRY_STORAGE'' ''azure'',
               EnvValue ''REGISTRY_STORAGE_AZURE_ACCOUNTNAME'' (az_AccountName az),
               EnvValue ''REGISTRY_STORAGE_AZURE_ACCOUNTKEY'' (az_AccountKey az),
               EnvValue ''REGISTRY_STORAGE_AZURE_CONTAINER'' (az_Container az)],
            storageConfigured := storageConfigured v + 1\<rparr>)"

definition dc_branch_S3 :: "StorageSpec \<Rightarrow> GenVars \<Rightarrow> GenVars" where
  "dc_branch_S3 st v =
     (case S3 st of
        None \<Rightarrow> v
      | Some s3 \<Rightarrow>
          v\<lparr>storageType := ''s3'',
            gen_env := gen_env v @
              [EnvValue ''REGISTRY_STORAGE'' ''s3'',
               EnvValue ''REGISTRY_STORAGE_S3_ACCESSKEY'' (s3_AccessKey s3),
               EnvValue ''REGISTRY_STORAGE_S3_SECRETKEY'' (s3_SecretKey s3),
               EnvValue ''REGISTRY_STORAGE_S3_BUCKET'' (s3_Bucket s3),
               EnvValue ''REGISTRY_STORAGE_S3_REGION'' (s3_Region s3),
               EnvValue ''REGISTRY_STORAGE_S3_REGIONENDPOINT'' (s3_RegionEndpoint s3),
               EnvValue ''REGISTRY_STORAGE_S3_ENCRYPT'' (FormatBool (s3_Encrypt s3))],
            storageConfigured := storageConfigured v + 1\<rparr>)"

definition dc_branch_Swift :: "StorageSpec \<Rightarrow> GenVars \<Rightarrow> GenVars" where
  "dc_branch_Swift st v =
     (case Swift st of
        None \<Rightarrow> v
      | Some sw \<Rightarrow>
          v\<lparr>storageType := ''swift'',
            gen_env := gen_env v @
              [EnvValue ''REGISTRY_STORAGE'' ''swift'',
               EnvValue ''REGISTRY_STORAGE_SWIFT_AUTHURL'' (sw_AuthURL sw),
               EnvValue ''REGISTRY_STORAGE_SWIFT_USERNAME'' (sw_Username sw),
               EnvValue ''REGISTRY_STORAGE_SWIFT_PASSWORD'' (sw_Password sw),
               EnvValue ''REGISTRY_STORAGE_SWIFT_CONTAINER'' (sw_Container sw)],
            storageConfigured := storageConfigured v + 1\<rparr>)"

definition dc_generateProbeConfig :: "Parameters \<Rightarrow> Probe" where
  "dc_generateProbeConfig p =
     \<lparr>probe_InitialDelaySeconds = 0,
      probe_TimeoutSeconds = word_of_int (Healthz_TimeoutSeconds p),
      probe_Scheme = (if Container_UseTLS p then ''HTTPS'' else []),
      probe_Path = Healthz_Route p,
      probe_Port = word_of_int (Container_Port p)\<rparr>"

definition dc_generateLivenessProbeConfig :: "Parameters \<Rightarrow> Probe" where
  "dc_generateLivenessProbeConfig p = (dc_generateProbeConfig p)\<lparr>probe_InitialDelaySeconds := 10\<rparr>"

definition dc_generateReadinessProbeConfig :: "Parameters \<Rightarrow> Probe" where
  "dc_generateReadinessProbeConfig p = dc_generateProbeConfig p"

definition dc_initial :: "Parameters \<Rightarrow> GenVars" where
  "dc_initial p =
     \<lparr>storageType = [],
      storageConfigured = 0,
      gen_env =
        [EnvValue ''REGISTRY_HTTP_ADDR'' (CHR '':'' # Itoa (Container_Port p)),
         EnvValue ''REGISTRY_HTTP_NET'' ''tcp'',
         EnvValue ''REGISTRY_STORAGE_CACHE_BLOBDESCRIPTOR'' ''inmemory'',
         EnvValue ''REGISTRY_STORAGE_DELETE_ENABLED'' ''true'',
         EnvValue ''REGISTRY_OPENSHIFT_QUOTA_ENABLED'' ''true''],
      gen_mounts = [],
      gen_volumes = []\<rparr>"

definition GenerateDeploymentConfig ::
  "ClusterView \<Rightarrow> RegistryCR \<Rightarrow> Parameters \<Rightarrow> GeneratedDeploymentConfig result" where
  "GenerateDeploymentConfig cluster cr p =
     (case branch_Filesystem (Spec_Storage cr) (dc_initial p) of
        Failed err \<Rightarrow> Failed err
      | Ok v1 \<Rightarrow>
          (let st = Spec_Storage cr;
               v = dc_branch_Swift st (dc_branch_S3 st (branch_GCS st (dc_branch_Azure st v1)))
           in if storageConfigured v \<noteq> 1
              then Failed (Errorf
                ''it is not possible to initialize more than one storage backend at the same time'' [])
              else
                (case generateSecurityContext supplementalGroupsAnnotation cluster cr (cr_Namespace cr) of
                   Failed err \<Rightarrow>
                     Failed (Errorf ''generate security context for deployment config: %s'' [ArgErr err])
                 | Ok securityContext \<Rightarrow>
                     Ok \<lparr>gdc_APIVersion = ''apps.openshift.io/v1'',
                         gdc_Kind = ''DeploymentConfig'',
                         gdc_Name = Deployment_Name p,
                         gdc_Namespace = Deployment_Namespace p,
                         gdc_Labels = Deployment_Labels p,
                         gdc_Annotations = [(storageTypeOperatorAnnotation, storageType v)],
                         gdc_OwnerReferences = [asOwner cr],
                         gdc_Replicas = Spec_Replicas cr,
                         gdc_Selector = Deployment_Labels p,
                         gdc_Triggers = [''ConfigChange''],
                         gdc_Template =
                           \<lparr>pod_Labels = Deployment_Labels p,
                            pod_Annotations = [],
                            pod_NodeSelector = Spec_NodeSelector cr,
                            pod_ContainerName = Container_Name p,
                            pod_Image = Spec_ImagePullSpec cr,
                            pod_ContainerPort = (word_of_int (Container_Port p), ''TCP''),
                            pod_Env = gen_env v,
                            pod_VolumeMounts = gen_mounts v,
                            pod_LivenessProbe = dc_generateLivenessProbeConfig p,
                            pod_ReadinessProbe = dc_generateReadinessProbeConfig p,
                            pod_ResourceRequests = [(''cpu'', ''100m''), (''memory'', ''256Mi'')],
                            pod_Volumes = gen_volumes v,
                            pod_ServiceAccountName = Pod_ServiceAccount p,
                            pod_SecurityContext = securityContext\<rparr>\<rparr>)))"

subsection \<open>\<open>PodTemplateSpec\<close> (the newer generator)\<close>

text \<open>
  The annotation keys that the newer generator takes from the \<open>parameters\<close> package,
  whose file is not among the sources: they are arguments here.
\<close>

record ParametersConsts =
  StorageTypeOperatorAnnotation :: string
  SupplementalGroupsAnnotation :: string
  SecretChecksumOperatorAnnotation :: string
  ConfigMapChecksumOperatorAnnotation :: string

definition generateLogLevel :: "RegistryCR \<Rightarrow> string" where
  "generateLogLevel cr =
     (if Spec_Logging_Level cr = 0 then ''error''
      else if Spec_Logging_Level cr = 1 then ''warn''
      else if Spec_Logging_Level cr = 2 \<or> Spec_Logging_Level cr = 3 then ''info''
      else ''debug'')"

definition pts_branch_Azure :: "StorageSpec \<Rightarrow> GenVars \<Rightarrow> GenVars" where
  "pts_branch_Azure st v =
     (case Azure st of
        None \<Rightarrow> v
      | Some az \<Rightarrow>
          v\<lparr>storageType := ''azure'',
            gen_env := gen_env v @
              [EnvValue ''REGISTRY_STORAGE'' ''azure'',
               EnvValue ''REGISTRY_STORAGE_AZURE_CONTAINER'' (az_Container az),
               EnvSecretKey ''REGISTRY_STORAGE_AZURE_ACCOUNTNAME''
                 ''image-registry-private-configuration'' ''REGISTRY_STORAGE_AZURE_ACCOUNTNAME'',
               EnvSecretKey ''REGISTRY_STORAGE_AZURE_ACCOUNTKEY''
                 ''image-registry-private-configuration'' ''REGISTRY_STORAGE_AZURE_ACCOUNTKEY''],
            storageConfigured := storageConfigured v + 1\<rparr>)"

definition pts_branch_S3 :: "StorageSpec \<Rightarrow> GenVars \<Rightarrow> GenVars" where
  "pts_branch_S3 st v =
     (case S3 st of
        None \<Rightarrow> v
      | Some s3 \<Rightarrow>
          v\<lparr>storageType := ''s3'',
            gen_env := gen_env v @
              [EnvValue ''REGISTRY_STORAGE'' ''s3'',
               EnvValue ''REGISTRY_STORAGE_S3_BUCKET'' (s3_Bucket s3),
               EnvValue ''REGISTRY_STORAGE_S3_REGION'' (s3_Region s3),
               EnvValue ''REGISTRY_STORAGE_S3_REGIONENDPOINT'' (s3_RegionEndpoint s3),
               EnvValue ''REGISTRY_STORAGE_S3_ENCRYPT'' (FormatBool (s3_Encrypt s3)),
               EnvSecretKey ''REGISTRY_STORAGE_S3_ACCESSKEY''
                 ''image-registry-private-configuration'' ''REGISTRY_STORAGE_S3_ACCESSKEY'',
               EnvSecretKey ''REGISTRY_STORAGE_S3_SECRETKEY''
                 ''image-registry-private-configuration'' ''REGISTRY_STORAGE_S3_SECRETKEY''],
            storageConfigured := storageConfigured v + 1\<rparr>)"

definition pts_branch_Swift :: "StorageSpec \<Rightarrow> GenVars \<Rightarrow> GenVars" where
  "pts_branch_Swift st v =
     (case Swift st of
        None \<Rightarrow> v
      | Some sw \<Rightarrow>
          v\<lparr>storageType := ''swift'',
            gen_env := gen_env v @
              [EnvValue ''REGISTRY_STORAGE'' ''swift'',
               EnvValue ''REGISTRY_STORAGE_SWIFT_AUTHURL'' (sw_AuthURL sw),
               EnvValue ''REGISTRY_STORAGE_SWIFT_CONTAINER'' (sw_Container sw),
               EnvSecretKey ''REGISTRY_STORAGE_SWIFT_USERNAME''
                 ''image-registry-private-configuration'' ''REGISTRY_STORAGE_SWIFT_USERNAME'',
               EnvSecretKey ''REGISTRY_STORAGE_SWIFT_PASSWORD''
                 ''image-registry-private-configuration'' ''REGISTRY_STORAGE_SWIFT_PASSWORD''],
            storageConfigured := storageConfigured v + 1\<rparr>)"

text \<open>The two request-limit blocks; each may return early, and otherwise extends \<open>env\<close>.\<close>

definition pts_branch_Requests_Read :: "RegistryCR \<Rightarrow> EnvVar list \<Rightarrow> (EnvVar list) result" where
  "pts_branch_Requests_Read cr env =
     (let r = Spec_Requests_Read cr
      in if lim_MaxRunning r \<noteq> 0 \<or> lim_MaxInQueue r \<noteq> 0
         then if lim_MaxRunning r < 0
              then Failed (Errorf ''Requests.Read.MaxRunning must be positive number'' [])
              else if lim_MaxInQueue r < 0
              then Failed (Errorf ''Requests.Read.MaxInQueue must be positive number'' [])
              else Ok (env @
                [EnvValue ''REGISTRY_OPENSHIFT_REQUESTS_READ_MAXRUNNING'' (Itoa (lim_MaxRunning r)),
                 EnvValue ''REGISTRY_OPENSHIFT_REQUESTS_READ_MAXINQUEUE'' (Itoa (lim_MaxInQueue r)),
                 EnvValue ''REGISTRY_OPENSHIFT_REQUESTS_READ_MAXWAITINQUEUE'' (lim_MaxWaitInQueue r)])
         else Ok env)"

definition pts_branch_Requests_Write :: "RegistryCR \<Rightarrow> EnvVar list \<Rightarrow> (EnvVar list) result" where
  "pts_branch_Requests_Write cr env =
     (let r = Spec_Requests_Write cr
      in if lim_MaxRunning r \<noteq> 0 \<or> lim_MaxInQueue r \<noteq> 0
         then if lim_MaxRunning r < 0
              then Failed (Errorf ''Requests.Write.MaxRunning must be positive number'' [])
              else if lim_MaxInQueue r < 0
              then Failed (Errorf ''Requests.Write.MaxInQueue must be positive number'' [])
              else Ok (env @
                [EnvValue ''REGISTRY_OPENSHIFT_REQUESTS_WRITE_MAXRUNNING'' (Itoa (lim_MaxRunning r)),
                 EnvValue ''REGISTRY_OPENSHIFT_REQUESTS_WRITE_MAXINQUEUE'' (Itoa (lim_MaxInQueue r)),
                 EnvValue ''REGISTRY_OPENSHIFT_REQUESTS_WRITE_MAXWAITINQUEUE'' (lim_MaxWaitInQueue r)])
         else Ok env)"

text \<open>\<open>generateProbeConfig\<close> of the newer file reads \<open>*cr.Spec.TLS\<close>, here \<open>tls\<close>.\<close>

definition pts_generateProbeConfig :: "bool \<Rightarrow> Parameters \<Rightarrow> Probe" where
  "pts_generateProbeConfig tls p =
     \<lparr>probe_InitialDelaySeconds = 0,
      probe_TimeoutSeconds = word_of_int (Healthz_TimeoutSeconds p),
      probe_Scheme = (if tls then ''HTTPS'' else []),
      probe_Path = Healthz_Route p,
      probe_Port = word_of_int (Container_Port p)\<rparr>"

definition pts_generateLivenessProbeConfig :: "bool \<Rightarrow> Parameters \<Rightarrow> Probe" where
  "pts_generateLivenessProbeConfig tls p =
     (pts_generateProbeConfig tls p)\<lparr>probe_InitialDelaySeconds := 10\<rparr>"

definition pts_generateReadinessProbeConfig :: "bool \<Rightarrow> Parameters \<Rightarrow> Probe" where
  "pts_generateReadinessProbeConfig tls p = pts_generateProbeConfig tls p"

definition getSecretChecksum :: "ClusterView \<Rightarrow> Parameters \<Rightarrow> string result" where
  "getSecretChecksum cluster p =
     sdk_Get_Secret_checksum cluster (Deployment_Namespace p) ''image-registry-private-configuration''"

definition getConfigMapChecksum :: "ClusterView \<Rightarrow> Parameters \<Rightarrow> string result" where
  "getConfigMapChecksum cluster p =
     sdk_Get_ConfigMap_checksum cluster (Deployment_Namespace p) ''image-registry-certificates''"

definition configMapVolume :: "string \<Rightarrow> string \<Rightarrow> Volume" where
  "configMapVolume n cm =
     \<lparr>vol_Name = n,
      vol_VolumeSource =
        \<lparr>vs_HostPath = None, vs_EmptyDir = False, vs_PersistentVolumeClaim = None,
         vs_ConfigMap = Some cm\<rparr>\<rparr>"

definition pts_initial :: "RegistryCR \<Rightarrow> Parameters \<Rightarrow> GenVars" where
  "pts_initial cr p =
     \<lparr>storageType = [],
      storageConfigured = 0,
      gen_env =
        [EnvValue ''REGISTRY_HTTP_ADDR'' (CHR '':'' # Itoa (Container_Port p)),
         EnvValue ''REGISTRY_HTTP_NET'' ''tcp'',
         EnvValue ''REGISTRY_HTTP_SECRET'' (Spec_HTTPSecret cr),
         EnvValue ''REGISTRY_LOG_LEVEL'' (generateLogLevel cr),
         EnvValue ''REGISTRY_OPENSHIFT_QUOTA_ENABLED'' ''true'',
         EnvValue ''REGISTRY_STORAGE_CACHE_BLOBDESCRIPTOR'' ''inmemory'',
         EnvValue ''REGISTRY_STORAGE_DELETE_ENABLED'' ''true''],
      gen_mounts = [],
      gen_volumes = []\<rparr>"

text \<open>
  The part of \<open>PodTemplateSpec\<close> after the backend-count check: request limits, security
  context, TLS (a nil \<open>cr.Spec.TLS\<close> panics on the dereference), certificates and the two
  checksums.  \<open>annotations\<close> is the map returned beside the template.
\<close>

definition pts_finish ::
  "ParametersConsts \<Rightarrow> ClusterView \<Rightarrow> RegistryCR \<Rightarrow> Parameters \<Rightarrow> GenVars
     \<Rightarrow> (string \<times> string) list \<Rightarrow> (PodTemplate \<times> (string \<times> string) list) result" where
  "pts_finish consts cluster cr p v annotations =
     (case pts_branch_Requests_Read cr (gen_env v) of
        Failed err \<Rightarrow> Failed err
      | Ok env1 \<Rightarrow>
     (case pts_branch_Requests_Write cr env1 of
        Failed err \<Rightarrow> Failed err
      | Ok env2 \<Rightarrow>
     (case generateSecurityContext (SupplementalGroupsAnnotation consts) cluster cr
             (Deployment_Namespace p) of
        Failed err \<Rightarrow>
          Failed (Errorf ''generate security context for deployment config: %s'' [ArgErr err])
      | Ok securityContext \<Rightarrow>
     (case Spec_TLS cr of
        None \<Rightarrow> Failed (Panic ''invalid memory address or nil pointer dereference'')
      | Some tls \<Rightarrow>
          (let volumes1 = (if tls then gen_volumes v @ [configMapVolume ''registry-tls'' ''image-registry-tls'']
                           else gen_volumes v);
               mounts1 = (if tls then gen_mounts v @
                             [\<lparr>vm_Name = ''registry-tls'', vm_MountPath = ''/etc/secrets''\<rparr>]
                          else gen_mounts v);
               env3 = (if tls then env2 @
                          [EnvValue ''REGISTRY_HTTP_TLS_CERTIFICATE'' ''/etc/secrets/tls.crt'',
                           EnvValue ''REGISTRY_HTTP_TLS_KEY'' ''/etc/secrets/tls.key'']
                       else env2);
               volumes2 = volumes1 @ [configMapVolume ''registry-certificates'' ''image-registry-certificates''];
               mounts2 = mounts1 @
                 [\<lparr>vm_Name = ''registry-certificates'',
                   vm_MountPath = ''/etc/pki/ca-trust/source/anchors''\<rparr>]
           in case getSecretChecksum cluster p of
                Failed err \<Rightarrow> Failed err
              | Ok secretChecksum \<Rightarrow>
             (case getConfigMapChecksum cluster p of
                Failed err \<Rightarrow> Failed err
              | Ok configmapChecksum \<Rightarrow>
                  Ok (\<lparr>pod_Labels = Deployment_Labels p,
                       pod_Annotations =
                         [(SecretChecksumOperatorAnnotation consts, secretChecksum),
                          (ConfigMapChecksumOperatorAnnotation consts, configmapChecksum)],
                       pod_NodeSelector = Spec_NodeSelector cr,
                       pod_ContainerName = Container_Name p,
                       pod_Image = Spec_ImagePullSpec cr,
                       pod_ContainerPort = (word_of_int (Container_Port p), ''TCP''),
                       pod_Env = env3,
                       pod_VolumeMounts = mounts2,
                       pod_LivenessProbe = pts_generateLivenessProbeConfig tls p,
                       pod_ReadinessProbe = pts_generateReadinessProbeConfig tls p,
                       pod_ResourceRequests = [(''cpu'', ''100m''), (''memory'', ''256Mi'')],
                       pod_Volumes = volumes2,
                       pod_ServiceAccountName = Pod_ServiceAccount p,
                       pod_SecurityContext = securityContext\<rparr>,
                      annotations)))))))"

definition PodTemplateSpec ::
  "ParametersConsts \<Rightarrow> ClusterView \<Rightarrow> RegistryCR \<Rightarrow> Parameters
     \<Rightarrow> (PodTemplate \<times> (string \<times> string) list) result" where
  "PodTemplateSpec consts cluster cr p =
     (case branch_Filesystem (Spec_Storage cr) (pts_initial cr p) of
        Failed err \<Rightarrow> Failed err
      | Ok v1 \<Rightarrow>
          (let st = Spec_Storage cr;
               v = pts_branch_Swift st (pts_branch_S3 st (branch_GCS st (pts_branch_Azure st v1)))
           in if storageConfigured v = 1
              then pts_finish consts cluster cr p v
                     (AList.update (StorageTypeOperatorAnnotation consts) (storageType v) [])
              else Failed (Errorf
                ''it is not possible to initialize more than one storage backend at the same time'' [])))"

text \<open>
  The number of populated storage-backend variants, as the specification counts them.
\<close>

definition populatedBackends :: "StorageSpec \<Rightarrow> nat" where
  "populatedBackends st =
     (if Filesystem st \<noteq> None then 1 else 0) + (if Azure st \<noteq> None then 1 else 0) +
     (if GCS st \<noteq> None then 1 else 0) + (if S3 st \<noteq> None then 1 else 0) +
     (if Swift st \<noteq> None then 1 else 0)"

definition errHostPath :: error where
  "errHostPath = Errorf ''HostPath is not supported'' []"

definition errBackendCount :: error where
  "errBackendCount = Errorf
     ''it is not possible to initialize more than one storage backend at the same time'' []"

section \<open>Concrete inputs\<close>

text \<open>
  A small cluster and configuration on which the generators run to the end: the
  parameters that \<open>NewHandler\<close> sets, a namespace carrying the supplemental-groups
  annotation, and a resource whose storage is given as an argument.
\<close>

definition exampleParameters :: Parameters where
  "exampleParameters =
     \<lparr>Deployment_Name = ''image-registry'',
      Deployment_Namespace = ''openshift-image-registry'',
      Deployment_Labels = [(''docker-registry'', ''default'')],
      Pod_ServiceAccount = ''registry'',
      Container_Name = ''registry'',
      Container_Port = 5000,
      Container_UseTLS = True,
      Healthz_Route = ''/healthz'',
      Healthz_TimeoutSeconds = 5\<rparr>"

definition exampleConsts :: ParametersConsts where
  "exampleConsts =
     \<lparr>StorageTypeOperatorAnnotation = ''dockerregistry.operator.openshift.io/storagetype'',
      SupplementalGroupsAnnotation = ''openshift.io/sa.scc.supplemental-groups'',
      SecretChecksumOperatorAnnotation = ''dockerregistry.operator.openshift.io/secret-checksum'',
      ConfigMapChecksumOperatorAnnotation = ''dockerregistry.operator.openshift.io/configmap-checksum''\<rparr>"

definition exampleCluster :: ClusterView where
  "exampleCluster =
     \<lparr>sdk_Get_Project = (\<lambda>ns. Ok [(''openshift.io/sa.scc.supplemental-groups'', ''1000030000/10000'')]),
      sdk_Get_Secret_checksum = (\<lambda>ns n. Ok ''sha256:01''),
      sdk_Get_ConfigMap_checksum = (\<lambda>ns n. Ok ''sha256:02'')\<rparr>"

definition exampleCR :: "StorageSpec \<Rightarrow> RegistryCR" where
  "exampleCR st =
     \<lparr>cr_APIVersion = ''dockerregistry.operator.openshift.io/v1alpha1'',
      cr_Kind = ''OpenShiftDockerRegistry'',
      cr_Name = ''image-registry'',
      cr_Namespace = ''openshift-image-registry'',
      cr_UID = ''uid-1'',
      Spec_Storage = st,
      Spec_Replicas = 1,
      Spec_NodeSelector = [],
      Spec_ImagePullSpec = ''docker.io/openshift/origin-docker-registry:latest'',
      Spec_HTTPSecret = ''secret'',
      Spec_Logging_Level = 2,
      Spec_TLS = Some True,
      Spec_Requests_Read = \<lparr>lim_MaxRunning = 0, lim_MaxInQueue = 0, lim_MaxWaitInQueue = ''0s''\<rparr>,
      Spec_Requests_Write = \<lparr>lim_MaxRunning = 0, lim_MaxInQueue = 0, lim_MaxWaitInQueue = ''0s''\<rparr>\<rparr>"

definition noStorage :: StorageSpec where
  "noStorage = \<lparr>Filesystem = None, Azure = None, GCS = None, S3 = None, Swift = None\<rparr>"

definition emptyDirVolume :: VolumeSource where
  "emptyDirVolume =
     \<lparr>vs_HostPath = None, vs_EmptyDir = True, vs_PersistentVolumeClaim = None, vs_ConfigMap = None\<rparr>"

definition filesystemStorage :: StorageSpec where
  "filesystemStorage = noStorage\<lparr>Filesystem := Some \<lparr>fs_VolumeSource = emptyDirVolume\<rparr>\<rparr>"

definition gcsStorage :: StorageSpec where
  "gcsStorage = noStorage\<lparr>GCS := Some \<lparr>gcs_Bucket = ''bucket''\<rparr>\<rparr>"

definition filesystemAndGcsStorage :: StorageSpec where
  "filesystemAndGcsStorage = filesystemStorage\<lparr>GCS := Some \<lparr>gcs_Bucket = ''bucket''\<rparr>\<rparr>"

definition azureStorage :: StorageSpec where
  "azureStorage =
     noStorage\<lparr>Azure := Some \<lparr>az_AccountName = ''account'', az_AccountKey = ''key'',
                              az_Container = ''registry''\<rparr>\<rparr>"

definition s3Storage :: StorageSpec where
  "s3Storage =
     noStorage\<lparr>S3 := Some \<lparr>s3_AccessKey = ''access'', s3_SecretKey = ''secret'',
                           s3_Bucket = ''bucket'', s3_Region = ''us-east-1'',
                           s3_RegionEndpoint = [], s3_Encrypt = True\<rparr>\<rparr>"

definition swiftStorage :: StorageSpec where
  "swiftStorage =
     noStorage\<lparr>Swift := Some \<lparr>sw_AuthURL = ''https://keystone.example.com/v3'',
                              sw_Username = ''registry'', sw_Password = ''password'',
                              sw_Container = ''registry''\<rparr>\<rparr>"


definition availableSince :: "Time \<Rightarrow> ImageRegistryStatus" where
  "availableSince t =
     \<lparr>Conditions =
        [\<lparr>cond_Type = OperatorStatusTypeAvailable,
          cond_Status = ConditionTrue,
          cond_LastTransitionTime = t,
          cond_Reason = ''ResourceApplied'',
          cond_Message = ''all resources applied''\<rparr>],
      InternalRegistryHostname = [],
      ObservedGeneration = 1\<rparr>"

text \<open>
  A deployment config with generation 1 and a replica target of 3, three updated and
  three current replicas, and the given available replicas and observed generation.
\<close>

definition exampleDeploymentConfig :: "32 word \<Rightarrow> 64 word \<Rightarrow> DeploymentConfigObj" where
  "exampleDeploymentConfig available observed =
     \<lparr>dc_Generation = 1,
      dc_Spec_Replicas = 3,
      dc_Status_UpdatedReplicas = 3,
      dc_Status_Replicas = 3,
      dc_Status_AvailableReplicas = available,
      dc_Status_ObservedGeneration = observed\<rparr>"

definition quietStatusHandler :: "unit StatusHandler" where
  "quietStatusHandler t s m w = (None, w)"

section \<open>Applying objects (apply.go)\<close>

subsection \<open>The cluster, the calls made on it, and retries\<close>

text \<open>
  The cluster is a state \<open>'w\<close> on which the client operations act.  A run carries the
  cluster together with the list of calls made so far, so that a property can say which
  calls a function made and in which order.
\<close>

record ('c, 'w) run =
  world :: 'w
  calls :: "'c list"

definition newCalls :: "('c, 'w) run \<Rightarrow> ('c, 'w) run \<Rightarrow> 'c list" where
  "newCalls st st' = drop (length (calls st)) (calls st')"

text \<open>
  Modelled from the spec: \<open>retry.RetryOnConflict\<close> with \<open>retry.DefaultBackoff\<close> belongs
  to the client library and is not among the sources.  The specification describes it as a
  bounded conflict-retry loop: on a conflict error the function is run again, up to a
  fixed budget; any other error aborts at once and is returned; when the budget is used
  up the last conflict error is returned.  The budget of \<open>DefaultBackoff\<close> is four
  attempts.  The waiting between attempts has no effect on the state.
\<close>

fun RetryOnConflict_steps ::
  "nat \<Rightarrow> ('s \<Rightarrow> error option \<times> 's) \<Rightarrow> error option \<Rightarrow> 's \<Rightarrow> error option \<times> 's" where
  "RetryOnConflict_steps 0 fn lastConflictErr s = (lastConflictErr, s)"
| "RetryOnConflict_steps (Suc n) fn lastConflictErr s =
     (case fn s of
        (None, s') \<Rightarrow> (None, s')
      | (Some err, s') \<Rightarrow>
          if IsConflict err then RetryOnConflict_steps n fn (Some err) s'
          else (Some err, s'))"

definition DefaultBackoff_Steps :: nat where
  "DefaultBackoff_Steps = 4"

definition RetryOnConflict :: "nat \<Rightarrow> ('s \<Rightarrow> error option \<times> 's) \<Rightarrow> 's \<Rightarrow> error option \<times> 's" where
  "RetryOnConflict steps fn s = RetryOnConflict_steps steps fn None s"

subsection \<open>Objects and the SDK client\<close>

record ObjectMeta =
  om_Name :: string
  om_Namespace :: string
  om_Labels :: "(string \<times> string) list"
  om_Annotations :: "(string \<times> string) list"
  om_OwnerReferences :: "OwnerReference list"
  om_ResourceVersion :: string

text \<open>
  What the apply functions need of an object type \<open>'o\<close>: \<open>checksum\<close> (the SHA-256
  digest of the JSON encoding, which can fail to encode), \<open>kmeta.Accessor\<close> (which fails on
  an object without metadata) with the setter for annotations, and the two renderings
  that \<open>templateName\<close> prints.  A Go map that is nil and one that is empty both read as
  the empty list.
\<close>

record 'o ObjectOps =
  checksum :: "'o \<Rightarrow> string result"
  Accessor :: "'o \<Rightarrow> ObjectMeta result"
  SetAnnotations :: "'o \<Rightarrow> (string \<times> string) list \<Rightarrow> 'o"
  GroupVersionKind :: "'o \<Rightarrow> string"
  GoSyntax :: "'o \<Rightarrow> string"

text \<open>
  The operator SDK: \<open>sdk.Get\<close> fills the object it is given from the cluster,
  \<open>sdk.Create\<close> and \<open>sdk.Update\<close> write one.  Each can fail.
\<close>

record ('o, 'w) Sdk =
  sdk_Get :: "'o \<Rightarrow> 'w \<Rightarrow> 'o result \<times> 'w"
  sdk_Create :: "'o \<Rightarrow> 'w \<Rightarrow> error option \<times> 'w"
  sdk_Update :: "'o \<Rightarrow> 'w \<Rightarrow> error option \<times> 'w"

datatype 'o sdk_call = CallGet 'o | CallCreate 'o | CallUpdate 'o

definition isWrite :: "'o sdk_call \<Rightarrow> bool" where
  "isWrite c = (case c of CallGet x \<Rightarrow> False | CallCreate x \<Rightarrow> True | CallUpdate x \<Rightarrow> True)"

definition do_Get ::
  "('o, 'w) Sdk \<Rightarrow> 'o \<Rightarrow> ('o sdk_call, 'w) run \<Rightarrow> 'o result \<times> ('o sdk_call, 'w) run" where
  "do_Get sdk ob st =
     (case sdk_Get sdk ob (world st) of
        (r, w) \<Rightarrow> (r, \<lparr>world = w, calls = calls st @ [CallGet ob]\<rparr>))"

definition do_Create ::
  "('o, 'w) Sdk \<Rightarrow> 'o \<Rightarrow> ('o sdk_call, 'w) run \<Rightarrow> error option \<times> ('o sdk_call, 'w) run" where
  "do_Create sdk ob st =
     (case sdk_Create sdk ob (world st) of
        (r, w) \<Rightarrow> (r, \<lparr>world = w, calls = calls st @ [CallCreate ob]\<rparr>))"

definition do_Update ::
  "('o, 'w) Sdk \<Rightarrow> 'o \<Rightarrow> ('o sdk_call, 'w) run \<Rightarrow> error option \<times> ('o sdk_call, 'w) run" where
  "do_Update sdk ob st =
     (case sdk_Update sdk ob (world st) of
        (r, w) \<Rightarrow> (r, \<lparr>world = w, calls = calls st @ [CallUpdate ob]\<rparr>))"

subsection \<open>\<open>ApplyTemplate\<close>\<close>

record 'o Template =
  tmpl_Object :: 'o
  Strategy_Apply :: "'o \<Rightarrow> 'o \<Rightarrow> 'o result"

definition templateName :: "'o ObjectOps \<Rightarrow> 'o Template \<Rightarrow> string" where
  "templateName ops tmpl =
     (let gvk = GroupVersionKind ops (tmpl_Object tmpl);
          name = (case Accessor ops (tmpl_Object tmpl) of
                    Failed err \<Rightarrow> GoSyntax ops (tmpl_Object tmpl)
                  | Ok accessor \<Rightarrow>
                      (if om_Namespace accessor \<noteq> []
                       then ''Namespace='' @ om_Namespace accessor @ '', '' else []) @
                      ''Name='' @ om_Name accessor)
      in gvk @ '', '' @ name)"

text \<open>
  The function literal that \<open>ApplyTemplate\<close> hands to \<open>RetryOnConflict\<close>.  Its state is the
  flag behind the pointer \<open>modified\<close> and the run.
\<close>

definition ApplyTemplate_attempt ::
  "'o ObjectOps \<Rightarrow> ('o, 'w) Sdk \<Rightarrow> 'o Template \<Rightarrow> string
     \<Rightarrow> bool \<times> ('o sdk_call, 'w) run \<Rightarrow> error option \<times> bool \<times> ('o sdk_call, 'w) run" where
  "ApplyTemplate_attempt ops sdk tmpl dgst s =
     (case s of (modified, st) \<Rightarrow>
      (case do_Get sdk (tmpl_Object tmpl) st of
         (Failed err, st1) \<Rightarrow>
           if \<not> IsNotFound err
           then (Some (Errorf ''failed to get %s: %s'' [ArgStr (templateName ops tmpl), ArgErr err]),
                 modified, st1)
           else (case do_Create sdk (tmpl_Object tmpl) st1 of
                   (err', st2) \<Rightarrow> (err', err' = None, st2))
       | (Ok current, st1) \<Rightarrow>
           (case Accessor ops current of
              Failed err \<Rightarrow>
                (Some (Errorf ''unable to get meta accessor for current object: %s'' [ArgErr err]),
                 modified, st1)
            | Ok currentMeta \<Rightarrow>
                if map_of (om_Annotations currentMeta) checksumOperatorAnnotation = Some dgst
                then (None, modified, st1)
                else
                  (case Strategy_Apply tmpl current (tmpl_Object tmpl) of
                     Failed err \<Rightarrow>
                       (Some (Errorf ''unable to apply template %s: %s''
                                [ArgStr (templateName ops tmpl), ArgErr err]),
                        modified, st1)
                   | Ok updated \<Rightarrow>
                       (case Accessor ops updated of
                          Failed err \<Rightarrow>
                            (Some (Errorf ''unable to get meta accessor for updated object: %s''
                                     [ArgErr err]),
                             modified, st1)
                        | Ok updatedMeta \<Rightarrow>
                            (let updated' = SetAnnotations ops updated
                                   (AList.update checksumOperatorAnnotation dgst
                                      (om_Annotations updatedMeta))
                             in case do_Update sdk updated' st1 of
                                  (err', st2) \<Rightarrow> (err', err' = None, st2)))))))"

definition ApplyTemplate ::
  "'o ObjectOps \<Rightarrow> ('o, 'w) Sdk \<Rightarrow> 'o Template \<Rightarrow> bool \<Rightarrow> ('o sdk_call, 'w) run
     \<Rightarrow> error option \<times> bool \<times> ('o sdk_call, 'w) run" where
  "ApplyTemplate ops sdk tmpl modified st =
     (case checksum ops (tmpl_Object tmpl) of
        Failed err \<Rightarrow>
          (Some (Errorf ''unable to generate checksum for %s: %s''
                   [ArgStr (templateName ops tmpl), ArgErr err]),
           modified, st)
      | Ok dgst \<Rightarrow>
          RetryOnConflict DefaultBackoff_Steps (ApplyTemplate_attempt ops sdk tmpl dgst) (modified, st))"

subsection \<open>\<open>ApplyService\<close>\<close>

record ServicePort =
  port_Name :: string
  port_Port :: "32 word"
  port_Protocol :: string
  port_TargetPort :: "32 word"

text \<open>
  A \<open>corev1.Service\<close>: the fields the operator writes (selector, type, ports) and one it
  does not (the cluster IP, which the API server assigns).
\<close>

record ServiceObj =
  svc_APIVersion :: string
  svc_Kind :: string
  svc_ObjectMeta :: ObjectMeta
  svc_Spec_Selector :: "(string \<times> string) list"
  svc_Spec_Type :: string
  svc_Spec_Ports :: "ServicePort list"
  svc_Spec_ClusterIP :: string

definition mergeObjectMeta :: "ObjectMeta \<Rightarrow> ObjectMeta \<Rightarrow> ObjectMeta" where
  "mergeObjectMeta existing required =
     existing\<lparr>om_Name := om_Name required,
               om_Namespace := om_Namespace required,
               om_Labels := om_Labels required,
               om_Annotations := om_Annotations required,
               om_OwnerReferences := om_OwnerReferences required\<rparr>"

text \<open>
  The function literal of \<open>ApplyService\<close>.  It writes the checksum annotation into
  \<open>expect\<close> through the pointer, so \<open>expect\<close> is part of its state beside the flag
  \<open>modified\<close> and the run.
\<close>

definition ApplyService_attempt ::
  "(ServiceObj, 'w) Sdk \<Rightarrow> string
     \<Rightarrow> ServiceObj \<times> bool \<times> (ServiceObj sdk_call, 'w) run
     \<Rightarrow> error option \<times> ServiceObj \<times> bool \<times> (ServiceObj sdk_call, 'w) run" where
  "ApplyService_attempt sdk dgst s =
     (case s of (expect, modified, st) \<Rightarrow>
      (let current0 = \<lparr>svc_APIVersion = svc_APIVersion expect,
                       svc_Kind = svc_Kind expect,
                       svc_ObjectMeta = svc_ObjectMeta expect,
                       svc_Spec_Selector = [],
                       svc_Spec_Type = [],
                       svc_Spec_Ports = [],
                       svc_Spec_ClusterIP = []\<rparr>
       in case do_Get sdk current0 st of
            (Failed err, st1) \<Rightarrow>
              if \<not> IsNotFound err
              then (Some (Errorf ''failed to get service %s: %s''
                            [ArgStr (om_Name (svc_ObjectMeta expect)), ArgErr err]),
                    expect, modified, st1)
              else (case do_Create sdk expect st1 of
                      (err', st2) \<Rightarrow> (err', expect, err' = None, st2))
          | (Ok current, st1) \<Rightarrow>
              if map_of (om_Annotations (svc_ObjectMeta current)) checksumOperatorAnnotation = Some dgst
              then (None, expect, modified, st1)
              else
                (let expect' = expect\<lparr>svc_ObjectMeta := (svc_ObjectMeta expect)
                                 \<lparr>om_Annotations := AList.update checksumOperatorAnnotation dgst
                                    (om_Annotations (svc_ObjectMeta expect))\<rparr>\<rparr>;
                     current' = current\<lparr>svc_ObjectMeta :=
                                   mergeObjectMeta (svc_ObjectMeta current) (svc_ObjectMeta expect'),
                                 svc_Spec_Selector := svc_Spec_Selector expect',
                                 svc_Spec_Type := svc_Spec_Type expect',
                                 svc_Spec_Ports := svc_Spec_Ports expect'\<rparr>
                 in case do_Update sdk current' st1 of
                      (err', st2) \<Rightarrow> (err', expect', err' = None, st2))))"

text \<open>
  \<open>ApplyService expect modified\<close>, given the \<open>checksum\<close> function for services.  The
  result carries the error, \<open>expect\<close> and \<open>modified\<close> as the call leaves them, and the
  run.
\<close>

definition ApplyService ::
  "(ServiceObj \<Rightarrow> string result) \<Rightarrow> (ServiceObj, 'w) Sdk \<Rightarrow> ServiceObj \<Rightarrow> bool
     \<Rightarrow> (ServiceObj sdk_call, 'w) run
     \<Rightarrow> error option \<times> ServiceObj \<times> bool \<times> (ServiceObj sdk_call, 'w) run" where
  "ApplyService checksumOf sdk expect modified st =
     (case checksumOf expect of
        Failed err \<Rightarrow>
          (Some (Errorf ''unable to generate CR checksum: %s'' [ArgErr err]), expect, modified, st)
      | Ok dgst \<Rightarrow>
          RetryOnConflict DefaultBackoff_Steps (ApplyService_attempt sdk dgst) (expect, modified, st))"

text \<open>\<open>GenerateService\<close> (generate.go), the service that \<open>ApplyService\<close> is given.\<close>

definition GenerateService :: "RegistryCR \<Rightarrow> Parameters \<Rightarrow> ServiceObj" where
  "GenerateService cr p =
     \<lparr>svc_APIVersion = ''v1'',
      svc_Kind = ''Service'',
      svc_ObjectMeta =
        \<lparr>om_Name = Deployment_Name p,
         om_Namespace = Deployment_Namespace p,
         om_Labels = Deployment_Labels p,
         om_Annotations = [],
         om_OwnerReferences = [asOwner cr],
         om_ResourceVersion = []\<rparr>,
      svc_Spec_Selector = Deployment_Labels p,
      svc_Spec_Type = [],
      svc_Spec_Ports =
        [\<lparr>port_Name = Itoa (Container_Port p) @ ''-tcp'',
          port_Port = word_of_int (Container_Port p),
          port_Protocol = ''TCP'',
          port_TargetPort = word_of_int (Container_Port p)\<rparr>],
      svc_Spec_ClusterIP = []\<rparr>"

section \<open>The generator (generator.go)\<close>

subsection \<open>The configuration, mutators and storage drivers\<close>

record ImageRegistryConfigRoute =
  rt_Name :: string
  rt_Hostname :: string
  rt_SecretName :: string

text \<open>
  The \<open>imageregistryv1.Config\<close> with the fields the generator itself reads.  What a driver
  or a mutator keeps of the resource, or writes to its status through the pointer, is part
  of the cluster state \<open>'w\<close>.
\<close>

record Config =
  cfg_Spec_Storage :: StorageSpec
  cfg_Spec_DefaultRoute :: bool
  cfg_Spec_Routes :: "ImageRegistryConfigRoute list"
  cfg_Status_Storage :: StorageSpec

datatype DeletionPropagation =
  DeletePropagationOrphan | DeletePropagationBackground | DeletePropagationForeground

record DeleteOptions =
  GracePeriodSeconds :: "64 word option"
  PropagationPolicy :: "DeletionPropagation option"

record RouteObj =
  route_Name :: string
  route_Namespace :: string
  route_Labels :: "(string \<times> string) list"
  route_OwnerReferences :: "OwnerReference list"

text \<open>
  The \<open>Mutator\<close> interface: one value per managed object, with the text that the helper
  \<open>Name(gen)\<close> prints for it.  \<open>Update\<close> returns the new object and whether it changed
  anything.  The implementations are outside these sources; a mutator is any value of
  this record.
\<close>

record ('o, 'w) Mutator =
  mut_TypeAndName :: string
  GetName :: string
  Get :: "'w \<Rightarrow> 'o result \<times> 'w"
  Create :: "'w \<Rightarrow> 'o result \<times> 'w"
  Update :: "'o \<Rightarrow> 'w \<Rightarrow> ('o \<times> bool) result \<times> 'w"
  Delete :: "DeleteOptions \<Rightarrow> 'w \<Rightarrow> error option \<times> 'w"
  Owned :: bool

text \<open>
  The storage driver interface as the generator calls it.  \<open>StorageExists\<close> and
  \<open>RemoveStorage\<close> return a pair of a flag and an error, as in Go.
\<close>

record 'w Driver =
  StorageChanged :: "Config \<Rightarrow> 'w \<Rightarrow> bool \<times> 'w"
  StorageExists :: "Config \<Rightarrow> 'w \<Rightarrow> (bool \<times> error option) \<times> 'w"
  CreateStorage :: "Config \<Rightarrow> 'w \<Rightarrow> error option \<times> 'w"
  RemoveStorage :: "Config \<Rightarrow> 'w \<Rightarrow> (bool \<times> error option) \<times> 'w"

text \<open>
  The generator \<open>g\<close> with everything it reaches that lies outside these sources: the five
  client constructors (each yields a client or an error), the two driver constructors,
  the constructor of every mutator, the route lister and the route client's
  \<open>Delete\<close>, the predicate \<open>RouteIsCreatedByOperator\<close>, the constant
  \<open>DefaultRouteName\<close> and the deployment namespace of the parameters.
\<close>

record ('o, 'w) Generator =
  coreset_NewForConfig :: "error option"
  appsset_NewForConfig :: "error option"
  rbacset_NewForConfig :: "error option"
  routeset_NewForConfig :: "error option"
  configset_NewForConfig :: "error option"
  storage_NewDriver :: "StorageSpec \<Rightarrow> ('w Driver) result"
  storage_NewDriverFromStatus :: "StorageSpec \<Rightarrow> ('w Driver) result"
  newGeneratorClusterRole :: "Config \<Rightarrow> ('o, 'w) Mutator"
  newGeneratorClusterRoleBinding :: "Config \<Rightarrow> ('o, 'w) Mutator"
  newGeneratorServiceAccount :: "Config \<Rightarrow> ('o, 'w) Mutator"
  newGeneratorServiceCA :: "('o, 'w) Mutator"
  newGeneratorCAConfig :: "Config \<Rightarrow> ('o, 'w) Mutator"
  newGeneratorSecret :: "'w Driver \<Rightarrow> Config \<Rightarrow> ('o, 'w) Mutator"
  newGeneratorImageConfig :: "('o, 'w) Mutator"
  newGeneratorNodeCADaemonSet :: "('o, 'w) Mutator"
  newGeneratorService :: "Config \<Rightarrow> ('o, 'w) Mutator"
  newGeneratorDeployment :: "'w Driver \<Rightarrow> Config \<Rightarrow> ('o, 'w) Mutator"
  newGeneratorRoute :: "Config \<Rightarrow> ImageRegistryConfigRoute \<Rightarrow> ('o, 'w) Mutator"
  newGeneratorClusterOperator :: "Config \<Rightarrow> ('o, 'w) Mutator list \<Rightarrow> ('o, 'w) Mutator"
  listers_Routes_List :: "'w \<Rightarrow> (RouteObj list) result \<times> 'w"
  routeClient_Delete :: "string \<Rightarrow> string \<Rightarrow> DeleteOptions \<Rightarrow> 'w \<Rightarrow> error option \<times> 'w"
  RouteIsCreatedByOperator :: "RouteObj \<Rightarrow> bool"
  DefaultRouteName :: string
  params_Deployment_Namespace :: string

text \<open>The calls that the generator makes on its collaborators.\<close>

datatype gen_call =
    CallMutatorGet string
  | CallMutatorCreate string
  | CallMutatorUpdate string
  | CallMutatorDelete string DeleteOptions
  | CallStorageChanged
  | CallStorageExists
  | CallCreateStorage
  | CallRemoveStorage
  | CallRoutesList
  | CallRouteDelete string string DeleteOptions

definition logged :: "gen_call \<Rightarrow> ('w \<Rightarrow> 'a \<times> 'w) \<Rightarrow> (gen_call, 'w) run \<Rightarrow> 'a \<times> (gen_call, 'w) run" where
  "logged c f st = (case f (world st) of (r, w) \<Rightarrow> (r, \<lparr>world = w, calls = calls st @ [c]\<rparr>))"

subsection \<open>\<open>listRoutes\<close> and \<open>list\<close>\<close>

definition listRoutes :: "('o, 'w) Generator \<Rightarrow> Config \<Rightarrow> ('o, 'w) Mutator list" where
  "listRoutes g cr =
     (if cfg_Spec_DefaultRoute cr
      then [newGeneratorRoute g cr
              \<lparr>rt_Name = DefaultRouteName g, rt_Hostname = [], rt_SecretName = []\<rparr>]
      else []) @
     map (newGeneratorRoute g cr) (cfg_Spec_Routes cr)"

definition list_mutators :: "('o, 'w) Generator \<Rightarrow> Config \<Rightarrow> (('o, 'w) Mutator list) result" where
  "list_mutators g cr =
     (case coreset_NewForConfig g of Some err \<Rightarrow> Failed err | None \<Rightarrow>
     (case appsset_NewForConfig g of Some err \<Rightarrow> Failed err | None \<Rightarrow>
     (case rbacset_NewForConfig g of Some err \<Rightarrow> Failed err | None \<Rightarrow>
     (case routeset_NewForConfig g of Some err \<Rightarrow> Failed err | None \<Rightarrow>
     (case configset_NewForConfig g of Some err \<Rightarrow> Failed err | None \<Rightarrow>
     (case storage_NewDriver g (cfg_Spec_Storage cr) of
        Failed err \<Rightarrow> Failed err
      | Ok driver \<Rightarrow>
          (let mutators =
                 [newGeneratorClusterRole g cr,
                  newGeneratorClusterRoleBinding g cr,
                  newGeneratorServiceAccount g cr,
                  newGeneratorServiceCA g,
                  newGeneratorCAConfig g cr,
                  newGeneratorSecret g driver cr,
                  newGeneratorImageConfig g,
                  newGeneratorNodeCADaemonSet g,
                  newGeneratorService g cr,
                  newGeneratorDeployment g driver cr] @
                 listRoutes g cr
           in Ok (mutators @ [newGeneratorClusterOperator g cr mutators]))))))))"

subsection \<open>\<open>syncStorage\<close>\<close>

definition syncStorage ::
  "('o, 'w) Generator \<Rightarrow> Config \<Rightarrow> (gen_call, 'w) run \<Rightarrow> error option \<times> (gen_call, 'w) run" where
  "syncStorage g cr st =
     (case storage_NewDriver g (cfg_Spec_Storage cr) of
        Failed err \<Rightarrow> (Some err, st)
      | Ok driver \<Rightarrow>
          (case logged CallStorageChanged (StorageChanged driver cr) st of
             (True, st1) \<Rightarrow> logged CallCreateStorage (CreateStorage driver cr) st1
           | (False, st1) \<Rightarrow>
               (case logged CallStorageExists (StorageExists driver cr) st1 of
                  ((exists, Some err), st2) \<Rightarrow> (Some err, st2)
                | ((exists, None), st2) \<Rightarrow>
                    if \<not> exists
                    then logged CallCreateStorage (CreateStorage driver cr) st2
                    else (None, st2))))"

subsection \<open>\<open>removeObsoleteRoutes\<close>\<close>

definition foregroundDeleteOptions :: DeleteOptions where
  "foregroundDeleteOptions =
     \<lparr>GracePeriodSeconds = Some 0, PropagationPolicy = Some DeletePropagationForeground\<rparr>"

fun removeObsoleteRoutes_loop ::
  "('o, 'w) Generator \<Rightarrow> string list \<Rightarrow> DeleteOptions \<Rightarrow> RouteObj list \<Rightarrow> (gen_call, 'w) run
     \<Rightarrow> error option \<times> (gen_call, 'w) run" where
  "removeObsoleteRoutes_loop g knownNames opts [] st = (None, st)"
| "removeObsoleteRoutes_loop g knownNames opts (route # routes) st =
     (if \<not> RouteIsCreatedByOperator g route
      then removeObsoleteRoutes_loop g knownNames opts routes st
      else if route_Name route \<in> set knownNames
      then removeObsoleteRoutes_loop g knownNames opts routes st
      else (case logged (CallRouteDelete (params_Deployment_Namespace g) (route_Name route) opts)
                   (routeClient_Delete g (params_Deployment_Namespace g) (route_Name route) opts) st of
              (Some err, st1) \<Rightarrow> (Some err, st1)
            | (None, st1) \<Rightarrow> removeObsoleteRoutes_loop g knownNames opts routes st1))"

definition removeObsoleteRoutes ::
  "('o, 'w) Generator \<Rightarrow> Config \<Rightarrow> (gen_call, 'w) run \<Rightarrow> error option \<times> (gen_call, 'w) run" where
  "removeObsoleteRoutes g cr st =
     (case routeset_NewForConfig g of
        Some err \<Rightarrow> (Some err, st)
      | None \<Rightarrow>
          (case logged CallRoutesList (listers_Routes_List g) st of
             (Failed err, st1) \<Rightarrow> (Some (Errorf ''failed to list routes: %s'' [ArgErr err]), st1)
           | (Ok routes, st1) \<Rightarrow>
               (let routesGenerators = listRoutes g cr;
                    knownNames = map GetName routesGenerators
                in removeObsoleteRoutes_loop g knownNames foregroundDeleteOptions routes st1)))"

subsection \<open>\<open>Apply\<close>\<close>

text \<open>
  The function literal that \<open>Apply\<close> hands to \<open>RetryOnConflict\<close> for one mutator.
  \<open>DeepCopyObject\<close> is the identity on values; dumping and diffing the objects only
  writes log lines.
\<close>

definition Apply_attempt ::
  "('o, 'w) Mutator \<Rightarrow> (gen_call, 'w) run \<Rightarrow> error option \<times> (gen_call, 'w) run" where
  "Apply_attempt gen st =
     (case logged (CallMutatorGet (mut_TypeAndName gen)) (Get gen) st of
        (Failed err, st1) \<Rightarrow>
          if \<not> IsNotFound err
          then (Some (Errorf ''failed to get object %s: %s''
                        [ArgStr (mut_TypeAndName gen), ArgErr err]), st1)
          else (case logged (CallMutatorCreate (mut_TypeAndName gen)) (Create gen) st1 of
                  (Failed err', st2) \<Rightarrow>
                    (Some (Errorf ''failed to create object %s: %s''
                             [ArgStr (mut_TypeAndName gen), ArgErr err']), st2)
                | (Ok n, st2) \<Rightarrow> (None, st2))
      | (Ok ob, st1) \<Rightarrow>
          (case logged (CallMutatorUpdate (mut_TypeAndName gen)) (Update gen ob) st1 of
             (Failed err, st2) \<Rightarrow>
               if IsConflict err then (Some err, st2)
               else (Some (Errorf ''failed to update object %s: %s''
                             [ArgStr (mut_TypeAndName gen), ArgErr err]), st2)
           | (Ok (n, updated), st2) \<Rightarrow> (None, st2)))"

fun Apply_generators ::
  "('o, 'w) Mutator list \<Rightarrow> (gen_call, 'w) run \<Rightarrow> error option \<times> (gen_call, 'w) run" where
  "Apply_generators [] st = (None, st)"
| "Apply_generators (gen # generators) st =
     (case RetryOnConflict DefaultBackoff_Steps (Apply_attempt gen) st of
        (Some err, st1) \<Rightarrow> (Some (Errorf ''unable to apply objects: %s'' [ArgErr err]), st1)
      | (None, st1) \<Rightarrow> Apply_generators generators st1)"

definition isConfigurationError :: "error \<Rightarrow> bool" where
  "isConfigurationError err = (case err of ConfigurationError m \<Rightarrow> True | _ \<Rightarrow> False)"

definition Apply ::
  "('o, 'w) Generator \<Rightarrow> Config \<Rightarrow> (gen_call, 'w) run \<Rightarrow> error option \<times> (gen_call, 'w) run" where
  "Apply g cr st =
     (case syncStorage g cr st of
        (Some err, st1) \<Rightarrow>
          if err = ErrStorageNotConfigured then (Some err, st1)
          else if isConfigurationError err then (Some err, st1)
          else (Some (Errorf ''unable to sync storage configuration: %s'' [ArgErr err]), st1)
      | (None, st1) \<Rightarrow>
          (case list_mutators g cr of
             Failed err \<Rightarrow> (Some (Errorf ''unable to get generators: %s'' [ArgErr err]), st1)
           | Ok generators \<Rightarrow>
               (case Apply_generators generators st1 of
                  (Some err, st2) \<Rightarrow> (Some err, st2)
                | (None, st2) \<Rightarrow>
                    (case removeObsoleteRoutes g cr st2 of
                       (Some err, st3) \<Rightarrow>
                         (Some (Errorf ''unable to remove obsolete routes: %s'' [ArgErr err]), st3)
                     | (None, st3) \<Rightarrow> (None, st3)))))"

subsection \<open>\<open>Remove\<close>\<close>

text \<open>
  Modelled from the spec: \<open>wait.PollImmediate\<close> belongs to the API machinery library and is
  not among the sources.  The specification describes it as a bounded poll loop with a
  fixed interval and a fixed overall timeout ceiling.  The condition is tried at once and
  then once per interval; an error from the condition, or the condition being done, ends
  the loop; when the timeout has elapsed the loop ends with \<open>ErrWaitTimeout\<close>.
  Durations are nanoseconds, as in Go; the number of timed attempts is the number of
  whole intervals in the timeout.
\<close>

fun PollImmediate_ticks ::
  "nat \<Rightarrow> ('s \<Rightarrow> (bool \<times> error option) \<times> 's) \<Rightarrow> 's \<Rightarrow> error option \<times> 's" where
  "PollImmediate_ticks 0 condition s = (Some ErrWaitTimeout, s)"
| "PollImmediate_ticks (Suc n) condition s =
     (case condition s of
        ((done, Some err), s') \<Rightarrow> (Some err, s')
      | ((done, None), s') \<Rightarrow>
          if done then (None, s') else PollImmediate_ticks n condition s')"

definition PollImmediate ::
  "nat \<Rightarrow> nat \<Rightarrow> ('s \<Rightarrow> (bool \<times> error option) \<times> 's) \<Rightarrow> 's \<Rightarrow> error option \<times> 's" where
  "PollImmediate interval timeout condition s =
     (case condition s of
        ((done, Some err), s') \<Rightarrow> (Some err, s')
      | ((done, None), s') \<Rightarrow>
          if done then (None, s') else PollImmediate_ticks (timeout div interval) condition s')"

definition Second :: nat where
  "Second = 1000000000"

definition Minute :: nat where
  "Minute = 60 * Second"

text \<open>
  The loop of \<open>Remove\<close> over the generators: mutators that are not owned are skipped, a
  not-found error from \<open>Delete\<close> is passed over, any other error ends \<open>Remove\<close>.
\<close>

fun Remove_generators ::
  "DeleteOptions \<Rightarrow> ('o, 'w) Mutator list \<Rightarrow> (gen_call, 'w) run
     \<Rightarrow> error option \<times> (gen_call, 'w) run" where
  "Remove_generators opts [] st = (None, st)"
| "Remove_generators opts (gen # generators) st =
     (if \<not> Owned gen then Remove_generators opts generators st
      else (case logged (CallMutatorDelete (mut_TypeAndName gen) opts) (Delete gen opts) st of
              (Some err, st1) \<Rightarrow>
                if IsNotFound err then Remove_generators opts generators st1
                else (Some (Errorf ''failed to delete object %s: %s''
                              [ArgStr (mut_TypeAndName gen), ArgErr err]), st1)
            | (None, st1) \<Rightarrow> Remove_generators opts generators st1))"

text \<open>
  The condition that \<open>Remove\<close> polls.  Its state holds the two variables that the function
  literal assigns, \<open>retriable\<close> and \<open>derr\<close>, and the run.
\<close>

definition Remove_condition ::
  "'w Driver \<Rightarrow> Config \<Rightarrow> bool \<times> error option \<times> (gen_call, 'w) run
     \<Rightarrow> (bool \<times> error option) \<times> bool \<times> error option \<times> (gen_call, 'w) run" where
  "Remove_condition driver cr s =
     (case s of (retriable0, derr0, st) \<Rightarrow>
      (case logged CallRemoveStorage (RemoveStorage driver cr) st of
         ((retriable, derr), st1) \<Rightarrow>
           if derr \<noteq> None
           then if retriable then ((False, None), retriable, derr, st1)
                else ((True, derr), retriable, derr, st1)
           else ((True, None), retriable, derr, st1)))"

definition errArg :: "error option \<Rightarrow> fmtarg" where
  "errArg e = (case e of None \<Rightarrow> ArgNil | Some err \<Rightarrow> ArgErr err)"

text \<open>The storage teardown at the end of \<open>Remove\<close>, from the driver construction on.\<close>

definition Remove_storage ::
  "('o, 'w) Generator \<Rightarrow> Config \<Rightarrow> (gen_call, 'w) run \<Rightarrow> error option \<times> (gen_call, 'w) run" where
  "Remove_storage g cr st =
     (case storage_NewDriverFromStatus g (cfg_Status_Storage cr) of
        Failed err \<Rightarrow> (Some err, st)
      | Ok driver \<Rightarrow>
          (case PollImmediate (1 * Second) (5 * Minute) (Remove_condition driver cr) (False, None, st) of
             (Some err, retriable, derr, st1) \<Rightarrow>
               (Some (Errorf ''unable to remove storage: %s, %s'' [ArgErr err, errArg derr]), st1)
           | (None, retriable, derr, st1) \<Rightarrow> (None, st1)))"

definition Remove ::
  "('o, 'w) Generator \<Rightarrow> Config \<Rightarrow> (gen_call, 'w) run \<Rightarrow> error option \<times> (gen_call, 'w) run" where
  "Remove g cr st =
     (case list_mutators g cr of
        Failed err \<Rightarrow> (Some (Errorf ''unable to get generators: %s'' [ArgErr err]), st)
      | Ok generators \<Rightarrow>
          (case Remove_generators foregroundDeleteOptions generators st of
             (Some err, st1) \<Rightarrow> (Some err, st1)
           | (None, st1) \<Rightarrow> Remove_storage g cr st1))"

subsection \<open>Notions used to state the properties of the generator\<close>

text \<open>
  The names of the desired routes, in the words of the specification: the default route
  when it is enabled, plus every declared route.
\<close>

definition desiredRouteNames :: "('o, 'w) Generator \<Rightarrow> Config \<Rightarrow> string list" where
  "desiredRouteNames g cr =
     (if cfg_Spec_DefaultRoute cr then [DefaultRouteName g] else []) @
     map rt_Name (cfg_Spec_Routes cr)"

text \<open>
  The routes that garbage collection is to delete, in the words of the specification:
  the listed routes that the operator created and whose names are absent from the desired
  set.
\<close>

definition isObsolete :: "('o, 'w) Generator \<Rightarrow> string list \<Rightarrow> RouteObj \<Rightarrow> bool" where
  "isObsolete g desired route =
     (RouteIsCreatedByOperator g route \<and> route_Name route \<notin> set desired)"

definition obsoleteRoutes :: "('o, 'w) Generator \<Rightarrow> Config \<Rightarrow> RouteObj list \<Rightarrow> RouteObj list" where
  "obsoleteRoutes g cr routes = filter (isObsolete g (desiredRouteNames g cr)) routes"

text \<open>
  The cluster after the routes \<open>rs\<close> have been deleted one after the other, each in the
  deployment namespace and with the delete options of the garbage collection; and the
  error, if any, that the deletion of the route at position \<open>i\<close> returns once those before
  it have been deleted.
\<close>

definition worldAfterDeletes :: "('o, 'w) Generator \<Rightarrow> RouteObj list \<Rightarrow> 'w \<Rightarrow> 'w" where
  "worldAfterDeletes g rs w =
     fold (\<lambda>r w'. snd (routeClient_Delete g (params_Deployment_Namespace g) (route_Name r)
                          foregroundDeleteOptions w')) rs w"

definition nthDelete :: "('o, 'w) Generator \<Rightarrow> RouteObj list \<Rightarrow> 'w \<Rightarrow> nat \<Rightarrow> error option" where
  "nthDelete g rs w i =
     fst (routeClient_Delete g (params_Deployment_Namespace g) (route_Name (rs ! i))
            foregroundDeleteOptions (worldAfterDeletes g (take i rs) w))"

text \<open>
  The cluster after \<open>k\<close> successive calls of \<open>RemoveStorage\<close>, and what the next call
  returns.
\<close>

definition worldAfterRemoveStorage :: "'w Driver \<Rightarrow> Config \<Rightarrow> 'w \<Rightarrow> nat \<Rightarrow> 'w" where
  "worldAfterRemoveStorage driver cr w k = ((\<lambda>w'. snd (RemoveStorage driver cr w')) ^^ k) w"

definition nthRemoveStorage :: "'w Driver \<Rightarrow> Config \<Rightarrow> 'w \<Rightarrow> nat \<Rightarrow> bool \<times> error option" where
  "nthRemoveStorage driver cr w k = fst (RemoveStorage driver cr (worldAfterRemoveStorage driver cr w k))"

subsection \<open>A small cluster for the generator\<close>

text \<open>
  A cluster state with the routes it holds, what the storage driver finds, a script of
  the results that successive
  \<open>RemoveStorage\<close> calls return (after the script: a retriable error, every time), and
  the objects of the mutators by name.
\<close>

record ExampleWorld =
  ew_routes :: "RouteObj list"
  ew_storageChanged :: bool
  ew_storageExists :: "bool \<times> error option"
  ew_removeStorage :: "(bool \<times> error option) list"
  ew_objects :: "(string \<times> string) list"

definition exampleMutator :: "string \<Rightarrow> (string, ExampleWorld) Mutator" where
  "exampleMutator n =
     \<lparr>mut_TypeAndName = n,
      GetName = n,
      Get = (\<lambda>w. case map_of (ew_objects w) n of
                    None \<Rightarrow> (Failed NotFound, w)
                  | Some ob \<Rightarrow> (Ok ob, w)),
      Create = (\<lambda>w. (Ok n, w\<lparr>ew_objects := (n, n) # ew_objects w\<rparr>)),
      Update = (\<lambda>ob w. (Ok (ob, False), w)),
      Delete = (\<lambda>opts w. (None, w\<lparr>ew_objects := filter (\<lambda>kv. fst kv \<noteq> n) (ew_objects w)\<rparr>)),
      Owned = True\<rparr>"

definition exampleDriver :: "ExampleWorld Driver" where
  "exampleDriver =
     \<lparr>StorageChanged = (\<lambda>cr w. (ew_storageChanged w, w)),
      StorageExists = (\<lambda>cr w. (ew_storageExists w, w)),
      CreateStorage = (\<lambda>cr w. (None, w\<lparr>ew_storageExists := (True, None)\<rparr>)),
      RemoveStorage = (\<lambda>cr w. case ew_removeStorage w of
                                  [] \<Rightarrow> ((True, Some (ApiError ''bucket is not empty'')), w)
                                | r # rs \<Rightarrow> (r, w\<lparr>ew_removeStorage := rs\<rparr>))\<rparr>"

definition exampleGenerator :: "(string, ExampleWorld) Generator" where
  "exampleGenerator =
     \<lparr>coreset_NewForConfig = None,
      appsset_NewForConfig = None,
      rbacset_NewForConfig = None,
      routeset_NewForConfig = None,
      configset_NewForConfig = None,
      storage_NewDriver = (\<lambda>s. Ok exampleDriver),
      storage_NewDriverFromStatus = (\<lambda>s. Ok exampleDriver),
      newGeneratorClusterRole = (\<lambda>cr. exampleMutator ''clusterrole''),
      newGeneratorClusterRoleBinding = (\<lambda>cr. exampleMutator ''clusterrolebinding''),
      newGeneratorServiceAccount = (\<lambda>cr. exampleMutator ''serviceaccount''),
      newGeneratorServiceCA = exampleMutator ''serviceca'',
      newGeneratorCAConfig = (\<lambda>cr. exampleMutator ''caconfig''),
      newGeneratorSecret = (\<lambda>d cr. exampleMutator ''secret''),
      newGeneratorImageConfig = exampleMutator ''imageconfig'',
      newGeneratorNodeCADaemonSet = exampleMutator ''nodecadaemonset'',
      newGeneratorService = (\<lambda>cr. exampleMutator ''service''),
      newGeneratorDeployment = (\<lambda>d cr. exampleMutator ''deployment''),
      newGeneratorRoute = (\<lambda>cr r. exampleMutator (rt_Name r)),
      newGeneratorClusterOperator = (\<lambda>cr ms. exampleMutator ''clusteroperator''),
      listers_Routes_List = (\<lambda>w. (Ok (ew_routes w), w)),
      routeClient_Delete =
        (\<lambda>ns n opts w. (None, w\<lparr>ew_routes := filter (\<lambda>r. route_Name r \<noteq> n) (ew_routes w)\<rparr>)),
      RouteIsCreatedByOperator =
        (\<lambda>r. map_of (route_Labels r) ''created-by'' = Some ''operator''),
      DefaultRouteName = ''default-route'',
      params_Deployment_Namespace = ''openshift-image-registry''\<rparr>"

definition operatorRoute :: "string \<Rightarrow> RouteObj" where
  "operatorRoute n =
     \<lparr>route_Name = n,
      route_Namespace = ''openshift-image-registry'',
      route_Labels = [(''created-by'', ''operator'')],
      route_OwnerReferences = []\<rparr>"

definition foreignRoute :: "string \<Rightarrow> RouteObj" where
  "foreignRoute n =
     \<lparr>route_Name = n,
      route_Namespace = ''openshift-image-registry'',
      route_Labels = [],
      route_OwnerReferences = []\<rparr>"

definition exampleConfig :: "ImageRegistryConfigRoute list \<Rightarrow> Config" where
  "exampleConfig routes =
     \<lparr>cfg_Spec_Storage = gcsStorage,
      cfg_Spec_DefaultRoute = False,
      cfg_Spec_Routes = routes,
      cfg_Status_Storage = gcsStorage\<rparr>"

definition declaredRoute :: "string \<Rightarrow> ImageRegistryConfigRoute" where
  "declaredRoute n = \<lparr>rt_Name = n, rt_Hostname = n @ ''.example.com'', rt_SecretName = []\<rparr>"

definition exampleWorld :: ExampleWorld where
  "exampleWorld =
     \<lparr>ew_routes = [],
      ew_storageChanged = False,
      ew_storageExists = (True, None),
      ew_removeStorage = [],
      ew_objects = []\<rparr>"

definition startRun :: "'w \<Rightarrow> ('c, 'w) run" where
  "startRun w = \<lparr>world = w, calls = []\<rparr>"

text \<open>The example generator with a route client that refuses to delete one route.\<close>

definition protectingGenerator :: "string \<Rightarrow> (string, ExampleWorld) Generator" where
  "protectingGenerator protected =
     exampleGenerator\<lparr>routeClient_Delete :=
       (\<lambda>ns n opts w.
          if n = protected then (Some (ApiError ''forbidden''), w)
          else (None, w\<lparr>ew_routes := filter (\<lambda>r. route_Name r \<noteq> n) (ew_routes w)\<rparr>))\<rparr>"

section \<open>The entry points of the event handler\<close>

text \<open>
  A Go function body is a list of statements run in order.  A statement either lets the
  run go on or ends it: with a returned value, or, for \<open>logrus.Fatalf\<close>, with the exit of
  the process.  Statements that follow a \<open>return\<close> are in the list but never run.
\<close>

datatype 'r outcome = Returned 'r | Exited string | NoReturn

datatype ('r, 'w) stmt =
    Return 'r
  | Exec "'w \<Rightarrow> 'r outcome option \<times> 'w"

fun exec :: "('r, 'w) stmt list \<Rightarrow> 'w \<Rightarrow> 'r outcome \<times> 'w" where
  "exec [] w = (NoReturn, w)"
| "exec (Return r # rest) w = (Returned r, w)"
| "exec (Exec f # rest) w =
     (case f w of
        (Some out, w') \<Rightarrow> (out, w')
      | (None, w') \<Rightarrow> exec rest w')"

record ImageRegistryCR =
  ir_Generation :: "64 word"
  ir_Status :: ImageRegistryStatus

datatype EventKind =
    KClusterRole | KClusterRoleBinding | KService | KServiceAccount | KConfigMap | KSecret
  | KRoute | KDeployment | KDeploymentConfig | KImageRegistry | KOther

record Event =
  ev_Kind :: EventKind
  ev_Deleted :: bool

text \<open>
  What the statements after the first statement of \<open>Handle\<close> do.  The type switch over
  the event's object (which calls \<open>reCreateByEvent\<close>, \<open>reDeployByEvent\<close>,
  \<open>syncDeploymentStatus\<close>, \<open>Bootstrap\<close>, \<open>RemoveResources\<close>,
  \<open>CreateOrUpdateResources\<close> and the cluster status handler, and returns from some of its
  cases) is the argument \<open>hd_dispatch\<close>: it either returns from \<open>Handle\<close> or leaves the
  variables \<open>cr\<close> and \<open>statusChanged\<close>.  \<open>hd_sdk_Update\<close> is \<open>sdk.Update\<close> on the resource.
\<close>

record 'w HandleDeps =
  hd_dispatch :: "Event \<Rightarrow> 'w \<Rightarrow> (error option + ImageRegistryCR option \<times> bool) \<times> 'w"
  hd_sdk_Update :: "ImageRegistryCR \<Rightarrow> 'w \<Rightarrow> error option \<times> 'w"

definition Handle_dispatch ::
  "'w HandleDeps \<Rightarrow> Event \<Rightarrow> 'w \<Rightarrow> (error option) outcome option \<times> 'w" where
  "Handle_dispatch deps event w =
     (case hd_dispatch deps event w of
        (Inl err, w1) \<Rightarrow> (Some (Returned err), w1)
      | (Inr (None, statusChanged), w1) \<Rightarrow> (None, w1)
      | (Inr (Some cr, statusChanged), w1) \<Rightarrow>
          if statusChanged
          then (case hd_sdk_Update deps
                       (cr\<lparr>ir_Status := (ir_Status cr)\<lparr>ObservedGeneration := ir_Generation cr\<rparr>\<rparr>) w1 of
                  (err, w2) \<Rightarrow> (None, w2))
          else (None, w1))"

text \<open>\<open>Handle\<close>: \<open>return nil\<close>, then the dispatch with the status update, then \<open>return nil\<close>.\<close>

definition Handle :: "'w HandleDeps \<Rightarrow> 'h \<Rightarrow> 'c \<Rightarrow> Event \<Rightarrow> 'w \<Rightarrow> (error option) outcome \<times> 'w" where
  "Handle deps h ctx event w =
     exec [Return None, Exec (Handle_dispatch deps event), Return None] w"

text \<open>
  The parameters that \<open>NewHandler\<close> fills in (the other fields of the struct keep their
  zero values), and the handler it builds.
\<close>

record Globals =
  g_Deployment_Namespace :: string
  g_Deployment_Labels :: "(string \<times> string) list"
  g_Pod_ServiceAccount :: string
  g_Container_Port :: int
  g_Healthz_Route :: string
  g_Healthz_TimeoutSeconds :: int
  g_Service_Name :: string
  g_ImageConfig_Name :: string

record ('gen, 'sh) Handler =
  h_params :: Globals
  h_generateDeployment :: 'gen
  h_clusterStatus :: 'sh

text \<open>
  What \<open>NewHandler\<close> calls outside these sources: the two environment lookups of
  \<open>k8sutil\<close>, the deployment generator of the resource package, the constructor of the
  status handler and its \<open>Create\<close>, and \<open>Bootstrap\<close>.
\<close>

record ('gen, 'sh, 'w) NewHandlerDeps =
  k8sutil_GetWatchNamespace :: "string result"
  k8sutil_GetOperatorName :: "string result"
  resource_Deployment :: 'gen
  clusteroperator_NewStatusHandler :: "string \<Rightarrow> string \<Rightarrow> 'sh"
  h_Bootstrap :: "('gen, 'sh) Handler \<Rightarrow> 'w \<Rightarrow> ImageRegistryCR result \<times> 'w"
  clusterStatus_Create :: "'sh \<Rightarrow> 'w \<Rightarrow> error option \<times> 'w"

definition NewHandler ::
  "('gen, 'sh, 'w) NewHandlerDeps \<Rightarrow> string \<Rightarrow> 'w
     \<Rightarrow> (('gen, 'sh) Handler option \<times> error option) outcome \<times> 'w" where
  "NewHandler deps namespace w =
     (case k8sutil_GetWatchNamespace deps of
        Failed err \<Rightarrow> (Exited ''Failed to get watch namespace: %v'', w)
      | Ok operatorNamespace \<Rightarrow>
     (case k8sutil_GetOperatorName deps of
        Failed err \<Rightarrow> (Exited ''Failed to get operator name: %v'', w)
      | Ok operatorName \<Rightarrow>
          (let p = \<lparr>g_Deployment_Namespace = namespace,
                    g_Deployment_Labels = [(''docker-registry'', ''default'')],
                    g_Pod_ServiceAccount = ''registry'',
                    g_Container_Port = 5000,
                    g_Healthz_Route = ''/healthz'',
                    g_Healthz_TimeoutSeconds = 5,
                    g_Service_Name = ''image-registry'',
                    g_ImageConfig_Name = ''cluster''\<rparr>;
               h = \<lparr>h_params = p,
                    h_generateDeployment = resource_Deployment deps,
                    h_clusterStatus =
                      clusteroperator_NewStatusHandler deps operatorName operatorNamespace\<rparr>
           in exec
                [Return (Some h, None),
                 Exec (\<lambda>w'. case h_Bootstrap deps h w' of
                               (Failed err, w'') \<Rightarrow> (Some (Returned (None, Some err)), w'')
                             | (Ok cr, w'') \<Rightarrow> (None, w'')),
                 Exec (\<lambda>w'. case clusterStatus_Create deps (h_clusterStatus h) w' of
                               (err, w'') \<Rightarrow> (None, w'')),
                 Return (Some h, None)] w)))"

text \<open>
  Collaborators of \<open>Handle\<close> on a cluster that only counts the calls made on it.
\<close>

definition countingDeps :: "nat HandleDeps" where
  "countingDeps =
     \<lparr>hd_dispatch = (\<lambda>event w. (Inr (None, False), Suc w)),
      hd_sdk_Update = (\<lambda>cr w. (None, Suc w))\<rparr>"

section \<open>An in-memory cluster of services\<close>

text \<open>
  A cluster that holds services by namespace and name: \<open>Get\<close> of an absent object is
  not-found, \<open>Create\<close> of a present one and \<open>Update\<close> of an absent one fail.
\<close>

definition sameObject :: "ServiceObj \<Rightarrow> ServiceObj \<Rightarrow> bool" where
  "sameObject a b =
     (om_Name (svc_ObjectMeta a) = om_Name (svc_ObjectMeta b) \<and>
      om_Namespace (svc_ObjectMeta a) = om_Namespace (svc_ObjectMeta b))"

definition memorySdk :: "(ServiceObj, ServiceObj list) Sdk" where
  "memorySdk =
     \<lparr>sdk_Get = (\<lambda>ob w. case find (sameObject ob) w of
                          None \<Rightarrow> (Failed NotFound, w)
                        | Some cur \<Rightarrow> (Ok cur, w)),
      sdk_Create = (\<lambda>ob w. case find (sameObject ob) w of
                             None \<Rightarrow> (None, w @ [ob])
                           | Some cur \<Rightarrow> (Some (ApiError ''already exists''), w)),
      sdk_Update = (\<lambda>ob w. case find (sameObject ob) w of
                             None \<Rightarrow> (Some NotFound, w)
                           | Some cur \<Rightarrow> (None, map (\<lambda>x. if sameObject ob x then ob else x) w))\<rparr>"

definition exampleService :: ServiceObj where
  "exampleService = GenerateService (exampleCR gcsStorage) exampleParameters"

text \<open>The service as it is stored once the checksum annotation has been written.\<close>

definition withChecksum :: "string \<Rightarrow> ServiceObj \<Rightarrow> ServiceObj" where
  "withChecksum dgst svc =
     svc\<lparr>svc_ObjectMeta := (svc_ObjectMeta svc)
           \<lparr>om_Annotations := AList.update checksumOperatorAnnotation dgst
              (om_Annotations (svc_ObjectMeta svc))\<rparr>\<rparr>"

text \<open>
  The object that \<open>ApplyService\<close> hands to \<open>sdk.Get\<close>: the type and the object metadata of
  \<open>expect\<close>, and nothing else.
\<close>

definition serviceKey :: "ServiceObj \<Rightarrow> ServiceObj" where
  "serviceKey expect =
     \<lparr>svc_APIVersion = svc_APIVersion expect,
      svc_Kind = svc_Kind expect,
      svc_ObjectMeta = svc_ObjectMeta expect,
      svc_Spec_Selector = [],
      svc_Spec_Type = [],
      svc_Spec_Ports = [],
      svc_Spec_ClusterIP = []\<rparr>"

definition writes :: "('o sdk_call, 'w) run \<Rightarrow> 'o sdk_call list" where
  "writes st = filter isWrite (calls st)"

text \<open>
  The object operations for services: metadata is always there, the digest is given.
  The strategy \<open>Override\<close> of the templates takes the required object.
\<close>

definition serviceOps :: "string \<Rightarrow> ServiceObj ObjectOps" where
  "serviceOps dgst =
     \<lparr>checksum = (\<lambda>s. Ok dgst),
      Accessor = (\<lambda>s. Ok (svc_ObjectMeta s)),
      SetAnnotations = (\<lambda>s a. s\<lparr>svc_ObjectMeta := (svc_ObjectMeta s)\<lparr>om_Annotations := a\<rparr>\<rparr>),
      GroupVersionKind = (\<lambda>s. svc_APIVersion s @ '', Kind='' @ svc_Kind s),
      GoSyntax = (\<lambda>s. ''&Service{}'')\<rparr>"

definition serviceTemplate :: "ServiceObj Template" where
  "serviceTemplate = \<lparr>tmpl_Object = exampleService, Strategy_Apply = (\<lambda>current required. Ok required)\<rparr>"

definition forbiddenSdk :: "(ServiceObj, ServiceObj list) Sdk" where
  "forbiddenSdk = memorySdk\<lparr>sdk_Get := (\<lambda>ob w. (Failed (ApiError ''forbidden''), w))\<rparr>"

definition forbiddenMutator :: "string \<Rightarrow> (string, ExampleWorld) Mutator" where
  "forbiddenMutator n = (exampleMutator n)\<lparr>Get := (\<lambda>w. (Failed (ApiError ''forbidden''), w))\<rparr>"

text \<open>The example generator whose service mutator cannot read the service.\<close>

definition forbiddingGenerator :: "(string, ExampleWorld) Generator" where
  "forbiddingGenerator =
     exampleGenerator\<lparr>newGeneratorService := (\<lambda>cr. forbiddenMutator ''service'')\<rparr>"

section \<open>Properties\<close>

lemma updateCondition_loop_found:
  "updateCondition_loop condition cs (m, f, acc) = (m', f', acc') \<Longrightarrow> f \<Longrightarrow> f'"
  by (induction cs arbitrary: m f acc) (auto split: if_splits)


subsection \<open>Conditions are replaced on their type\<close>

lemma updateCondition_loop_eq:
  "updateCondition_loop condition cs (m, f, acc) =
     (m \<or> (\<exists>c \<in> set cs. cond_Type c = cond_Type condition \<and> cond_Status c \<noteq> cond_Status condition),
      f \<or> (\<exists>c \<in> set cs. cond_Type c = cond_Type condition),
      acc @ map (\<lambda>c. if cond_Type c = cond_Type condition then condition else c) cs)"
  by (induction cs arbitrary: m f acc) auto

lemma updateCondition_Conditions:
  "Conditions (fst (updateCondition cr condition)) =
     (if \<exists>c \<in> set (Conditions cr). cond_Type c = cond_Type condition
      then map (\<lambda>c. if cond_Type c = cond_Type condition then condition else c) (Conditions cr)
      else Conditions cr @ [condition])"
proof -
  have "(\<forall>c \<in> set (Conditions cr). cond_Type c \<noteq> cond_Type condition) \<Longrightarrow>
        map (\<lambda>c. if cond_Type c = cond_Type condition then condition else c) (Conditions cr) = Conditions cr"
    by (induction "Conditions cr") (auto simp: map_idI)
  then show ?thesis
    by (auto simp: updateCondition_def updateCondition_loop_eq)
qed

lemma updateCondition_modified:
  "snd (updateCondition cr condition) =
     ((\<forall>c \<in> set (Conditions cr). cond_Type c \<noteq> cond_Type condition) \<or>
      (\<exists>c \<in> set (Conditions cr). cond_Type c = cond_Type condition \<and> cond_Status c \<noteq> cond_Status condition))"
  by (auto simp: updateCondition_def updateCondition_loop_eq)

lemma filter_replaced:
  "filter (\<lambda>c. cond_Type c = cond_Type k) (map (\<lambda>c. if cond_Type c = cond_Type k then k else c) cs) =
     replicate (length (filter (\<lambda>c. cond_Type c = cond_Type k) cs)) k"
  by (induction cs) auto

lemma filter_none:
  "\<forall>c \<in> set cs. cond_Type c \<noteq> t \<Longrightarrow> filter (\<lambda>c. cond_Type c = t) cs = []"
  by (induction cs) auto

lemma conditionResourceApply_times:
  "transitionTimes (fst (conditionResourceApply now cr status m modified)) OperatorStatusTypeAvailable =
     replicate (max 1 (length (transitionTimes cr OperatorStatusTypeAvailable))) now"
proof -
  let ?c = "\<lparr>cond_Type = OperatorStatusTypeAvailable, cond_Status = status,
              cond_LastTransitionTime = now, cond_Reason = ''ResourceApplied'', cond_Message = m\<rparr>"
  have eq: "fst (conditionResourceApply now cr status m modified) = fst (updateCondition cr ?c)"
    by (simp add: conditionResourceApply_def split: prod.splits)
  show ?thesis
  proof (cases "\<exists>c \<in> set (Conditions cr). cond_Type c = OperatorStatusTypeAvailable")
    case True
    then have "filter (\<lambda>c. cond_Type c = OperatorStatusTypeAvailable) (Conditions cr) \<noteq> []"
      by (auto simp: filter_empty_conv)
    then have "1 \<le> length (filter (\<lambda>c. cond_Type c = OperatorStatusTypeAvailable) (Conditions cr))"
      by (cases "filter (\<lambda>c. cond_Type c = OperatorStatusTypeAvailable) (Conditions cr)") auto
    with True show ?thesis
      using updateCondition_Conditions [of cr ?c] filter_replaced [of ?c "Conditions cr"]
      by (simp add: eq transitionTimes_def max_def)
  next
    case False
    then have "filter (\<lambda>c. cond_Type c = OperatorStatusTypeAvailable) (Conditions cr) = []"
      by (auto simp: filter_empty_conv)
    with False show ?thesis
      using updateCondition_Conditions [of cr ?c]
      by (simp add: eq transitionTimes_def)
  qed
qed

text \<open>
  Claim C1.  Writing a condition whose status equals the stored status of that type
  should leave the stored \<open>lastTransitionTime\<close> alone and report no change.  The code
  reports no change, but it stores the new clock reading: the condition Available=True
  stamped at time 1, written again as True at time 2, comes back stamped 2.
\<close>

theorem conditionResourceApply_same_status_restamps:
  "conditionResourceApply 2 (availableSince 1) ConditionTrue ''all resources applied'' False
     = (availableSince 2, False) \<and>
   transitionTimes (availableSince 1) OperatorStatusTypeAvailable = [1] \<and>
   transitionTimes (availableSince 2) OperatorStatusTypeAvailable = [2]"
  by (simp add: conditionResourceApply_def updateCondition_def availableSince_def transitionTimes_def)

subsection \<open>The Progressing condition\<close>

lemma reportedProgressing_eq:
  "reportedProgressing (syncDeploymentStatus upd now cr ob ch w) =
     [if isDeploymentStatusComplete ob
      then (ConditionFalse, ''deployment successfully progressed'')
      else (ConditionTrue, ''deployment is progressing'')]"
  by (simp add: reportedProgressing_def syncDeploymentStatus_def Let_def split: prod.splits)

lemma complete_example:
  "isDeploymentStatusComplete (DeploymentConfig (exampleDeploymentConfig a g)) = (a = 3 \<and> sint (1 :: 64 word) \<le> sint g)"
  by (simp add: exampleDeploymentConfig_def word_sle_eq)


text \<open>
  Claim C5, as stated, asks for \<open>observedGeneration\<close> to equal the generation.  With
  all three replica counters equal to the target 3, generation 1 and observed generation
  2, the reported Progressing condition is False although the two generations differ.
\<close>

theorem progressing_false_on_newer_observedGeneration:
  "reportedProgressing
     (syncDeploymentStatus quietStatusHandler 0 (availableSince 0)
        (DeploymentConfig (exampleDeploymentConfig 3 2)) False ()) =
     [(ConditionFalse, ''deployment successfully progressed'')] \<and>
   dc_Status_UpdatedReplicas (exampleDeploymentConfig 3 2) = dc_Spec_Replicas (exampleDeploymentConfig 3 2) \<and>
   dc_Status_Replicas (exampleDeploymentConfig 3 2) = dc_Spec_Replicas (exampleDeploymentConfig 3 2) \<and>
   dc_Status_AvailableReplicas (exampleDeploymentConfig 3 2) = dc_Spec_Replicas (exampleDeploymentConfig 3 2) \<and>
   dc_Status_ObservedGeneration (exampleDeploymentConfig 3 2) \<noteq> dc_Generation (exampleDeploymentConfig 3 2)"
proof -
  have "isDeploymentStatusComplete (DeploymentConfig (exampleDeploymentConfig 3 2))"
    by (simp add: exampleDeploymentConfig_def word_sle_eq)
  then show ?thesis
    by (simp add: reportedProgressing_eq) (simp add: exampleDeploymentConfig_def)
qed

text \<open>
  Claim C5, amended.  The Progressing condition that \<open>syncDeploymentStatus\<close> reports is
  False ("deployment successfully progressed") exactly when the updated, total and
  available replicas each equal the replica target (1 when an apps/v1 Deployment leaves it
  unset) and the observed generation is at least the generation, as signed integers;
  otherwise, and for any other kind of object, it is True ("deployment is progressing").
  With target 3 and counters 3, 3 and 2 it is True; with 3, 3 and 3 it is False.
\<close>

theorem syncDeploymentStatus_progressing:
  "reportedProgressing (syncDeploymentStatus upd now cr (DeploymentConfig d) ch w) =
     [if dc_Status_UpdatedReplicas d = dc_Spec_Replicas d \<and>
         dc_Status_Replicas d = dc_Spec_Replicas d \<and>
         dc_Status_AvailableReplicas d = dc_Spec_Replicas d \<and>
         sint (dc_Generation d) \<le> sint (dc_Status_ObservedGeneration d)
      then (ConditionFalse, ''deployment successfully progressed'')
      else (ConditionTrue, ''deployment is progressing'')] \<and>
   reportedProgressing (syncDeploymentStatus upd now cr (Deployment e) ch w) =
     [if dp_Status_UpdatedReplicas e = (case dp_Spec_Replicas e of None \<Rightarrow> 1 | Some r \<Rightarrow> r) \<and>
         dp_Status_Replicas e = (case dp_Spec_Replicas e of None \<Rightarrow> 1 | Some r \<Rightarrow> r) \<and>
         dp_Status_AvailableReplicas e = (case dp_Spec_Replicas e of None \<Rightarrow> 1 | Some r \<Rightarrow> r) \<and>
         sint (dp_Generation e) \<le> sint (dp_Status_ObservedGeneration e)
      then (ConditionFalse, ''deployment successfully progressed'')
      else (ConditionTrue, ''deployment is progressing'')] \<and>
   reportedProgressing (syncDeploymentStatus upd now cr (OtherObject k) ch w) =
     [(ConditionTrue, ''deployment is progressing'')] \<and>
   reportedProgressing (syncDeploymentStatus upd now cr (DeploymentConfig (exampleDeploymentConfig 2 1)) ch w) =
     [(ConditionTrue, ''deployment is progressing'')] \<and>
   reportedProgressing (syncDeploymentStatus upd now cr (DeploymentConfig (exampleDeploymentConfig 3 1)) ch w) =
     [(ConditionFalse, ''deployment successfully progressed'')]"
proof -
  have a: "isDeploymentStatusComplete (DeploymentConfig d) =
     (dc_Status_UpdatedReplicas d = dc_Spec_Replicas d \<and>
         dc_Status_Replicas d = dc_Spec_Replicas d \<and>
         dc_Status_AvailableReplicas d = dc_Spec_Replicas d \<and>
         sint (dc_Generation d) \<le> sint (dc_Status_ObservedGeneration d))"
    by (simp add: word_sle_eq)
  have b: "isDeploymentStatusComplete (Deployment e) =
     (dp_Status_UpdatedReplicas e = (case dp_Spec_Replicas e of None \<Rightarrow> 1 | Some r \<Rightarrow> r) \<and>
         dp_Status_Replicas e = (case dp_Spec_Replicas e of None \<Rightarrow> 1 | Some r \<Rightarrow> r) \<and>
         dp_Status_AvailableReplicas e = (case dp_Spec_Replicas e of None \<Rightarrow> 1 | Some r \<Rightarrow> r) \<and>
         sint (dp_Generation e) \<le> sint (dp_Status_ObservedGeneration e))"
    by (simp add: word_sle_eq Let_def)
  have c: "\<not> isDeploymentStatusComplete (DeploymentConfig (exampleDeploymentConfig 2 1))"
    by (simp add: exampleDeploymentConfig_def word_sle_eq)
  have d: "isDeploymentStatusComplete (DeploymentConfig (exampleDeploymentConfig 3 1))"
    by (simp add: exampleDeploymentConfig_def word_sle_eq)
  show ?thesis
    unfolding reportedProgressing_eq a b using c d by simp
qed

subsection \<open>The storage-backend count\<close>

lemma branch_Filesystem_Ok:
  "branch_Filesystem st v = Ok v1 \<Longrightarrow>
     storageType v1 = storageType v \<and>
     storageConfigured v1 = storageConfigured v + (if Filesystem st = None then 0 else 1)"
  by (auto simp: branch_Filesystem_def split: option.splits if_splits)

lemma branch_GCS_vars:
  "storageType (branch_GCS st v) = (if GCS st = None then storageType v else ''gcs'')"
  "storageConfigured (branch_GCS st v) = storageConfigured v + (if GCS st = None then 0 else 1)"
  by (simp_all add: branch_GCS_def split: option.splits)

lemma dc_branch_vars:
  "storageType (dc_branch_Azure st v) = (if Azure st = None then storageType v else ''azure'')"
  "storageConfigured (dc_branch_Azure st v) = storageConfigured v + (if Azure st = None then 0 else 1)"
  "storageType (dc_branch_S3 st v) = (if S3 st = None then storageType v else ''s3'')"
  "storageConfigured (dc_branch_S3 st v) = storageConfigured v + (if S3 st = None then 0 else 1)"
  "storageType (dc_branch_Swift st v) = (if Swift st = None then storageType v else ''swift'')"
  "storageConfigured (dc_branch_Swift st v) = storageConfigured v + (if Swift st = None then 0 else 1)"
  by (simp_all add: dc_branch_Azure_def dc_branch_S3_def dc_branch_Swift_def split: option.splits)

lemma pts_branch_vars:
  "storageType (pts_branch_Azure st v) = (if Azure st = None then storageType v else ''azure'')"
  "storageConfigured (pts_branch_Azure st v) = storageConfigured v + (if Azure st = None then 0 else 1)"
  "storageType (pts_branch_S3 st v) = (if S3 st = None then storageType v else ''s3'')"
  "storageConfigured (pts_branch_S3 st v) = storageConfigured v + (if S3 st = None then 0 else 1)"
  "storageType (pts_branch_Swift st v) = (if Swift st = None then storageType v else ''swift'')"
  "storageConfigured (pts_branch_Swift st v) = storageConfigured v + (if Swift st = None then 0 else 1)"
  by (simp_all add: pts_branch_Azure_def pts_branch_S3_def pts_branch_Swift_def split: option.splits)

lemma initial_vars:
  "storageType (dc_initial p) = []" "storageConfigured (dc_initial p) = 0"
  "storageType (pts_initial cr p) = []" "storageConfigured (pts_initial cr p) = 0"
  by (simp_all add: dc_initial_def pts_initial_def)

lemma storageConfigured_dc:
  "branch_Filesystem st (dc_initial p) = Ok v1 \<Longrightarrow>
   storageConfigured (dc_branch_Swift st (dc_branch_S3 st (branch_GCS st (dc_branch_Azure st v1)))) = int (populatedBackends st)"
  by (drule branch_Filesystem_Ok) (simp add: dc_branch_vars branch_GCS_vars initial_vars populatedBackends_def)

lemma storageConfigured_pts:
  "branch_Filesystem st (pts_initial cr p) = Ok v1 \<Longrightarrow>
   storageConfigured (pts_branch_Swift st (pts_branch_S3 st (branch_GCS st (pts_branch_Azure st v1)))) = int (populatedBackends st)"
  by (drule branch_Filesystem_Ok) (simp add: pts_branch_vars branch_GCS_vars initial_vars populatedBackends_def)

lemma storageType_dc:
  "branch_Filesystem st (dc_initial p) = Ok v1 \<Longrightarrow> populatedBackends st = 1 \<Longrightarrow>
   storageType (dc_branch_Swift st (dc_branch_S3 st (branch_GCS st (dc_branch_Azure st v1)))) =
     (if Filesystem st \<noteq> None then [] else if Azure st \<noteq> None then ''azure''
      else if GCS st \<noteq> None then ''gcs'' else if S3 st \<noteq> None then ''s3'' else ''swift'')"
  by (drule branch_Filesystem_Ok)
     (simp add: dc_branch_vars branch_GCS_vars initial_vars populatedBackends_def split: if_splits)

lemma storageType_pts:
  "branch_Filesystem st (pts_initial cr p) = Ok v1 \<Longrightarrow> populatedBackends st = 1 \<Longrightarrow>
   storageType (pts_branch_Swift st (pts_branch_S3 st (branch_GCS st (pts_branch_Azure st v1)))) =
     (if Filesystem st \<noteq> None then [] else if Azure st \<noteq> None then ''azure''
      else if GCS st \<noteq> None then ''gcs'' else if S3 st \<noteq> None then ''s3'' else ''swift'')"
  by (drule branch_Filesystem_Ok)
     (simp add: pts_branch_vars branch_GCS_vars initial_vars populatedBackends_def split: if_splits)

lemma branch_Filesystem_cases:
  "branch_Filesystem st v = Failed errHostPath \<or> (\<exists>v1. branch_Filesystem st v = Ok v1)"
  by (auto simp: branch_Filesystem_def errHostPath_def split: option.splits)

lemma GenerateDeploymentConfig_count:
  "GenerateDeploymentConfig cluster cr p = Failed errHostPath \<or>
   (if populatedBackends (Spec_Storage cr) \<noteq> 1
    then GenerateDeploymentConfig cluster cr p = Failed errBackendCount
    else (case generateSecurityContext supplementalGroupsAnnotation cluster cr (cr_Namespace cr) of
            Failed err \<Rightarrow> GenerateDeploymentConfig cluster cr p =
              Failed (Errorf ''generate security context for deployment config: %s'' [ArgErr err])
          | Ok sc \<Rightarrow> \<exists>dc. GenerateDeploymentConfig cluster cr p = Ok dc))"
proof -
  from branch_Filesystem_cases [of "Spec_Storage cr" "dc_initial p"] show ?thesis
  proof
    assume "branch_Filesystem (Spec_Storage cr) (dc_initial p) = Failed errHostPath"
    then show ?thesis by (simp add: GenerateDeploymentConfig_def)
  next
    assume "\<exists>v1. branch_Filesystem (Spec_Storage cr) (dc_initial p) = Ok v1"
    then obtain v1 where v1: "branch_Filesystem (Spec_Storage cr) (dc_initial p) = Ok v1" ..
    from storageConfigured_dc [OF v1] show ?thesis
      by (simp add: GenerateDeploymentConfig_def v1 Let_def errBackendCount_def split: result.splits)
  qed
qed

lemma PodTemplateSpec_count:
  "PodTemplateSpec pc cluster cr p = Failed errHostPath \<or>
   (if populatedBackends (Spec_Storage cr) \<noteq> 1
    then PodTemplateSpec pc cluster cr p = Failed errBackendCount
    else (\<exists>v. PodTemplateSpec pc cluster cr p =
            pts_finish pc cluster cr p v [(StorageTypeOperatorAnnotation pc, storageType v)]))"
proof -
  from branch_Filesystem_cases [of "Spec_Storage cr" "pts_initial cr p"] show ?thesis
  proof
    assume "branch_Filesystem (Spec_Storage cr) (pts_initial cr p) = Failed errHostPath"
    then show ?thesis by (simp add: PodTemplateSpec_def)
  next
    assume "\<exists>v1. branch_Filesystem (Spec_Storage cr) (pts_initial cr p) = Ok v1"
    then obtain v1 where v1: "branch_Filesystem (Spec_Storage cr) (pts_initial cr p) = Ok v1" ..
    from storageConfigured_pts [OF v1] show ?thesis
      by (auto simp add: PodTemplateSpec_def v1 Let_def errBackendCount_def)
  qed
qed


text \<open>
  The type assertion \<open>err.(*util.ConfigurationError)\<close> of \<open>Apply\<close> is the only way the
  program tells a configuration error from another error.  The two errors of the storage
  checks are built by \<open>fmt.Errorf\<close> and do not pass it.
\<close>

lemma storage_errors_unclassified:
  "\<not> isConfigurationError errHostPath" "\<not> isConfigurationError errBackendCount"
  by (simp_all add: isConfigurationError_def errHostPath_def errBackendCount_def)

text \<open>
  Claim C2, as stated, asks for a configuration error.  With no storage-backend variant
  populated both generators fail, and the error they return is the \<open>fmt.Errorf\<close> value
  of the backend-count check: it is no \<open>ConfigurationError\<close>, whatever its message.
\<close>

theorem backend_count_error_is_plain:
  "populatedBackends (Spec_Storage (exampleCR noStorage)) = 0 \<and>
   GenerateDeploymentConfig exampleCluster (exampleCR noStorage) exampleParameters =
     Failed (Errorf
       ''it is not possible to initialize more than one storage backend at the same time'' []) \<and>
   PodTemplateSpec exampleConsts exampleCluster (exampleCR noStorage) exampleParameters =
     Failed (Errorf
       ''it is not possible to initialize more than one storage backend at the same time'' []) \<and>
   \<not> isConfigurationError (Errorf
       ''it is not possible to initialize more than one storage backend at the same time'' []) \<and>
   (\<forall>m. GenerateDeploymentConfig exampleCluster (exampleCR noStorage) exampleParameters \<noteq>
          Failed (ConfigurationError m)) \<and>
   (\<forall>m. PodTemplateSpec exampleConsts exampleCluster (exampleCR noStorage) exampleParameters \<noteq>
          Failed (ConfigurationError m))"
  by (simp add: GenerateDeploymentConfig_def PodTemplateSpec_def exampleCR_def noStorage_def
        branch_Filesystem_def dc_branch_vars pts_branch_vars branch_GCS_vars initial_vars Let_def
        populatedBackends_def isConfigurationError_def)

text \<open>
  Claim C2, amended.  With zero, or with two or more, storage-backend variants populated
  both generators fail and produce no object.  The error is that of the backend-count
  check, or, when the filesystem variant names a HostPath volume, that of the earlier
  HostPath check; both are plain \<open>fmt.Errorf\<close> errors, and neither is a
  \<open>ConfigurationError\<close>.  With exactly one variant populated the backend-count check
  returns no error: the outcome is the HostPath error or whatever the code after the check
  produces.
\<close>

theorem backend_count_check:
  "(populatedBackends (Spec_Storage cr) \<noteq> 1 \<longrightarrow>
      (GenerateDeploymentConfig cluster cr p = Failed errHostPath \<or>
       GenerateDeploymentConfig cluster cr p = Failed errBackendCount) \<and>
      (PodTemplateSpec pc cluster cr p = Failed errHostPath \<or>
       PodTemplateSpec pc cluster cr p = Failed errBackendCount)) \<and>
   errHostPath = Errorf ''HostPath is not supported'' [] \<and>
   errBackendCount = Errorf
     ''it is not possible to initialize more than one storage backend at the same time'' [] \<and>
   \<not> isConfigurationError errHostPath \<and> \<not> isConfigurationError errBackendCount \<and>
   (populatedBackends (Spec_Storage cr) = 1 \<longrightarrow>
      (GenerateDeploymentConfig cluster cr p = Failed errHostPath \<or>
       (case generateSecurityContext supplementalGroupsAnnotation cluster cr (cr_Namespace cr) of
          Failed err \<Rightarrow> GenerateDeploymentConfig cluster cr p =
            Failed (Errorf ''generate security context for deployment config: %s'' [ArgErr err])
        | Ok sc \<Rightarrow> \<exists>dc. GenerateDeploymentConfig cluster cr p = Ok dc)) \<and>
      (PodTemplateSpec pc cluster cr p = Failed errHostPath \<or>
       (\<exists>v. PodTemplateSpec pc cluster cr p =
          pts_finish pc cluster cr p v [(StorageTypeOperatorAnnotation pc, storageType v)])))"
proof (cases "populatedBackends (Spec_Storage cr) = 1")
  case True
  with GenerateDeploymentConfig_count [of cluster cr p] PodTemplateSpec_count [of pc cluster cr p]
  show ?thesis by (simp add: storage_errors_unclassified) (simp add: errHostPath_def errBackendCount_def)
next
  case False
  with GenerateDeploymentConfig_count [of cluster cr p] PodTemplateSpec_count [of pc cluster cr p]
  show ?thesis by (simp add: storage_errors_unclassified) (simp add: errHostPath_def errBackendCount_def)
qed


lemma example_securityContext:
  "generateSecurityContext ''openshift.io/sa.scc.supplemental-groups'' exampleCluster cr ns =
     Ok \<lparr>FSGroup = Some 1000030000\<rparr>"
  by (simp add: generateSecurityContext_def exampleCluster_def ParseInt10_64_def isDigit_def
        digits_to_nat_def)

lemma example_populated:
  "populatedBackends (Spec_Storage (exampleCR noStorage)) = 0"
  "populatedBackends (Spec_Storage (exampleCR filesystemStorage)) = 1"
  "populatedBackends (Spec_Storage (exampleCR gcsStorage)) = 1"
  "populatedBackends (Spec_Storage (exampleCR filesystemAndGcsStorage)) = 2"
  by (simp_all add: populatedBackends_def exampleCR_def noStorage_def filesystemStorage_def
        gcsStorage_def filesystemAndGcsStorage_def)

lemma example_no_HostPath:
  "GenerateDeploymentConfig exampleCluster (exampleCR filesystemAndGcsStorage) exampleParameters \<noteq> Failed errHostPath"
  "PodTemplateSpec exampleConsts exampleCluster (exampleCR filesystemAndGcsStorage) exampleParameters \<noteq> Failed errHostPath"
  "GenerateDeploymentConfig exampleCluster (exampleCR filesystemStorage) exampleParameters \<noteq> Failed errHostPath"
  "GenerateDeploymentConfig exampleCluster (exampleCR noStorage) exampleParameters \<noteq> Failed errHostPath"
  "PodTemplateSpec exampleConsts exampleCluster (exampleCR noStorage) exampleParameters \<noteq> Failed errHostPath"
  by (simp_all add: GenerateDeploymentConfig_def PodTemplateSpec_def exampleCR_def noStorage_def
        filesystemStorage_def filesystemAndGcsStorage_def emptyDirVolume_def branch_Filesystem_def
        dc_branch_vars pts_branch_vars branch_GCS_vars initial_vars Let_def errHostPath_def
        supplementalGroupsAnnotation_def example_securityContext)

text \<open>
  The backend-count theorem at three inputs: no variant populated, and filesystem and GCS
  both populated (the count check fails in both generators), and filesystem alone (a
  deployment config is produced).
\<close>

theorem backend_count_check_witness:
  "populatedBackends (Spec_Storage (exampleCR noStorage)) \<noteq> 1 \<and>
   GenerateDeploymentConfig exampleCluster (exampleCR noStorage) exampleParameters =
     Failed errBackendCount \<and>
   PodTemplateSpec exampleConsts exampleCluster (exampleCR noStorage) exampleParameters =
     Failed errBackendCount \<and>
   populatedBackends (Spec_Storage (exampleCR filesystemAndGcsStorage)) \<noteq> 1 \<and>
   GenerateDeploymentConfig exampleCluster (exampleCR filesystemAndGcsStorage) exampleParameters =
     Failed errBackendCount \<and>
   PodTemplateSpec exampleConsts exampleCluster (exampleCR filesystemAndGcsStorage) exampleParameters =
     Failed errBackendCount \<and>
   populatedBackends (Spec_Storage (exampleCR filesystemStorage)) = 1 \<and>
   (\<exists>dc. GenerateDeploymentConfig exampleCluster (exampleCR filesystemStorage) exampleParameters = Ok dc)"
  using backend_count_check [of "exampleCR noStorage" exampleCluster exampleParameters exampleConsts]
        backend_count_check [of "exampleCR filesystemAndGcsStorage" exampleCluster exampleParameters exampleConsts]
        backend_count_check [of "exampleCR filesystemStorage" exampleCluster exampleParameters exampleConsts]
  by (simp add: example_populated example_no_HostPath supplementalGroupsAnnotation_def
        example_securityContext)

subsection \<open>The storage-type annotation\<close>

lemma GenerateDeploymentConfig_Ok_annotations:
  assumes "GenerateDeploymentConfig cluster cr p = Ok dc"
  shows "\<exists>v1. branch_Filesystem (Spec_Storage cr) (dc_initial p) = Ok v1 \<and>
           gdc_Annotations dc =
             [(storageTypeOperatorAnnotation,
               storageType (dc_branch_Swift (Spec_Storage cr) (dc_branch_S3 (Spec_Storage cr)
                 (branch_GCS (Spec_Storage cr) (dc_branch_Azure (Spec_Storage cr) v1)))))]"
  using assms
  by (auto simp: GenerateDeploymentConfig_def Let_def split: result.splits if_splits)

lemma pts_finish_annotations:
  "pts_finish pc cluster cr p v a = Ok (t, a') \<Longrightarrow> a' = a"
  by (auto simp: pts_finish_def Let_def split: result.splits option.splits)

lemma PodTemplateSpec_Ok_annotations:
  assumes "PodTemplateSpec pc cluster cr p = Ok (t, a)"
  shows "\<exists>v1. branch_Filesystem (Spec_Storage cr) (pts_initial cr p) = Ok v1 \<and>
           a = [(StorageTypeOperatorAnnotation pc,
               storageType (pts_branch_Swift (Spec_Storage cr) (pts_branch_S3 (Spec_Storage cr)
                 (branch_GCS (Spec_Storage cr) (pts_branch_Azure (Spec_Storage cr) v1)))))]"
  using assms
  by (auto simp: PodTemplateSpec_def Let_def split: result.splits if_splits dest: pts_finish_annotations)

lemma branch_Filesystem_produces:
  assumes "\<forall>fs. Filesystem st = Some fs \<longrightarrow> vs_HostPath (fs_VolumeSource fs) = None"
  shows "\<exists>v1. branch_Filesystem st v = Ok v1"
  using assms by (cases "Filesystem st") (simp_all add: branch_Filesystem_def)

lemma pts_finish_produces:
  assumes "0 \<le> lim_MaxRunning (Spec_Requests_Read cr)" "0 \<le> lim_MaxInQueue (Spec_Requests_Read cr)"
    and "0 \<le> lim_MaxRunning (Spec_Requests_Write cr)" "0 \<le> lim_MaxInQueue (Spec_Requests_Write cr)"
    and "generateSecurityContext (SupplementalGroupsAnnotation pc) cluster cr (Deployment_Namespace p) = Ok sc"
    and "Spec_TLS cr = Some tls"
    and "getSecretChecksum cluster p = Ok c1"
    and "getConfigMapChecksum cluster p = Ok c2"
  shows "\<exists>t. pts_finish pc cluster cr p v a = Ok (t, a)"
  using assms
  by (simp add: pts_finish_def pts_branch_Requests_Read_def pts_branch_Requests_Write_def Let_def)

text \<open>
  Claim C10.  Let exactly one backend be populated, and let it not be a filesystem backend
  on a HostPath volume.  Then \<open>GenerateDeploymentConfig\<close> returns a deployment config as
  soon as the security context can be generated, and its annotations are the
  storage-type annotation alone: with the empty string for the filesystem variant, and
  with "azure", "gcs", "s3" or "swift" for the cloud variant that is populated.
  \<open>PodTemplateSpec\<close> returns a pod template with the same annotation in the map
  beside it, as soon as the request limits are not negative, the security context can be
  generated, \<open>Spec.TLS\<close> is set and the two checksums can be read.  Whenever either
  generator returns an object, the annotation has this value.  The filesystem branch
  leaves \<open>storageType\<close> as it was and adds one to \<open>storageConfigured\<close>.
\<close>

theorem storage_type_annotation:
  assumes one: "populatedBackends (Spec_Storage cr) = 1"
    and hp: "\<forall>fs. Filesystem (Spec_Storage cr) = Some fs \<longrightarrow> vs_HostPath (fs_VolumeSource fs) = None"
  shows
   "(\<forall>sc. generateSecurityContext supplementalGroupsAnnotation cluster cr (cr_Namespace cr) = Ok sc \<longrightarrow>
       (\<exists>dc. GenerateDeploymentConfig cluster cr p = Ok dc \<and>
          gdc_Annotations dc =
            [(storageTypeOperatorAnnotation,
              if Filesystem (Spec_Storage cr) \<noteq> None then []
              else if Azure (Spec_Storage cr) \<noteq> None then ''azure''
              else if GCS (Spec_Storage cr) \<noteq> None then ''gcs''
              else if S3 (Spec_Storage cr) \<noteq> None then ''s3'' else ''swift'')])) \<and>
    (\<forall>sc tls c1 c2.
        0 \<le> lim_MaxRunning (Spec_Requests_Read cr) \<and> 0 \<le> lim_MaxInQueue (Spec_Requests_Read cr) \<and>
        0 \<le> lim_MaxRunning (Spec_Requests_Write cr) \<and> 0 \<le> lim_MaxInQueue (Spec_Requests_Write cr) \<and>
        generateSecurityContext (SupplementalGroupsAnnotation pc) cluster cr (Deployment_Namespace p) = Ok sc \<and>
        Spec_TLS cr = Some tls \<and>
        getSecretChecksum cluster p = Ok c1 \<and>
        getConfigMapChecksum cluster p = Ok c2 \<longrightarrow>
       (\<exists>t. PodTemplateSpec pc cluster cr p =
          Ok (t, [(StorageTypeOperatorAnnotation pc,
                   if Filesystem (Spec_Storage cr) \<noteq> None then []
                   else if Azure (Spec_Storage cr) \<noteq> None then ''azure''
                   else if GCS (Spec_Storage cr) \<noteq> None then ''gcs''
                   else if S3 (Spec_Storage cr) \<noteq> None then ''s3'' else ''swift'')]))) \<and>
    (\<forall>dc. GenerateDeploymentConfig cluster cr p = Ok dc \<longrightarrow>
        map_of (gdc_Annotations dc) storageTypeOperatorAnnotation =
          Some (if Filesystem (Spec_Storage cr) \<noteq> None then []
                else if Azure (Spec_Storage cr) \<noteq> None then ''azure''
                else if GCS (Spec_Storage cr) \<noteq> None then ''gcs''
                else if S3 (Spec_Storage cr) \<noteq> None then ''s3'' else ''swift'')) \<and>
    (\<forall>t a. PodTemplateSpec pc cluster cr p = Ok (t, a) \<longrightarrow>
        map_of a (StorageTypeOperatorAnnotation pc) =
          Some (if Filesystem (Spec_Storage cr) \<noteq> None then []
                else if Azure (Spec_Storage cr) \<noteq> None then ''azure''
                else if GCS (Spec_Storage cr) \<noteq> None then ''gcs''
                else if S3 (Spec_Storage cr) \<noteq> None then ''s3'' else ''swift'')) \<and>
    (\<forall>v v1. branch_Filesystem (Spec_Storage cr) v = Ok v1 \<longrightarrow>
        storageType v1 = storageType v \<and>
        storageConfigured v1 =
          storageConfigured v + (if Filesystem (Spec_Storage cr) = None then 0 else 1))"
proof -
  let ?st = "Spec_Storage cr"
  let ?name = "if Filesystem ?st \<noteq> None then []
                else if Azure ?st \<noteq> None then ''azure''
                else if GCS ?st \<noteq> None then ''gcs''
                else if S3 ?st \<noteq> None then ''s3'' else ''swift''"
  from branch_Filesystem_produces [OF hp, of "dc_initial p"]
  obtain d1 where d1: "branch_Filesystem ?st (dc_initial p) = Ok d1" ..
  from branch_Filesystem_produces [OF hp, of "pts_initial cr p"]
  obtain p1 where p1: "branch_Filesystem ?st (pts_initial cr p) = Ok p1" ..
  let ?dv = "dc_branch_Swift ?st (dc_branch_S3 ?st (branch_GCS ?st (dc_branch_Azure ?st d1)))"
  let ?pv = "pts_branch_Swift ?st (pts_branch_S3 ?st (branch_GCS ?st (pts_branch_Azure ?st p1)))"
  have dn: "storageConfigured ?dv = 1"
    using storageConfigured_dc [OF d1] one by simp
  have pn: "storageConfigured ?pv = 1"
    using storageConfigured_pts [OF p1] one by simp
  have dt: "storageType ?dv = ?name"
    by (rule storageType_dc [OF d1 one])
  have pt: "storageType ?pv = ?name"
    by (rule storageType_pts [OF p1 one])
  have c1: "\<forall>sc. generateSecurityContext supplementalGroupsAnnotation cluster cr (cr_Namespace cr) = Ok sc \<longrightarrow>
       (\<exists>dc. GenerateDeploymentConfig cluster cr p = Ok dc \<and>
          gdc_Annotations dc = [(storageTypeOperatorAnnotation, ?name)])"
  proof (intro allI impI)
    fix sc
    assume sc: "generateSecurityContext supplementalGroupsAnnotation cluster cr (cr_Namespace cr) = Ok sc"
    show "\<exists>dc. GenerateDeploymentConfig cluster cr p = Ok dc \<and>
          gdc_Annotations dc = [(storageTypeOperatorAnnotation, ?name)]"
      unfolding GenerateDeploymentConfig_def d1 Let_def
      using dn by (simp add: sc dt)
  qed
  have c2: "\<forall>sc tls c1 c2.
        0 \<le> lim_MaxRunning (Spec_Requests_Read cr) \<and> 0 \<le> lim_MaxInQueue (Spec_Requests_Read cr) \<and>
        0 \<le> lim_MaxRunning (Spec_Requests_Write cr) \<and> 0 \<le> lim_MaxInQueue (Spec_Requests_Write cr) \<and>
        generateSecurityContext (SupplementalGroupsAnnotation pc) cluster cr (Deployment_Namespace p) = Ok sc \<and>
        Spec_TLS cr = Some tls \<and>
        getSecretChecksum cluster p = Ok c1 \<and>
        getConfigMapChecksum cluster p = Ok c2 \<longrightarrow>
       (\<exists>t. PodTemplateSpec pc cluster cr p = Ok (t, [(StorageTypeOperatorAnnotation pc, ?name)]))"
  proof (intro allI impI)
    fix sc tls c1 c2
    assume a: "0 \<le> lim_MaxRunning (Spec_Requests_Read cr) \<and> 0 \<le> lim_MaxInQueue (Spec_Requests_Read cr) \<and>
        0 \<le> lim_MaxRunning (Spec_Requests_Write cr) \<and> 0 \<le> lim_MaxInQueue (Spec_Requests_Write cr) \<and>
        generateSecurityContext (SupplementalGroupsAnnotation pc) cluster cr (Deployment_Namespace p) = Ok sc \<and>
        Spec_TLS cr = Some tls \<and>
        getSecretChecksum cluster p = Ok c1 \<and>
        getConfigMapChecksum cluster p = Ok c2"
    then have h: "0 \<le> lim_MaxRunning (Spec_Requests_Read cr)" "0 \<le> lim_MaxInQueue (Spec_Requests_Read cr)"
        "0 \<le> lim_MaxRunning (Spec_Requests_Write cr)" "0 \<le> lim_MaxInQueue (Spec_Requests_Write cr)"
        "generateSecurityContext (SupplementalGroupsAnnotation pc) cluster cr (Deployment_Namespace p) = Ok sc"
        "Spec_TLS cr = Some tls" "getSecretChecksum cluster p = Ok c1" "getConfigMapChecksum cluster p = Ok c2"
      by simp_all
    from pts_finish_produces [OF h, of ?pv "[(StorageTypeOperatorAnnotation pc, ?name)]"]
    show "\<exists>t. PodTemplateSpec pc cluster cr p = Ok (t, [(StorageTypeOperatorAnnotation pc, ?name)])"
      unfolding PodTemplateSpec_def p1 Let_def
      using pn by (simp add: pt)
  qed
  have c3: "\<forall>dc. GenerateDeploymentConfig cluster cr p = Ok dc \<longrightarrow>
        map_of (gdc_Annotations dc) storageTypeOperatorAnnotation = Some ?name"
  proof (intro allI impI)
    fix dc assume "GenerateDeploymentConfig cluster cr p = Ok dc"
    from GenerateDeploymentConfig_Ok_annotations [OF this] obtain v1 where
      v1: "branch_Filesystem ?st (dc_initial p) = Ok v1 \<and>
        gdc_Annotations dc =
             [(storageTypeOperatorAnnotation,
               storageType (dc_branch_Swift ?st (dc_branch_S3 ?st (branch_GCS ?st (dc_branch_Azure ?st v1)))))]" ..
    with d1 have "gdc_Annotations dc = [(storageTypeOperatorAnnotation, storageType ?dv)]"
      by simp
    then show "map_of (gdc_Annotations dc) storageTypeOperatorAnnotation = Some ?name"
      unfolding dt by simp
  qed
  have c4: "\<forall>t a. PodTemplateSpec pc cluster cr p = Ok (t, a) \<longrightarrow>
        map_of a (StorageTypeOperatorAnnotation pc) = Some ?name"
  proof (intro allI impI)
    fix t a assume "PodTemplateSpec pc cluster cr p = Ok (t, a)"
    from PodTemplateSpec_Ok_annotations [OF this] obtain v1 where
      v1: "branch_Filesystem ?st (pts_initial cr p) = Ok v1 \<and>
          a = [(StorageTypeOperatorAnnotation pc,
               storageType (pts_branch_Swift ?st (pts_branch_S3 ?st (branch_GCS ?st (pts_branch_Azure ?st v1)))))]" ..
    with p1 have "a = [(StorageTypeOperatorAnnotation pc, storageType ?pv)]"
      by simp
    then show "map_of a (StorageTypeOperatorAnnotation pc) = Some ?name"
      unfolding pt by simp
  qed
  have c5: "\<forall>v v1. branch_Filesystem ?st v = Ok v1 \<longrightarrow>
        storageType v1 = storageType v \<and>
        storageConfigured v1 = storageConfigured v + (if Filesystem ?st = None then 0 else 1)"
  proof (intro allI impI)
    fix v v1 assume "branch_Filesystem ?st v = Ok v1"
    from branch_Filesystem_Ok [OF this]
    show "storageType v1 = storageType v \<and>
        storageConfigured v1 = storageConfigured v + (if Filesystem ?st = None then 0 else 1)" .
  qed
  from c1 c2 c3 c4 c5 show ?thesis by (intro conjI)
qed


lemma example_one_backend:
  "populatedBackends (Spec_Storage (exampleCR filesystemStorage)) = 1"
  "populatedBackends (Spec_Storage (exampleCR azureStorage)) = 1"
  "populatedBackends (Spec_Storage (exampleCR gcsStorage)) = 1"
  "populatedBackends (Spec_Storage (exampleCR s3Storage)) = 1"
  "populatedBackends (Spec_Storage (exampleCR swiftStorage)) = 1"
  by (simp_all add: populatedBackends_def exampleCR_def noStorage_def filesystemStorage_def
        azureStorage_def gcsStorage_def s3Storage_def swiftStorage_def)

lemma example_variants:
  "Filesystem (Spec_Storage (exampleCR filesystemStorage)) \<noteq> None"
  "Filesystem (Spec_Storage (exampleCR azureStorage)) = None"
  "Azure (Spec_Storage (exampleCR azureStorage)) \<noteq> None"
  "Filesystem (Spec_Storage (exampleCR gcsStorage)) = None"
  "Azure (Spec_Storage (exampleCR gcsStorage)) = None"
  "GCS (Spec_Storage (exampleCR gcsStorage)) \<noteq> None"
  "Filesystem (Spec_Storage (exampleCR s3Storage)) = None"
  "Azure (Spec_Storage (exampleCR s3Storage)) = None"
  "GCS (Spec_Storage (exampleCR s3Storage)) = None"
  "S3 (Spec_Storage (exampleCR s3Storage)) \<noteq> None"
  "Filesystem (Spec_Storage (exampleCR swiftStorage)) = None"
  "Azure (Spec_Storage (exampleCR swiftStorage)) = None"
  "GCS (Spec_Storage (exampleCR swiftStorage)) = None"
  "S3 (Spec_Storage (exampleCR swiftStorage)) = None"
  by (simp_all add: exampleCR_def noStorage_def filesystemStorage_def
        azureStorage_def gcsStorage_def s3Storage_def swiftStorage_def)

lemma example_no_HostPath_volume:
  "\<forall>fs. Filesystem (Spec_Storage (exampleCR filesystemStorage)) = Some fs \<longrightarrow> vs_HostPath (fs_VolumeSource fs) = None"
  "\<forall>fs. Filesystem (Spec_Storage (exampleCR azureStorage)) = Some fs \<longrightarrow> vs_HostPath (fs_VolumeSource fs) = None"
  "\<forall>fs. Filesystem (Spec_Storage (exampleCR gcsStorage)) = Some fs \<longrightarrow> vs_HostPath (fs_VolumeSource fs) = None"
  "\<forall>fs. Filesystem (Spec_Storage (exampleCR s3Storage)) = Some fs \<longrightarrow> vs_HostPath (fs_VolumeSource fs) = None"
  "\<forall>fs. Filesystem (Spec_Storage (exampleCR swiftStorage)) = Some fs \<longrightarrow> vs_HostPath (fs_VolumeSource fs) = None"
  by (simp_all add: exampleCR_def noStorage_def filesystemStorage_def emptyDirVolume_def
        azureStorage_def gcsStorage_def s3Storage_def swiftStorage_def)

lemma example_rest:
  "0 \<le> lim_MaxRunning (Spec_Requests_Read (exampleCR st)) \<and>
   0 \<le> lim_MaxInQueue (Spec_Requests_Read (exampleCR st)) \<and>
   0 \<le> lim_MaxRunning (Spec_Requests_Write (exampleCR st)) \<and>
   0 \<le> lim_MaxInQueue (Spec_Requests_Write (exampleCR st)) \<and>
   generateSecurityContext (SupplementalGroupsAnnotation exampleConsts) exampleCluster (exampleCR st)
     (Deployment_Namespace exampleParameters) = Ok \<lparr>FSGroup = Some 1000030000\<rparr> \<and>
   Spec_TLS (exampleCR st) = Some True \<and>
   getSecretChecksum exampleCluster exampleParameters = Ok ''sha256:01'' \<and>
   getConfigMapChecksum exampleCluster exampleParameters = Ok ''sha256:02''"
  by (simp add: exampleConsts_def example_securityContext)
     (simp add: exampleCR_def exampleCluster_def getSecretChecksum_def getConfigMapChecksum_def)

lemma example_dc_securityContext:
  "generateSecurityContext supplementalGroupsAnnotation exampleCluster (exampleCR st)
     (cr_Namespace (exampleCR st)) = Ok \<lparr>FSGroup = Some 1000030000\<rparr>"
  by (simp add: supplementalGroupsAnnotation_def example_securityContext)

text \<open>
  The annotation theorem on the example cluster, for each of the five variants and both
  generators: filesystem storage is annotated with the empty string, and Azure, GCS, S3
  and Swift storage with their names.
\<close>

theorem storage_type_annotation_witness:
  "(\<exists>dc. GenerateDeploymentConfig exampleCluster (exampleCR filesystemStorage) exampleParameters = Ok dc \<and>
      gdc_Annotations dc = [(''dockerregistry.operator.openshift.io/storagetype'', [])]) \<and>
   (\<exists>dc. GenerateDeploymentConfig exampleCluster (exampleCR azureStorage) exampleParameters = Ok dc \<and>
      gdc_Annotations dc = [(''dockerregistry.operator.openshift.io/storagetype'', ''azure'')]) \<and>
   (\<exists>dc. GenerateDeploymentConfig exampleCluster (exampleCR gcsStorage) exampleParameters = Ok dc \<and>
      gdc_Annotations dc = [(''dockerregistry.operator.openshift.io/storagetype'', ''gcs'')]) \<and>
   (\<exists>dc. GenerateDeploymentConfig exampleCluster (exampleCR s3Storage) exampleParameters = Ok dc \<and>
      gdc_Annotations dc = [(''dockerregistry.operator.openshift.io/storagetype'', ''s3'')]) \<and>
   (\<exists>dc. GenerateDeploymentConfig exampleCluster (exampleCR swiftStorage) exampleParameters = Ok dc \<and>
      gdc_Annotations dc = [(''dockerregistry.operator.openshift.io/storagetype'', ''swift'')]) \<and>
   (\<exists>t. PodTemplateSpec exampleConsts exampleCluster (exampleCR filesystemStorage) exampleParameters =
      Ok (t, [(''dockerregistry.operator.openshift.io/storagetype'', [])])) \<and>
   (\<exists>t. PodTemplateSpec exampleConsts exampleCluster (exampleCR azureStorage) exampleParameters =
      Ok (t, [(''dockerregistry.operator.openshift.io/storagetype'', ''azure'')])) \<and>
   (\<exists>t. PodTemplateSpec exampleConsts exampleCluster (exampleCR gcsStorage) exampleParameters =
      Ok (t, [(''dockerregistry.operator.openshift.io/storagetype'', ''gcs'')])) \<and>
   (\<exists>t. PodTemplateSpec exampleConsts exampleCluster (exampleCR s3Storage) exampleParameters =
      Ok (t, [(''dockerregistry.operator.openshift.io/storagetype'', ''s3'')])) \<and>
   (\<exists>t. PodTemplateSpec exampleConsts exampleCluster (exampleCR swiftStorage) exampleParameters =
      Ok (t, [(''dockerregistry.operator.openshift.io/storagetype'', ''swift'')]))"
proof -
  note f = storage_type_annotation [OF example_one_backend(1) example_no_HostPath_volume(1),
             of exampleCluster exampleParameters exampleConsts]
  note a = storage_type_annotation [OF example_one_backend(2) example_no_HostPath_volume(2),
             of exampleCluster exampleParameters exampleConsts]
  note g = storage_type_annotation [OF example_one_backend(3) example_no_HostPath_volume(3),
             of exampleCluster exampleParameters exampleConsts]
  note s = storage_type_annotation [OF example_one_backend(4) example_no_HostPath_volume(4),
             of exampleCluster exampleParameters exampleConsts]
  note w = storage_type_annotation [OF example_one_backend(5) example_no_HostPath_volume(5),
             of exampleCluster exampleParameters exampleConsts]
  have k: "storageTypeOperatorAnnotation = ''dockerregistry.operator.openshift.io/storagetype''"
    "StorageTypeOperatorAnnotation exampleConsts = ''dockerregistry.operator.openshift.io/storagetype''"
    by (simp_all add: storageTypeOperatorAnnotation_def exampleConsts_def)
  note d1 = f [THEN conjunct1, rule_format, OF example_dc_securityContext]
  note d2 = a [THEN conjunct1, rule_format, OF example_dc_securityContext]
  note d3 = g [THEN conjunct1, rule_format, OF example_dc_securityContext]
  note d4 = s [THEN conjunct1, rule_format, OF example_dc_securityContext]
  note d5 = w [THEN conjunct1, rule_format, OF example_dc_securityContext]
  note p1 = f [THEN conjunct2, THEN conjunct1, rule_format, OF example_rest]
  note p2 = a [THEN conjunct2, THEN conjunct1, rule_format, OF example_rest]
  note p3 = g [THEN conjunct2, THEN conjunct1, rule_format, OF example_rest]
  note p4 = s [THEN conjunct2, THEN conjunct1, rule_format, OF example_rest]
  note p5 = w [THEN conjunct2, THEN conjunct1, rule_format, OF example_rest]
  from d1 have r1: "\<exists>dc. GenerateDeploymentConfig exampleCluster (exampleCR filesystemStorage) exampleParameters = Ok dc \<and>
      gdc_Annotations dc = [(''dockerregistry.operator.openshift.io/storagetype'', [])]"
    unfolding k by (simp only: example_variants if_True if_False not_False_eq_True not_not)
  from d2 have r2: "\<exists>dc. GenerateDeploymentConfig exampleCluster (exampleCR azureStorage) exampleParameters = Ok dc \<and>
      gdc_Annotations dc = [(''dockerregistry.operator.openshift.io/storagetype'', ''azure'')]"
    unfolding k by (simp only: example_variants if_True if_False not_False_eq_True not_not simp_thms)
  from d3 have r3: "\<exists>dc. GenerateDeploymentConfig exampleCluster (exampleCR gcsStorage) exampleParameters = Ok dc \<and>
      gdc_Annotations dc = [(''dockerregistry.operator.openshift.io/storagetype'', ''gcs'')]"
    unfolding k by (simp only: example_variants if_True if_False not_False_eq_True not_not simp_thms)
  from d4 have r4: "\<exists>dc. GenerateDeploymentConfig exampleCluster (exampleCR s3Storage) exampleParameters = Ok dc \<and>
      gdc_Annotations dc = [(''dockerregistry.operator.openshift.io/storagetype'', ''s3'')]"
    unfolding k by (simp only: example_variants if_True if_False not_False_eq_True not_not simp_thms)
  from d5 have r5: "\<exists>dc. GenerateDeploymentConfig exampleCluster (exampleCR swiftStorage) exampleParameters = Ok dc \<and>
      gdc_Annotations dc = [(''dockerregistry.operator.openshift.io/storagetype'', ''swift'')]"
    unfolding k by (simp only: example_variants if_True if_False not_False_eq_True not_not simp_thms)
  from p1 have q1: "\<exists>t. PodTemplateSpec exampleConsts exampleCluster (exampleCR filesystemStorage) exampleParameters =
      Ok (t, [(''dockerregistry.operator.openshift.io/storagetype'', [])])"
    unfolding k by (simp only: example_variants if_True if_False not_False_eq_True not_not simp_thms)
  from p2 have q2: "\<exists>t. PodTemplateSpec exampleConsts exampleCluster (exampleCR azureStorage) exampleParameters =
      Ok (t, [(''dockerregistry.operator.openshift.io/storagetype'', ''azure'')])"
    unfolding k by (simp only: example_variants if_True if_False not_False_eq_True not_not simp_thms)
  from p3 have q3: "\<exists>t. PodTemplateSpec exampleConsts exampleCluster (exampleCR gcsStorage) exampleParameters =
      Ok (t, [(''dockerregistry.operator.openshift.io/storagetype'', ''gcs'')])"
    unfolding k by (simp only: example_variants if_True if_False not_False_eq_True not_not simp_thms)
  from p4 have q4: "\<exists>t. PodTemplateSpec exampleConsts exampleCluster (exampleCR s3Storage) exampleParameters =
      Ok (t, [(''dockerregistry.operator.openshift.io/storagetype'', ''s3'')])"
    unfolding k by (simp only: example_variants if_True if_False not_False_eq_True not_not simp_thms)
  from p5 have q5: "\<exists>t. PodTemplateSpec exampleConsts exampleCluster (exampleCR swiftStorage) exampleParameters =
      Ok (t, [(''dockerregistry.operator.openshift.io/storagetype'', ''swift'')])"
    unfolding k by (simp only: example_variants if_True if_False not_False_eq_True not_not simp_thms)
  from r1 r2 r3 r4 r5 q1 q2 q3 q4 q5 show ?thesis by (intro conjI)
qed


subsection \<open>Calls of a run\<close>

lemma newCalls_append [simp]:
  "newCalls st \<lparr>world = w, calls = calls st @ cs\<rparr> = cs"
  by (simp add: newCalls_def)

lemma newCalls_same [simp]: "newCalls st st = []"
  by (simp add: newCalls_def)

subsection \<open>Storage sync\<close>

text \<open>
  Claim C7.  Given the driver that \<open>NewDriver\<close> builds, what \<open>StorageChanged\<close> reports
  and what \<open>StorageExists\<close> would return next: \<open>CreateStorage\<close> is among the calls of
  \<open>syncStorage\<close> exactly when the storage changed, or it did not change and
  \<open>StorageExists\<close> returned false with no error.  When it is called, its result is the
  result of \<open>syncStorage\<close>.  When the storage did not change and \<open>StorageExists\<close>
  returned an error, that error is returned after the two checks and nothing else is
  called; when the storage exists, the result is nil after the two checks.
\<close>

theorem syncStorage_creates_iff:
  assumes nd: "storage_NewDriver g (cfg_Spec_Storage cr) = Ok driver"
    and ch: "StorageChanged driver cr (world st) = (changed, w1)"
    and ex: "StorageExists driver cr w1 = ((exists, exerr), w2)"
  shows "(CallCreateStorage \<in> set (newCalls st (snd (syncStorage g cr st))) \<longleftrightarrow>
            changed \<or> (\<not> changed \<and> exerr = None \<and> \<not> exists)) \<and>
         (changed \<longrightarrow>
            syncStorage g cr st =
              (fst (CreateStorage driver cr w1),
               \<lparr>world = snd (CreateStorage driver cr w1),
                calls = calls st @ [CallStorageChanged, CallCreateStorage]\<rparr>)) \<and>
         (\<not> changed \<and> exerr = None \<and> \<not> exists \<longrightarrow>
            syncStorage g cr st =
              (fst (CreateStorage driver cr w2),
               \<lparr>world = snd (CreateStorage driver cr w2),
                calls = calls st @ [CallStorageChanged, CallStorageExists, CallCreateStorage]\<rparr>)) \<and>
         (\<forall>err. \<not> changed \<and> exerr = Some err \<longrightarrow>
            syncStorage g cr st =
              (Some err, \<lparr>world = w2, calls = calls st @ [CallStorageChanged, CallStorageExists]\<rparr>)) \<and>
         (\<not> changed \<and> exerr = None \<and> exists \<longrightarrow>
            syncStorage g cr st =
              (None, \<lparr>world = w2, calls = calls st @ [CallStorageChanged, CallStorageExists]\<rparr>))"
proof (cases changed)
  case True
  with nd ch show ?thesis
    by (simp add: syncStorage_def logged_def split: prod.splits)
next
  case False
  show ?thesis
  proof (cases exerr)
    case (Some err)
    with False nd ch ex show ?thesis
      by (simp add: syncStorage_def logged_def split: prod.splits)
  next
    case None
    with False nd ch ex show ?thesis
      by (cases exists) (simp_all add: syncStorage_def logged_def split: prod.splits)
  qed
qed



subsection \<open>Route garbage collection\<close>

lemma worldAfterDeletes_Nil [simp]: "worldAfterDeletes g [] w = w"
  by (simp add: worldAfterDeletes_def)

lemma worldAfterDeletes_Cons:
  "worldAfterDeletes g (r # rs) w =
     worldAfterDeletes g rs
       (snd (routeClient_Delete g (params_Deployment_Namespace g) (route_Name r)
               foregroundDeleteOptions w))"
  by (simp add: worldAfterDeletes_def)

lemma nthDelete_0:
  "nthDelete g (r # rs) w 0 =
     fst (routeClient_Delete g (params_Deployment_Namespace g) (route_Name r)
            foregroundDeleteOptions w)"
  by (simp add: nthDelete_def)

lemma nthDelete_Suc:
  "nthDelete g (r # rs) w (Suc i) =
     nthDelete g rs
       (snd (routeClient_Delete g (params_Deployment_Namespace g) (route_Name r)
               foregroundDeleteOptions w)) i"
  by (simp add: nthDelete_def worldAfterDeletes_Cons)

lemma loop_skip:
  "\<not> isObsolete g known route \<Longrightarrow>
   removeObsoleteRoutes_loop g known opts (route # routes) st =
   removeObsoleteRoutes_loop g known opts routes st"
  by (auto simp: isObsolete_def)

lemma loop_delete_ok:
  assumes "isObsolete g known route"
    and "routeClient_Delete g (params_Deployment_Namespace g) (route_Name route) opts (world st) = (None, w')"
  shows "removeObsoleteRoutes_loop g known opts (route # routes) st =
         removeObsoleteRoutes_loop g known opts routes
           \<lparr>world = w',
            calls = calls st @ [CallRouteDelete (params_Deployment_Namespace g) (route_Name route) opts]\<rparr>"
  using assms by (simp add: isObsolete_def logged_def)

lemma loop_delete_failed:
  assumes "isObsolete g known route"
    and "routeClient_Delete g (params_Deployment_Namespace g) (route_Name route) opts (world st) = (Some err, w')"
  shows "removeObsoleteRoutes_loop g known opts (route # routes) st =
         (Some err,
          \<lparr>world = w',
           calls = calls st @ [CallRouteDelete (params_Deployment_Namespace g) (route_Name route) opts]\<rparr>)"
  using assms by (simp add: isObsolete_def logged_def)

lemma loop_all_deleted:
  assumes "\<forall>i<length (filter (isObsolete g known) routes).
             nthDelete g (filter (isObsolete g known) routes) (world st) i = None"
  shows "removeObsoleteRoutes_loop g known foregroundDeleteOptions routes st =
     (None,
      \<lparr>world = worldAfterDeletes g (filter (isObsolete g known) routes) (world st),
       calls = calls st @
         map (\<lambda>r. CallRouteDelete (params_Deployment_Namespace g) (route_Name r) foregroundDeleteOptions)
           (filter (isObsolete g known) routes)\<rparr>)"
  using assms
proof (induction routes arbitrary: st)
  case Nil
  show ?case by simp
next
  case (Cons route routes)
  show ?case
  proof (cases "isObsolete g known route")
    case False
    then have flt: "filter (isObsolete g known) (route # routes) = filter (isObsolete g known) routes"
      by simp
    from Cons.prems have "\<forall>i<length (filter (isObsolete g known) routes).
             nthDelete g (filter (isObsolete g known) routes) (world st) i = None"
      unfolding flt .
    from Cons.IH [OF this] show ?thesis
      unfolding flt loop_skip [OF False] .
  next
    case True
    let ?fl = "filter (isObsolete g known) routes"
    from True have flt: "filter (isObsolete g known) (route # routes) = route # ?fl"
      by simp
    let ?del = "routeClient_Delete g (params_Deployment_Namespace g) (route_Name route)
                  foregroundDeleteOptions (world st)"
    from Cons.prems have p: "\<forall>i<Suc (length ?fl). nthDelete g (route # ?fl) (world st) i = None"
      unfolding flt by simp
    then have "nthDelete g (route # ?fl) (world st) 0 = None"
      by simp
    then have f0: "fst ?del = None"
      by (simp add: nthDelete_0)
    define w' where "w' = snd ?del"
    have del: "?del = (None, w')"
      using f0 by (simp add: w'_def prod_eq_iff)
    define st1 where "st1 = \<lparr>world = w',
            calls = calls st @ [CallRouteDelete (params_Deployment_Namespace g) (route_Name route)
                                  foregroundDeleteOptions]\<rparr>"
    have step: "removeObsoleteRoutes_loop g known foregroundDeleteOptions (route # routes) st =
                removeObsoleteRoutes_loop g known foregroundDeleteOptions routes st1"
      unfolding st1_def by (rule loop_delete_ok [OF True del])
    have w1: "world st1 = w'" and c1: "calls st1 = calls st @
        [CallRouteDelete (params_Deployment_Namespace g) (route_Name route) foregroundDeleteOptions]"
      by (simp_all add: st1_def)
    have h: "\<forall>i<length ?fl. nthDelete g ?fl (world st1) i = None"
    proof (intro allI impI)
      fix i assume "i < length ?fl"
      then have "Suc i < Suc (length ?fl)" by simp
      with p have "nthDelete g (route # ?fl) (world st) (Suc i) = None"
        by (rule_tac allE [of _ "Suc i"]) auto
      then show "nthDelete g ?fl (world st1) i = None"
        by (simp add: nthDelete_Suc w1 w'_def)
    qed
    have ws: "worldAfterDeletes g (route # ?fl) (world st) = worldAfterDeletes g ?fl (world st1)"
      by (simp add: worldAfterDeletes_Cons w1 w'_def)
    show ?thesis
      unfolding step flt ws Cons.IH [OF h] c1 by simp
  qed
qed

lemma loop_stops_at_failure:
  assumes "j < length (filter (isObsolete g known) routes)"
    and "\<forall>i<j. nthDelete g (filter (isObsolete g known) routes) (world st) i = None"
    and "nthDelete g (filter (isObsolete g known) routes) (world st) j = Some err"
  shows "removeObsoleteRoutes_loop g known foregroundDeleteOptions routes st =
     (Some err,
      \<lparr>world = worldAfterDeletes g (take (Suc j) (filter (isObsolete g known) routes)) (world st),
       calls = calls st @
         map (\<lambda>r. CallRouteDelete (params_Deployment_Namespace g) (route_Name r) foregroundDeleteOptions)
           (take (Suc j) (filter (isObsolete g known) routes))\<rparr>)"
  using assms
proof (induction routes arbitrary: st j)
  case Nil
  then show ?case by simp
next
  case (Cons route routes)
  show ?case
  proof (cases "isObsolete g known route")
    case False
    then have flt: "filter (isObsolete g known) (route # routes) = filter (isObsolete g known) routes"
      by simp
    from Cons.prems have p: "j < length (filter (isObsolete g known) routes)"
      "\<forall>i<j. nthDelete g (filter (isObsolete g known) routes) (world st) i = None"
      "nthDelete g (filter (isObsolete g known) routes) (world st) j = Some err"
      unfolding flt by simp_all
    from Cons.IH [OF p] show ?thesis
      unfolding flt loop_skip [OF False] .
  next
    case True
    let ?fl = "filter (isObsolete g known) routes"
    from True have flt: "filter (isObsolete g known) (route # routes) = route # ?fl"
      by simp
    let ?del = "routeClient_Delete g (params_Deployment_Namespace g) (route_Name route)
                  foregroundDeleteOptions (world st)"
    from Cons.prems have p: "j < Suc (length ?fl)"
      "\<forall>i<j. nthDelete g (route # ?fl) (world st) i = None"
      "nthDelete g (route # ?fl) (world st) j = Some err"
      unfolding flt by simp_all
    define w' where "w' = snd ?del"
    show ?thesis
    proof (cases j)
      case 0
      with p(3) have "fst ?del = Some err"
        by (simp add: nthDelete_0)
      then have del: "?del = (Some err, w')"
        by (simp add: w'_def prod_eq_iff)
      have ws: "worldAfterDeletes g (take (Suc 0) (route # ?fl)) (world st) = w'"
        by (simp add: worldAfterDeletes_Cons w'_def)
      show ?thesis
        unfolding flt 0 ws loop_delete_failed [OF True del] by simp
    next
      case (Suc j')
      with p(2) have "nthDelete g (route # ?fl) (world st) 0 = None"
        by simp
      then have "fst ?del = None"
        by (simp add: nthDelete_0)
      then have del: "?del = (None, w')"
        by (simp add: w'_def prod_eq_iff)
      define st1 where "st1 = \<lparr>world = w',
            calls = calls st @ [CallRouteDelete (params_Deployment_Namespace g) (route_Name route)
                                  foregroundDeleteOptions]\<rparr>"
      have step: "removeObsoleteRoutes_loop g known foregroundDeleteOptions (route # routes) st =
                removeObsoleteRoutes_loop g known foregroundDeleteOptions routes st1"
        unfolding st1_def by (rule loop_delete_ok [OF True del])
      have w1: "world st1 = w'" and c1: "calls st1 = calls st @
          [CallRouteDelete (params_Deployment_Namespace g) (route_Name route) foregroundDeleteOptions]"
        by (simp_all add: st1_def)
      have h1: "j' < length ?fl"
        using p(1) Suc by simp
      have h2: "\<forall>i<j'. nthDelete g ?fl (world st1) i = None"
      proof (intro allI impI)
        fix i assume "i < j'"
        then have "Suc i < j" using Suc by simp
        with p(2) have "nthDelete g (route # ?fl) (world st) (Suc i) = None"
          by (rule_tac allE [of _ "Suc i"]) auto
        then show "nthDelete g ?fl (world st1) i = None"
          by (simp add: nthDelete_Suc w1 w'_def)
      qed
      have h3: "nthDelete g ?fl (world st1) j' = Some err"
        using p(3) Suc by (simp add: nthDelete_Suc w1 w'_def)
      have ws: "worldAfterDeletes g (take (Suc (Suc j')) (route # ?fl)) (world st) =
                worldAfterDeletes g (take (Suc j') ?fl) (world st1)"
        by (simp add: worldAfterDeletes_Cons w1 w'_def)
      show ?thesis
        unfolding step flt Suc ws Cons.IH [OF h1 h2 h3] c1 by simp
    qed
  qed
qed

text \<open>
  Claim C6.  Let the route client be built, the lister return the routes, and every route
  mutator bear the name of its route, so that the names known to the pass are the desired
  set: the default route when enabled plus every declared route.  The obsolete routes are
  the listed routes that the operator created and whose names are absent from that set.
  If no deletion of an obsolete route fails, the pass returns nil, its calls are the
  listing followed by one \<open>Delete\<close> for each obsolete route, in the order listed, each in
  the deployment namespace with a grace period of zero seconds and foreground propagation,
  and the cluster is the one that these deletions leave: desired routes and routes of
  others are not deleted.  If the deletion of the obsolete route at position \<open>j\<close> is the
  first to fail, the pass returns its error after the deletions up to that one, and the
  obsolete routes after it stay.
\<close>

theorem removeObsoleteRoutes_deletes:
  assumes rc: "routeset_NewForConfig g = None"
    and ls: "listers_Routes_List g (world st) = (Ok routes, w1)"
    and nm: "\<forall>r. GetName (newGeneratorRoute g cr r) = rt_Name r"
  shows
   "((\<forall>i<length (obsoleteRoutes g cr routes). nthDelete g (obsoleteRoutes g cr routes) w1 i = None) \<longrightarrow>
       removeObsoleteRoutes g cr st =
         (None,
          \<lparr>world = worldAfterDeletes g (obsoleteRoutes g cr routes) w1,
           calls = calls st @ CallRoutesList #
             map (\<lambda>r. CallRouteDelete (params_Deployment_Namespace g) (route_Name r)
                        \<lparr>GracePeriodSeconds = Some 0,
                         PropagationPolicy = Some DeletePropagationForeground\<rparr>)
                 (obsoleteRoutes g cr routes)\<rparr>)) \<and>
    (\<forall>j err.
       j < length (obsoleteRoutes g cr routes) \<and>
       (\<forall>i<j. nthDelete g (obsoleteRoutes g cr routes) w1 i = None) \<and>
       nthDelete g (obsoleteRoutes g cr routes) w1 j = Some err \<longrightarrow>
       removeObsoleteRoutes g cr st =
         (Some err,
          \<lparr>world = worldAfterDeletes g (take (Suc j) (obsoleteRoutes g cr routes)) w1,
           calls = calls st @ CallRoutesList #
             map (\<lambda>r. CallRouteDelete (params_Deployment_Namespace g) (route_Name r)
                        \<lparr>GracePeriodSeconds = Some 0,
                         PropagationPolicy = Some DeletePropagationForeground\<rparr>)
                 (take (Suc j) (obsoleteRoutes g cr routes))\<rparr>))"
proof -
  let ?st1 = "\<lparr>world = w1, calls = calls st @ [CallRoutesList]\<rparr>"
  let ?known = "map GetName (listRoutes g cr)"
  have known: "?known = desiredRouteNames g cr"
    using nm by (simp add: listRoutes_def desiredRouteNames_def)
  have eq: "removeObsoleteRoutes g cr st =
            removeObsoleteRoutes_loop g (desiredRouteNames g cr) foregroundDeleteOptions routes ?st1"
    using rc ls by (simp add: removeObsoleteRoutes_def logged_def Let_def known)
  have opts: "foregroundDeleteOptions =
              \<lparr>GracePeriodSeconds = Some 0, PropagationPolicy = Some DeletePropagationForeground\<rparr>"
    by (simp add: foregroundDeleteOptions_def)
  have a: "(\<forall>i<length (obsoleteRoutes g cr routes). nthDelete g (obsoleteRoutes g cr routes) w1 i = None) \<longrightarrow>
       removeObsoleteRoutes g cr st =
         (None,
          \<lparr>world = worldAfterDeletes g (obsoleteRoutes g cr routes) w1,
           calls = calls st @ CallRoutesList #
             map (\<lambda>r. CallRouteDelete (params_Deployment_Namespace g) (route_Name r)
                        \<lparr>GracePeriodSeconds = Some 0,
                         PropagationPolicy = Some DeletePropagationForeground\<rparr>)
                 (obsoleteRoutes g cr routes)\<rparr>)"
  proof
    assume "\<forall>i<length (obsoleteRoutes g cr routes). nthDelete g (obsoleteRoutes g cr routes) w1 i = None"
    then have "\<forall>i<length (filter (isObsolete g (desiredRouteNames g cr)) routes).
             nthDelete g (filter (isObsolete g (desiredRouteNames g cr)) routes) (world ?st1) i = None"
      by (simp add: obsoleteRoutes_def)
    from loop_all_deleted [OF this]
    show "removeObsoleteRoutes g cr st =
         (None,
          \<lparr>world = worldAfterDeletes g (obsoleteRoutes g cr routes) w1,
           calls = calls st @ CallRoutesList #
             map (\<lambda>r. CallRouteDelete (params_Deployment_Namespace g) (route_Name r)
                        \<lparr>GracePeriodSeconds = Some 0,
                         PropagationPolicy = Some DeletePropagationForeground\<rparr>)
                 (obsoleteRoutes g cr routes)\<rparr>)"
      unfolding eq by (simp add: obsoleteRoutes_def opts)
  qed
  have b: "\<forall>j err.
       j < length (obsoleteRoutes g cr routes) \<and>
       (\<forall>i<j. nthDelete g (obsoleteRoutes g cr routes) w1 i = None) \<and>
       nthDelete g (obsoleteRoutes g cr routes) w1 j = Some err \<longrightarrow>
       removeObsoleteRoutes g cr st =
         (Some err,
          \<lparr>world = worldAfterDeletes g (take (Suc j) (obsoleteRoutes g cr routes)) w1,
           calls = calls st @ CallRoutesList #
             map (\<lambda>r. CallRouteDelete (params_Deployment_Namespace g) (route_Name r)
                        \<lparr>GracePeriodSeconds = Some 0,
                         PropagationPolicy = Some DeletePropagationForeground\<rparr>)
                 (take (Suc j) (obsoleteRoutes g cr routes))\<rparr>)"
  proof (intro allI impI)
    fix j err
    assume h: "j < length (obsoleteRoutes g cr routes) \<and>
       (\<forall>i<j. nthDelete g (obsoleteRoutes g cr routes) w1 i = None) \<and>
       nthDelete g (obsoleteRoutes g cr routes) w1 j = Some err"
    then have h1: "j < length (filter (isObsolete g (desiredRouteNames g cr)) routes)"
      and h2: "\<forall>i<j. nthDelete g (filter (isObsolete g (desiredRouteNames g cr)) routes) (world ?st1) i = None"
      and h3: "nthDelete g (filter (isObsolete g (desiredRouteNames g cr)) routes) (world ?st1) j = Some err"
      by (simp_all add: obsoleteRoutes_def)
    from loop_stops_at_failure [OF h1 h2 h3]
    show "removeObsoleteRoutes g cr st =
         (Some err,
          \<lparr>world = worldAfterDeletes g (take (Suc j) (obsoleteRoutes g cr routes)) w1,
           calls = calls st @ CallRoutesList #
             map (\<lambda>r. CallRouteDelete (params_Deployment_Namespace g) (route_Name r)
                        \<lparr>GracePeriodSeconds = Some 0,
                         PropagationPolicy = Some DeletePropagationForeground\<rparr>)
                 (take (Suc j) (obsoleteRoutes g cr routes))\<rparr>)"
      unfolding eq by (simp add: obsoleteRoutes_def opts)
  qed
  from a b show ?thesis by (rule conjI)
qed



subsection \<open>Storage teardown\<close>

lemma worldAfterRemoveStorage_0 [simp]:
  "worldAfterRemoveStorage driver cr w 0 = w"
  by (simp add: worldAfterRemoveStorage_def)

lemma worldAfterRemoveStorage_Suc:
  "worldAfterRemoveStorage driver cr w (Suc k) =
     worldAfterRemoveStorage driver cr (snd (RemoveStorage driver cr w)) k"
  using funpow_swap1 [of "\<lambda>w'. snd (RemoveStorage driver cr w')" k w]
  by (simp add: worldAfterRemoveStorage_def)

lemma nthRemoveStorage_0:
  "nthRemoveStorage driver cr w 0 = fst (RemoveStorage driver cr w)"
  by (simp add: nthRemoveStorage_def)

lemma nthRemoveStorage_Suc:
  "nthRemoveStorage driver cr w (Suc k) =
     nthRemoveStorage driver cr (snd (RemoveStorage driver cr w)) k"
  by (simp add: nthRemoveStorage_def worldAfterRemoveStorage_Suc)

lemma Remove_condition_step:
  assumes "RemoveStorage driver cr (world st) = ((r, de), w')"
  shows "Remove_condition driver cr (r0, d0, st) =
           ((if de \<noteq> None then (if r then (False, None) else (True, de)) else (True, None)),
            r, de, \<lparr>world = w', calls = calls st @ [CallRemoveStorage]\<rparr>)"
  using assms by (simp add: Remove_condition_def logged_def)

lemma PollImmediate_as_ticks:
  "PollImmediate interval timeout condition s =
     PollImmediate_ticks (Suc (timeout div interval)) condition s"
  by (simp add: PollImmediate_def)

lemma teardown_budget: "(5 * Minute) div (1 * Second) = 300"
  by (simp add: Minute_def Second_def)

lemma ticks_stop:
  assumes "k < n"
    and "\<forall>i<k. \<exists>e. nthRemoveStorage driver cr (world st) i = (True, Some e)"
    and "nthRemoveStorage driver cr (world st) k = (r, de)"
    and "de = None \<or> \<not> r"
  shows "PollImmediate_ticks n (Remove_condition driver cr) (r0, d0, st) =
           (de, r, de,
            \<lparr>world = worldAfterRemoveStorage driver cr (world st) (Suc k),
             calls = calls st @ replicate (Suc k) CallRemoveStorage\<rparr>)"
  using assms
proof (induction k arbitrary: n st r0 d0)
  case 0
  from 0(1) obtain n' where n: "n = Suc n'"
    by (cases n) simp_all
  obtain w' where rs: "RemoveStorage driver cr (world st) = ((r, de), w')"
    using 0(3) by (cases "RemoveStorage driver cr (world st)") (simp add: nthRemoveStorage_0)
  have w: "worldAfterRemoveStorage driver cr (world st) (Suc 0) = w'"
    by (simp add: worldAfterRemoveStorage_Suc rs)
  show ?case
    unfolding n w using 0(4) by (cases de) (auto simp: Remove_condition_step [OF rs])
next
  case (Suc k)
  from Suc.prems(1) obtain n' where n: "n = Suc n'" and kn: "k < n'"
    by (cases n) simp_all
  from Suc.prems(2) obtain e where "nthRemoveStorage driver cr (world st) 0 = (True, Some e)"
    by auto
  then obtain w' where rs: "RemoveStorage driver cr (world st) = ((True, Some e), w')"
    by (cases "RemoveStorage driver cr (world st)") (simp add: nthRemoveStorage_0)
  define st1 where "st1 = \<lparr>world = w', calls = calls st @ [CallRemoveStorage]\<rparr>"
  have w1: "world st1 = snd (RemoveStorage driver cr (world st))"
    by (simp add: st1_def rs)
  have step: "PollImmediate_ticks n (Remove_condition driver cr) (r0, d0, st) =
              PollImmediate_ticks n' (Remove_condition driver cr) (True, Some e, st1)"
    unfolding n by (simp add: Remove_condition_step [OF rs] st1_def)
  have h2: "\<forall>i<k. \<exists>e. nthRemoveStorage driver cr (world st1) i = (True, Some e)"
  proof (intro allI impI)
    fix i assume "i < k"
    then have "Suc i < Suc k" by simp
    with Suc.prems(2) have "\<exists>e. nthRemoveStorage driver cr (world st) (Suc i) = (True, Some e)"
      by (rule_tac allE [of _ "Suc i"]) auto
    then show "\<exists>e. nthRemoveStorage driver cr (world st1) i = (True, Some e)"
      by (simp add: nthRemoveStorage_Suc w1)
  qed
  have h3: "nthRemoveStorage driver cr (world st1) k = (r, de)"
    using Suc.prems(3) by (simp add: nthRemoveStorage_Suc w1)
  have ws: "worldAfterRemoveStorage driver cr (world st) (Suc (Suc k)) =
            worldAfterRemoveStorage driver cr (world st1) (Suc k)"
    by (simp add: worldAfterRemoveStorage_Suc w1)
  have cs: "calls st @ replicate (Suc (Suc k)) CallRemoveStorage =
            calls st1 @ replicate (Suc k) CallRemoveStorage"
    by (simp add: st1_def)
  show ?case
    unfolding step ws cs by (rule Suc.IH [OF kn h2 h3 Suc.prems(4)])
qed

lemma ticks_timeout:
  assumes "\<forall>i<n. \<exists>e. nthRemoveStorage driver cr (world st) i = (True, Some e)"
  shows "PollImmediate_ticks n (Remove_condition driver cr) (r0, d0, st) =
           (Some ErrWaitTimeout,
            (if n = 0 then r0 else True),
            (if n = 0 then d0 else snd (nthRemoveStorage driver cr (world st) (n - 1))),
            \<lparr>world = worldAfterRemoveStorage driver cr (world st) n,
             calls = calls st @ replicate n CallRemoveStorage\<rparr>)"
  using assms
proof (induction n arbitrary: st r0 d0)
  case 0
  show ?case by simp
next
  case (Suc n)
  from Suc.prems obtain e where e0: "nthRemoveStorage driver cr (world st) 0 = (True, Some e)"
    by auto
  then obtain w' where rs: "RemoveStorage driver cr (world st) = ((True, Some e), w')"
    by (cases "RemoveStorage driver cr (world st)") (simp add: nthRemoveStorage_0)
  define st1 where "st1 = \<lparr>world = w', calls = calls st @ [CallRemoveStorage]\<rparr>"
  have w1: "world st1 = snd (RemoveStorage driver cr (world st))"
    by (simp add: st1_def rs)
  have step: "PollImmediate_ticks (Suc n) (Remove_condition driver cr) (r0, d0, st) =
              PollImmediate_ticks n (Remove_condition driver cr) (True, Some e, st1)"
    by (simp add: Remove_condition_step [OF rs] st1_def)
  have h: "\<forall>i<n. \<exists>e. nthRemoveStorage driver cr (world st1) i = (True, Some e)"
  proof (intro allI impI)
    fix i assume "i < n"
    then have "Suc i < Suc n" by simp
    with Suc.prems have "\<exists>e. nthRemoveStorage driver cr (world st) (Suc i) = (True, Some e)"
      by (rule_tac allE [of _ "Suc i"]) auto
    then show "\<exists>e. nthRemoveStorage driver cr (world st1) i = (True, Some e)"
      by (simp add: nthRemoveStorage_Suc w1)
  qed
  have ws: "worldAfterRemoveStorage driver cr (world st) (Suc n) =
            worldAfterRemoveStorage driver cr (world st1) n"
    by (simp add: worldAfterRemoveStorage_Suc w1)
  have cs: "calls st @ replicate (Suc n) CallRemoveStorage =
            calls st1 @ replicate n CallRemoveStorage"
    by (simp add: st1_def)
  have last: "snd (nthRemoveStorage driver cr (world st) (Suc n - 1)) =
              (if n = 0 then Some e else snd (nthRemoveStorage driver cr (world st1) (n - 1)))"
  proof (cases n)
    case 0
    then show ?thesis by (simp add: e0)
  next
    case (Suc m)
    then show ?thesis by (simp add: nthRemoveStorage_Suc w1)
  qed
  show ?case
    unfolding step Suc.IH [OF h] ws cs last by simp
qed



lemma Remove_storage_as_ticks:
  assumes "storage_NewDriverFromStatus g (cfg_Status_Storage cr) = Ok driver"
    and "PollImmediate_ticks 301 (Remove_condition driver cr) (False, None, st) = (e, r, de, st1)"
  shows "Remove_storage g cr st =
           (case e of None \<Rightarrow> None
                    | Some err \<Rightarrow> Some (Errorf ''unable to remove storage: %s, %s'' [ArgErr err, errArg de]),
            st1)"
proof -
  have "PollImmediate (1 * Second) (5 * Minute) (Remove_condition driver cr) (False, None, st) =
        PollImmediate_ticks 301 (Remove_condition driver cr) (False, None, st)"
    unfolding PollImmediate_as_ticks teardown_budget by simp
  with assms show ?thesis
    by (cases e) (simp_all add: Remove_storage_def)
qed

text \<open>
  The teardown from the driver construction on.  The poll has an interval of one second
  and a timeout of five minutes, which gives the immediate attempt and 300 timed ones.
  The three cases are all there are: among the first 301 results of \<open>RemoveStorage\<close>
  there is a first one that is not a retriable error, with or without an error, or there
  is none.
\<close>

lemma Remove_storage_cases:
  assumes nd: "storage_NewDriverFromStatus g (cfg_Status_Storage cr) = Ok driver"
  shows
   "(\<forall>k err. k \<le> 300 \<and>
        (\<forall>i<k. \<exists>e. nthRemoveStorage driver cr (world st) i = (True, Some e)) \<and>
        nthRemoveStorage driver cr (world st) k = (False, Some err) \<longrightarrow>
        Remove_storage g cr st =
          (Some (Errorf ''unable to remove storage: %s, %s'' [ArgErr err, ArgErr err]),
           \<lparr>world = worldAfterRemoveStorage driver cr (world st) (Suc k),
            calls = calls st @ replicate (Suc k) CallRemoveStorage\<rparr>)) \<and>
    (\<forall>k r. k \<le> 300 \<and>
        (\<forall>i<k. \<exists>e. nthRemoveStorage driver cr (world st) i = (True, Some e)) \<and>
        nthRemoveStorage driver cr (world st) k = (r, None) \<longrightarrow>
        Remove_storage g cr st =
          (None,
           \<lparr>world = worldAfterRemoveStorage driver cr (world st) (Suc k),
            calls = calls st @ replicate (Suc k) CallRemoveStorage\<rparr>)) \<and>
    ((\<forall>i\<le>300. \<exists>e. nthRemoveStorage driver cr (world st) i = (True, Some e)) \<longrightarrow>
        Remove_storage g cr st =
          (Some (Errorf ''unable to remove storage: %s, %s''
                   [ArgErr ErrWaitTimeout, errArg (snd (nthRemoveStorage driver cr (world st) 300))]),
           \<lparr>world = worldAfterRemoveStorage driver cr (world st) 301,
            calls = calls st @ replicate 301 CallRemoveStorage\<rparr>))"
proof (intro conjI allI impI)
  fix k err
  assume a: "k \<le> 300 \<and>
        (\<forall>i<k. \<exists>e. nthRemoveStorage driver cr (world st) i = (True, Some e)) \<and>
        nthRemoveStorage driver cr (world st) k = (False, Some err)"
  then have k: "k < 301" by simp
  from a have h2: "\<forall>i<k. \<exists>e. nthRemoveStorage driver cr (world st) i = (True, Some e)" by simp
  from a have h3: "nthRemoveStorage driver cr (world st) k = (False, Some err)" by simp
  have h4: "Some err = None \<or> \<not> False" by simp
  from Remove_storage_as_ticks [OF nd ticks_stop [OF k h2 h3 h4, of False None]]
  show "Remove_storage g cr st =
          (Some (Errorf ''unable to remove storage: %s, %s'' [ArgErr err, ArgErr err]),
           \<lparr>world = worldAfterRemoveStorage driver cr (world st) (Suc k),
            calls = calls st @ replicate (Suc k) CallRemoveStorage\<rparr>)"
    by (simp add: errArg_def)
next
  fix k r
  assume a: "k \<le> 300 \<and>
        (\<forall>i<k. \<exists>e. nthRemoveStorage driver cr (world st) i = (True, Some e)) \<and>
        nthRemoveStorage driver cr (world st) k = (r, None)"
  then have k: "k < 301" by simp
  from a have h2: "\<forall>i<k. \<exists>e. nthRemoveStorage driver cr (world st) i = (True, Some e)" by simp
  from a have h3: "nthRemoveStorage driver cr (world st) k = (r, None)" by simp
  have h4: "None = None \<or> \<not> r" by simp
  from Remove_storage_as_ticks [OF nd ticks_stop [OF k h2 h3 h4, of False None]]
  show "Remove_storage g cr st =
          (None,
           \<lparr>world = worldAfterRemoveStorage driver cr (world st) (Suc k),
            calls = calls st @ replicate (Suc k) CallRemoveStorage\<rparr>)"
    by simp
next
  assume a: "\<forall>i\<le>300. \<exists>e. nthRemoveStorage driver cr (world st) i = (True, Some e)"
  have h: "\<forall>i<301. \<exists>e. nthRemoveStorage driver cr (world st) i = (True, Some e)"
  proof (intro allI impI)
    fix i :: nat assume "i < 301"
    then have "i \<le> 300" by simp
    with a show "\<exists>e. nthRemoveStorage driver cr (world st) i = (True, Some e)" by simp
  qed
  from Remove_storage_as_ticks [OF nd ticks_timeout [OF h, of False None]]
  show "Remove_storage g cr st =
          (Some (Errorf ''unable to remove storage: %s, %s''
                   [ArgErr ErrWaitTimeout, errArg (snd (nthRemoveStorage driver cr (world st) 300))]),
           \<lparr>world = worldAfterRemoveStorage driver cr (world st) 301,
            calls = calls st @ replicate 301 CallRemoveStorage\<rparr>)"
    by simp
qed



lemma example_NewDriver:
  "storage_NewDriver exampleGenerator s = Ok exampleDriver"
  "storage_NewDriverFromStatus exampleGenerator s = Ok exampleDriver"
  "routeset_NewForConfig exampleGenerator = None"
  by (simp_all add: exampleGenerator_def)

lemma exampleDriver_busy:
  "worldAfterRemoveStorage exampleDriver cr exampleWorld k = exampleWorld"
  "nthRemoveStorage exampleDriver cr exampleWorld k = (True, Some (ApiError ''bucket is not empty''))"
proof -
  have rs: "RemoveStorage exampleDriver cr exampleWorld =
              ((True, Some (ApiError ''bucket is not empty'')), exampleWorld)"
    by (simp add: exampleDriver_def exampleWorld_def)
  show w: "worldAfterRemoveStorage exampleDriver cr exampleWorld k = exampleWorld"
    by (induction k) (simp_all add: worldAfterRemoveStorage_Suc rs)
  show "nthRemoveStorage exampleDriver cr exampleWorld k = (True, Some (ApiError ''bucket is not empty''))"
    by (simp add: nthRemoveStorage_def w rs)
qed

lemma Remove_generators_calls:
  "\<exists>cs. calls (snd (Remove_generators opts generators st)) = calls st @ cs \<and>
        CallRemoveStorage \<notin> set cs"
proof (induction generators arbitrary: st)
  case Nil
  show ?case by simp
next
  case (Cons gen generators)
  show ?case
  proof (cases "Owned gen")
    case False
    with Cons.IH [of st] show ?thesis by simp
  next
    case True
    obtain r w where d: "Delete gen opts (world st) = (r, w)"
      by (cases "Delete gen opts (world st)")
    define st1 where "st1 = \<lparr>world = w, calls = calls st @ [CallMutatorDelete (mut_TypeAndName gen) opts]\<rparr>"
    have lg: "logged (CallMutatorDelete (mut_TypeAndName gen) opts) (Delete gen opts) st = (r, st1)"
      using d by (simp add: logged_def st1_def)
    from Cons.IH [of st1] obtain cs where
      cs: "calls (snd (Remove_generators opts generators st1)) = calls st1 @ cs \<and>
           CallRemoveStorage \<notin> set cs" ..
    have stop: "\<exists>cs. calls st1 = calls st @ cs \<and> CallRemoveStorage \<notin> set cs"
      by (simp add: st1_def)
    have go: "\<exists>cs. calls (snd (Remove_generators opts generators st1)) = calls st @ cs \<and>
                CallRemoveStorage \<notin> set cs"
      using cs by (simp add: st1_def)
    show ?thesis
    proof (cases r)
      case None
      with True lg go show ?thesis by simp
    next
      case (Some err)
      with True lg go stop show ?thesis by (cases "IsNotFound err") simp_all
    qed
  qed
qed

lemma Remove_generators_no_RemoveStorage:
  assumes "Remove_generators opts generators st = (e, st0)"
  shows "CallRemoveStorage \<notin> set (newCalls st st0)"
proof -
  from Remove_generators_calls [of opts generators st] obtain cs where
    "calls (snd (Remove_generators opts generators st)) = calls st @ cs \<and>
     CallRemoveStorage \<notin> set cs" ..
  with assms show ?thesis by (simp add: newCalls_def)
qed

text \<open>
  Claim C3.  \<open>Remove\<close> returns before the teardown, and without a call of
  \<open>RemoveStorage\<close>, when the generators cannot be listed, when the deletion of an object
  fails, or when the driver cannot be built from the status.  Otherwise it polls
  \<open>RemoveStorage\<close> with an interval of one second and a timeout of five minutes (the
  immediate attempt and 300 timed ones), and no call of \<open>RemoveStorage\<close> precedes the poll.
  If the first \<open>k\<close> calls return a retriable error and the next returns a non-retriable
  error, then exactly \<open>k + 1\<close> calls are made and \<open>Remove\<close> returns that error, wrapped as
  a failure to remove the storage; if the next call returns no error, exactly \<open>k + 1\<close> calls
  are made and \<open>Remove\<close> returns nil; if all 301 calls return a retriable error, exactly
  301 calls are made and \<open>Remove\<close> returns the timeout error, wrapped in the same way.
\<close>

theorem Remove_polls_storage:
  "(\<forall>err. list_mutators g cr = Failed err \<longrightarrow>
      Remove g cr st = (Some (Errorf ''unable to get generators: %s'' [ArgErr err]), st)) \<and>
   (\<forall>generators err st0.
      list_mutators g cr = Ok generators \<and>
      Remove_generators foregroundDeleteOptions generators st = (Some err, st0) \<longrightarrow>
      Remove g cr st = (Some err, st0) \<and> CallRemoveStorage \<notin> set (newCalls st st0)) \<and>
   (\<forall>generators st0 err.
      list_mutators g cr = Ok generators \<and>
      Remove_generators foregroundDeleteOptions generators st = (None, st0) \<and>
      storage_NewDriverFromStatus g (cfg_Status_Storage cr) = Failed err \<longrightarrow>
      Remove g cr st = (Some err, st0) \<and> CallRemoveStorage \<notin> set (newCalls st st0)) \<and>
   (\<forall>generators st0 driver.
      list_mutators g cr = Ok generators \<and>
      Remove_generators foregroundDeleteOptions generators st = (None, st0) \<and>
      storage_NewDriverFromStatus g (cfg_Status_Storage cr) = Ok driver \<longrightarrow>
      CallRemoveStorage \<notin> set (newCalls st st0) \<and>
      (\<forall>k err. k \<le> 300 \<and>
          (\<forall>i<k. \<exists>e. nthRemoveStorage driver cr (world st0) i = (True, Some e)) \<and>
          nthRemoveStorage driver cr (world st0) k = (False, Some err) \<longrightarrow>
          Remove g cr st =
            (Some (Errorf ''unable to remove storage: %s, %s'' [ArgErr err, ArgErr err]),
             \<lparr>world = worldAfterRemoveStorage driver cr (world st0) (Suc k),
              calls = calls st0 @ replicate (Suc k) CallRemoveStorage\<rparr>)) \<and>
      (\<forall>k r. k \<le> 300 \<and>
          (\<forall>i<k. \<exists>e. nthRemoveStorage driver cr (world st0) i = (True, Some e)) \<and>
          nthRemoveStorage driver cr (world st0) k = (r, None) \<longrightarrow>
          Remove g cr st =
            (None,
             \<lparr>world = worldAfterRemoveStorage driver cr (world st0) (Suc k),
              calls = calls st0 @ replicate (Suc k) CallRemoveStorage\<rparr>)) \<and>
      ((\<forall>i\<le>300. \<exists>e. nthRemoveStorage driver cr (world st0) i = (True, Some e)) \<longrightarrow>
          Remove g cr st =
            (Some (Errorf ''unable to remove storage: %s, %s''
                     [ArgErr ErrWaitTimeout,
                      errArg (snd (nthRemoveStorage driver cr (world st0) 300))]),
             \<lparr>world = worldAfterRemoveStorage driver cr (world st0) 301,
              calls = calls st0 @ replicate 301 CallRemoveStorage\<rparr>)))"
proof -
  have c1: "\<forall>err. list_mutators g cr = Failed err \<longrightarrow>
      Remove g cr st = (Some (Errorf ''unable to get generators: %s'' [ArgErr err]), st)"
    by (simp add: Remove_def)
  have c2: "\<forall>generators err st0.
      list_mutators g cr = Ok generators \<and>
      Remove_generators foregroundDeleteOptions generators st = (Some err, st0) \<longrightarrow>
      Remove g cr st = (Some err, st0) \<and> CallRemoveStorage \<notin> set (newCalls st st0)"
  proof (intro allI impI)
    fix generators err st0
    assume a: "list_mutators g cr = Ok generators \<and>
      Remove_generators foregroundDeleteOptions generators st = (Some err, st0)"
    then have rg: "Remove_generators foregroundDeleteOptions generators st = (Some err, st0)"
      by simp
    from a have r: "Remove g cr st = (Some err, st0)"
      by (simp add: Remove_def)
    from r Remove_generators_no_RemoveStorage [OF rg]
    show "Remove g cr st = (Some err, st0) \<and> CallRemoveStorage \<notin> set (newCalls st st0)"
      by (rule conjI)
  qed
  have c3: "\<forall>generators st0 err.
      list_mutators g cr = Ok generators \<and>
      Remove_generators foregroundDeleteOptions generators st = (None, st0) \<and>
      storage_NewDriverFromStatus g (cfg_Status_Storage cr) = Failed err \<longrightarrow>
      Remove g cr st = (Some err, st0) \<and> CallRemoveStorage \<notin> set (newCalls st st0)"
  proof (intro allI impI)
    fix generators st0 err
    assume a: "list_mutators g cr = Ok generators \<and>
      Remove_generators foregroundDeleteOptions generators st = (None, st0) \<and>
      storage_NewDriverFromStatus g (cfg_Status_Storage cr) = Failed err"
    then have rg: "Remove_generators foregroundDeleteOptions generators st = (None, st0)"
      by simp
    from a have r: "Remove g cr st = (Some err, st0)"
      by (simp add: Remove_def Remove_storage_def)
    from r Remove_generators_no_RemoveStorage [OF rg]
    show "Remove g cr st = (Some err, st0) \<and> CallRemoveStorage \<notin> set (newCalls st st0)"
      by (rule conjI)
  qed
  have c4: "\<forall>generators st0 driver.
      list_mutators g cr = Ok generators \<and>
      Remove_generators foregroundDeleteOptions generators st = (None, st0) \<and>
      storage_NewDriverFromStatus g (cfg_Status_Storage cr) = Ok driver \<longrightarrow>
      CallRemoveStorage \<notin> set (newCalls st st0) \<and>
      (\<forall>k err. k \<le> 300 \<and>
          (\<forall>i<k. \<exists>e. nthRemoveStorage driver cr (world st0) i = (True, Some e)) \<and>
          nthRemoveStorage driver cr (world st0) k = (False, Some err) \<longrightarrow>
          Remove g cr st =
            (Some (Errorf ''unable to remove storage: %s, %s'' [ArgErr err, ArgErr err]),
             \<lparr>world = worldAfterRemoveStorage driver cr (world st0) (Suc k),
              calls = calls st0 @ replicate (Suc k) CallRemoveStorage\<rparr>)) \<and>
      (\<forall>k r. k \<le> 300 \<and>
          (\<forall>i<k. \<exists>e. nthRemoveStorage driver cr (world st0) i = (True, Some e)) \<and>
          nthRemoveStorage driver cr (world st0) k = (r, None) \<longrightarrow>
          Remove g cr st =
            (None,
             \<lparr>world = worldAfterRemoveStorage driver cr (world st0) (Suc k),
              calls = calls st0 @ replicate (Suc k) CallRemoveStorage\<rparr>)) \<and>
      ((\<forall>i\<le>300. \<exists>e. nthRemoveStorage driver cr (world st0) i = (True, Some e)) \<longrightarrow>
          Remove g cr st =
            (Some (Errorf ''unable to remove storage: %s, %s''
                     [ArgErr ErrWaitTimeout,
                      errArg (snd (nthRemoveStorage driver cr (world st0) 300))]),
             \<lparr>world = worldAfterRemoveStorage driver cr (world st0) 301,
              calls = calls st0 @ replicate 301 CallRemoveStorage\<rparr>))"
  proof (intro allI impI)
    fix generators st0 driver
    assume a: "list_mutators g cr = Ok generators \<and>
      Remove_generators foregroundDeleteOptions generators st = (None, st0) \<and>
      storage_NewDriverFromStatus g (cfg_Status_Storage cr) = Ok driver"
    then have rg: "Remove_generators foregroundDeleteOptions generators st = (None, st0)"
      and nd: "storage_NewDriverFromStatus g (cfg_Status_Storage cr) = Ok driver"
      by simp_all
    from a have r: "Remove g cr st = Remove_storage g cr st0"
      by (simp add: Remove_def)
    from Remove_generators_no_RemoveStorage [OF rg] Remove_storage_cases [OF nd, of st0]
    show "CallRemoveStorage \<notin> set (newCalls st st0) \<and>
      (\<forall>k err. k \<le> 300 \<and>
          (\<forall>i<k. \<exists>e. nthRemoveStorage driver cr (world st0) i = (True, Some e)) \<and>
          nthRemoveStorage driver cr (world st0) k = (False, Some err) \<longrightarrow>
          Remove g cr st =
            (Some (Errorf ''unable to remove storage: %s, %s'' [ArgErr err, ArgErr err]),
             \<lparr>world = worldAfterRemoveStorage driver cr (world st0) (Suc k),
              calls = calls st0 @ replicate (Suc k) CallRemoveStorage\<rparr>)) \<and>
      (\<forall>k r. k \<le> 300 \<and>
          (\<forall>i<k. \<exists>e. nthRemoveStorage driver cr (world st0) i = (True, Some e)) \<and>
          nthRemoveStorage driver cr (world st0) k = (r, None) \<longrightarrow>
          Remove g cr st =
            (None,
             \<lparr>world = worldAfterRemoveStorage driver cr (world st0) (Suc k),
              calls = calls st0 @ replicate (Suc k) CallRemoveStorage\<rparr>)) \<and>
      ((\<forall>i\<le>300. \<exists>e. nthRemoveStorage driver cr (world st0) i = (True, Some e)) \<longrightarrow>
          Remove g cr st =
            (Some (Errorf ''unable to remove storage: %s, %s''
                     [ArgErr ErrWaitTimeout,
                      errArg (snd (nthRemoveStorage driver cr (world st0) 300))]),
             \<lparr>world = worldAfterRemoveStorage driver cr (world st0) 301,
              calls = calls st0 @ replicate 301 CallRemoveStorage\<rparr>))"
      unfolding r by (rule conjI)
  qed
  from c1 c2 c3 c4 show ?thesis by (intro conjI)
qed


lemma example_list_mutators:
  "list_mutators exampleGenerator (exampleConfig []) =
     Ok (map exampleMutator
           [''clusterrole'', ''clusterrolebinding'', ''serviceaccount'', ''serviceca'', ''caconfig'',
            ''secret'', ''imageconfig'', ''nodecadaemonset'', ''service'', ''deployment'',
            ''clusteroperator''])"
  by (simp add: list_mutators_def exampleGenerator_def listRoutes_def exampleConfig_def)

lemma example_Remove_generators:
  assumes "ew_objects w = []"
  shows "Remove_generators opts (map exampleMutator ns) \<lparr>world = w, calls = cs\<rparr> =
           (None, \<lparr>world = w, calls = cs @ map (\<lambda>n. CallMutatorDelete n opts) ns\<rparr>)"
proof (induction ns arbitrary: cs)
  case Nil
  show ?case by simp
next
  case (Cons n ns)
  have w: "w\<lparr>ew_objects := []\<rparr> = w"
    using assms by (cases w) simp
  have d: "logged (CallMutatorDelete (mut_TypeAndName (exampleMutator n)) opts)
             (Delete (exampleMutator n) opts) \<lparr>world = w, calls = cs\<rparr> =
           (None, \<lparr>world = w, calls = cs @ [CallMutatorDelete n opts]\<rparr>)"
    by (simp add: logged_def exampleMutator_def assms w)
  have o: "Owned (exampleMutator n)"
    by (simp add: exampleMutator_def)
  show ?case
    using Cons.IH [of "cs @ [CallMutatorDelete n opts]"] by (simp add: d o)
qed

text \<open>
  The teardown theorem on the example cluster, where \<open>Remove\<close> first deletes the eleven
  objects: a retriable error followed by a non-retriable one (two calls, the second error
  returned), a first call that succeeds (one call, nil), and a storage that stays busy
  (301 calls, timeout).
\<close>

theorem Remove_polls_storage_witness:
  "Remove exampleGenerator (exampleConfig [])
     (startRun (exampleWorld\<lparr>ew_removeStorage :=
        [(True, Some (ApiError ''connection reset'')), (False, Some (ApiError ''access denied''))]\<rparr>)) =
     (Some (Errorf ''unable to remove storage: %s, %s''
              [ArgErr (ApiError ''access denied''), ArgErr (ApiError ''access denied'')]),
      \<lparr>world = exampleWorld,
       calls = map (\<lambda>n. CallMutatorDelete n foregroundDeleteOptions)
                 [''clusterrole'', ''clusterrolebinding'', ''serviceaccount'', ''serviceca'',
                  ''caconfig'', ''secret'', ''imageconfig'', ''nodecadaemonset'', ''service'',
                  ''deployment'', ''clusteroperator''] @
               [CallRemoveStorage, CallRemoveStorage]\<rparr>) \<and>
   Remove exampleGenerator (exampleConfig [])
     (startRun (exampleWorld\<lparr>ew_removeStorage := [(False, None)]\<rparr>)) =
     (None,
      \<lparr>world = exampleWorld,
       calls = map (\<lambda>n. CallMutatorDelete n foregroundDeleteOptions)
                 [''clusterrole'', ''clusterrolebinding'', ''serviceaccount'', ''serviceca'',
                  ''caconfig'', ''secret'', ''imageconfig'', ''nodecadaemonset'', ''service'',
                  ''deployment'', ''clusteroperator''] @
               [CallRemoveStorage]\<rparr>) \<and>
   Remove exampleGenerator (exampleConfig []) (startRun exampleWorld) =
     (Some (Errorf ''unable to remove storage: %s, %s''
              [ArgErr ErrWaitTimeout, ArgErr (ApiError ''bucket is not empty'')]),
      \<lparr>world = exampleWorld,
       calls = map (\<lambda>n. CallMutatorDelete n foregroundDeleteOptions)
                 [''clusterrole'', ''clusterrolebinding'', ''serviceaccount'', ''serviceca'',
                  ''caconfig'', ''secret'', ''imageconfig'', ''nodecadaemonset'', ''service'',
                  ''deployment'', ''clusteroperator''] @
               replicate 301 CallRemoveStorage\<rparr>)"
proof -
  let ?cr = "exampleConfig []"
  let ?ns = "[''clusterrole'', ''clusterrolebinding'', ''serviceaccount'', ''serviceca'',
              ''caconfig'', ''secret'', ''imageconfig'', ''nodecadaemonset'', ''service'',
              ''deployment'', ''clusteroperator'']"
  let ?ds = "map (\<lambda>n. CallMutatorDelete n foregroundDeleteOptions) ?ns"
  let ?w1 = "exampleWorld\<lparr>ew_removeStorage :=
        [(True, Some (ApiError ''connection reset'')), (False, Some (ApiError ''access denied''))]\<rparr>"
  let ?w2 = "exampleWorld\<lparr>ew_removeStorage := [(False, None)]\<rparr>"
  have e: "ew_objects ?w1 = []" "ew_objects ?w2 = []" "ew_objects exampleWorld = []"
    by (simp_all add: exampleWorld_def)
  have g1: "Remove_generators foregroundDeleteOptions (map exampleMutator ?ns) (startRun ?w1) =
              (None, \<lparr>world = ?w1, calls = ?ds\<rparr>)"
    unfolding startRun_def using example_Remove_generators [OF e(1), of foregroundDeleteOptions ?ns "[]"]
    by simp
  have g2: "Remove_generators foregroundDeleteOptions (map exampleMutator ?ns) (startRun ?w2) =
              (None, \<lparr>world = ?w2, calls = ?ds\<rparr>)"
    unfolding startRun_def using example_Remove_generators [OF e(2), of foregroundDeleteOptions ?ns "[]"]
    by simp
  have g3: "Remove_generators foregroundDeleteOptions (map exampleMutator ?ns) (startRun exampleWorld) =
              (None, \<lparr>world = exampleWorld, calls = ?ds\<rparr>)"
    unfolding startRun_def using example_Remove_generators [OF e(3), of foregroundDeleteOptions ?ns "[]"]
    by simp
  have a0: "nthRemoveStorage exampleDriver ?cr ?w1 0 = (True, Some (ApiError ''connection reset''))"
    by (simp add: nthRemoveStorage_0 exampleDriver_def)
  have a1: "nthRemoveStorage exampleDriver ?cr ?w1 1 = (False, Some (ApiError ''access denied''))"
    unfolding One_nat_def by (simp add: nthRemoveStorage_0 nthRemoveStorage_Suc exampleDriver_def)
  have aw: "worldAfterRemoveStorage exampleDriver ?cr ?w1 (Suc 1) = exampleWorld"
    unfolding One_nat_def by (simp add: worldAfterRemoveStorage_Suc exampleDriver_def exampleWorld_def)
  have b0: "nthRemoveStorage exampleDriver ?cr ?w2 0 = (False, None)"
    by (simp add: nthRemoveStorage_0 exampleDriver_def)
  have bw: "worldAfterRemoveStorage exampleDriver ?cr ?w2 (Suc 0) = exampleWorld"
    by (simp add: worldAfterRemoveStorage_Suc exampleDriver_def exampleWorld_def)
  note t1 = Remove_polls_storage [of exampleGenerator ?cr "startRun ?w1",
      THEN conjunct2, THEN conjunct2, THEN conjunct2, rule_format,
      of "map exampleMutator ?ns" "\<lparr>world = ?w1, calls = ?ds\<rparr>" exampleDriver,
      OF conjI [OF example_list_mutators conjI [OF g1 example_NewDriver(2)]]]
  note t2 = Remove_polls_storage [of exampleGenerator ?cr "startRun ?w2",
      THEN conjunct2, THEN conjunct2, THEN conjunct2, rule_format,
      of "map exampleMutator ?ns" "\<lparr>world = ?w2, calls = ?ds\<rparr>" exampleDriver,
      OF conjI [OF example_list_mutators conjI [OF g2 example_NewDriver(2)]]]
  note t3 = Remove_polls_storage [of exampleGenerator ?cr "startRun exampleWorld",
      THEN conjunct2, THEN conjunct2, THEN conjunct2, rule_format,
      of "map exampleMutator ?ns" "\<lparr>world = exampleWorld, calls = ?ds\<rparr>" exampleDriver,
      OF conjI [OF example_list_mutators conjI [OF g3 example_NewDriver(2)]]]
  note c1 = t1 [THEN conjunct2, THEN conjunct1, rule_format, of 1 "ApiError ''access denied''"]
  have r1: "Remove exampleGenerator ?cr (startRun ?w1) =
     (Some (Errorf ''unable to remove storage: %s, %s''
              [ArgErr (ApiError ''access denied''), ArgErr (ApiError ''access denied'')]),
      \<lparr>world = exampleWorld, calls = ?ds @ [CallRemoveStorage, CallRemoveStorage]\<rparr>)"
    using c1 a0 a1 aw by simp
  note c2 = t2 [THEN conjunct2, THEN conjunct2, THEN conjunct1, rule_format, of 0 False]
  have r2: "Remove exampleGenerator ?cr (startRun ?w2) =
     (None, \<lparr>world = exampleWorld, calls = ?ds @ [CallRemoveStorage]\<rparr>)"
    using c2 b0 bw by simp
  note c3 = t3 [THEN conjunct2, THEN conjunct2, THEN conjunct2]
  from c3 have r3: "Remove exampleGenerator ?cr (startRun exampleWorld) =
     (Some (Errorf ''unable to remove storage: %s, %s''
              [ArgErr ErrWaitTimeout, ArgErr (ApiError ''bucket is not empty'')]),
      \<lparr>world = exampleWorld, calls = ?ds @ replicate 301 CallRemoveStorage\<rparr>)"
    by (simp add: exampleDriver_busy errArg_def)
  from r1 r2 r3 show ?thesis by (intro conjI)
qed



subsection \<open>The generator on the example cluster\<close>

text \<open>
  The storage-sync theorem at four states of the example cluster: storage missing
  (created), the existence check failing (its error returned, nothing created), storage
  present (nothing created), and storage changed (created without an existence check).
\<close>

theorem syncStorage_creates_iff_witness:
  "syncStorage exampleGenerator (exampleConfig [])
     (startRun (exampleWorld\<lparr>ew_storageExists := (False, None)\<rparr>)) =
     (None, \<lparr>world = exampleWorld,
             calls = [CallStorageChanged, CallStorageExists, CallCreateStorage]\<rparr>) \<and>
   syncStorage exampleGenerator (exampleConfig [])
     (startRun (exampleWorld\<lparr>ew_storageExists := (False, Some (ApiError ''unreachable''))\<rparr>)) =
     (Some (ApiError ''unreachable''),
      \<lparr>world = exampleWorld\<lparr>ew_storageExists := (False, Some (ApiError ''unreachable''))\<rparr>,
       calls = [CallStorageChanged, CallStorageExists]\<rparr>) \<and>
   syncStorage exampleGenerator (exampleConfig []) (startRun exampleWorld) =
     (None, \<lparr>world = exampleWorld, calls = [CallStorageChanged, CallStorageExists]\<rparr>) \<and>
   syncStorage exampleGenerator (exampleConfig [])
     (startRun (exampleWorld\<lparr>ew_storageChanged := True\<rparr>)) =
     (None, \<lparr>world = exampleWorld\<lparr>ew_storageChanged := True\<rparr>,
             calls = [CallStorageChanged, CallCreateStorage]\<rparr>)"
proof -
  let ?cr = "exampleConfig []"
  let ?w1 = "exampleWorld\<lparr>ew_storageExists := (False, None)\<rparr>"
  let ?w2 = "exampleWorld\<lparr>ew_storageExists := (False, Some (ApiError ''unreachable''))\<rparr>"
  let ?w4 = "exampleWorld\<lparr>ew_storageChanged := True\<rparr>"
  have ch1: "StorageChanged exampleDriver ?cr (world (startRun ?w1)) = (False, ?w1)"
    and ex1: "StorageExists exampleDriver ?cr ?w1 = ((False, None), ?w1)"
    and ch2: "StorageChanged exampleDriver ?cr (world (startRun ?w2)) = (False, ?w2)"
    and ex2: "StorageExists exampleDriver ?cr ?w2 = ((False, Some (ApiError ''unreachable'')), ?w2)"
    and ch3: "StorageChanged exampleDriver ?cr (world (startRun exampleWorld)) = (False, exampleWorld)"
    and ex3: "StorageExists exampleDriver ?cr exampleWorld = ((True, None), exampleWorld)"
    and ch4: "StorageChanged exampleDriver ?cr (world (startRun ?w4)) = (True, ?w4)"
    and ex4: "StorageExists exampleDriver ?cr ?w4 = ((True, None), ?w4)"
    by (simp_all add: exampleDriver_def exampleWorld_def startRun_def)
  have cr: "CreateStorage exampleDriver ?cr ?w1 = (None, exampleWorld)"
           "CreateStorage exampleDriver ?cr ?w4 = (None, ?w4)"
    by (simp_all add: exampleDriver_def exampleWorld_def)
  note t1 = syncStorage_creates_iff [OF example_NewDriver(1) ch1 ex1]
  note t2 = syncStorage_creates_iff [OF example_NewDriver(1) ch2 ex2]
  note t3 = syncStorage_creates_iff [OF example_NewDriver(1) ch3 ex3]
  note t4 = syncStorage_creates_iff [OF example_NewDriver(1) ch4 ex4]
  from t1 have r1: "syncStorage exampleGenerator ?cr (startRun ?w1) =
     (None, \<lparr>world = exampleWorld,
             calls = [CallStorageChanged, CallStorageExists, CallCreateStorage]\<rparr>)"
    by (simp add: cr startRun_def)
  from t2 have r2: "syncStorage exampleGenerator ?cr (startRun ?w2) =
     (Some (ApiError ''unreachable''),
      \<lparr>world = ?w2, calls = [CallStorageChanged, CallStorageExists]\<rparr>)"
    by (simp add: startRun_def)
  from t3 have r3: "syncStorage exampleGenerator ?cr (startRun exampleWorld) =
     (None, \<lparr>world = exampleWorld, calls = [CallStorageChanged, CallStorageExists]\<rparr>)"
    by (simp add: startRun_def)
  from t4 have r4: "syncStorage exampleGenerator ?cr (startRun ?w4) =
     (None, \<lparr>world = ?w4, calls = [CallStorageChanged, CallCreateStorage]\<rparr>)"
    by (simp add: cr startRun_def)
  from r1 r2 r3 r4 show ?thesis by (intro conjI)
qed

lemma example_route_names:
  "\<forall>r. GetName (newGeneratorRoute exampleGenerator cr r) = rt_Name r"
  "\<forall>r. GetName (newGeneratorRoute (protectingGenerator n) cr r) = rt_Name r"
  by (simp_all add: exampleGenerator_def protectingGenerator_def exampleMutator_def)

lemma example_routeset:
  "routeset_NewForConfig exampleGenerator = None"
  "routeset_NewForConfig (protectingGenerator n) = None"
  by (simp_all add: exampleGenerator_def protectingGenerator_def)

lemma example_obsolete:
  "obsoleteRoutes exampleGenerator (exampleConfig [declaredRoute ''a'', declaredRoute ''c''])
     [operatorRoute ''a'', operatorRoute ''b'', operatorRoute ''c'', foreignRoute ''d''] =
   [operatorRoute ''b'']"
  "obsoleteRoutes exampleGenerator ((exampleConfig [declaredRoute ''a''])\<lparr>cfg_Spec_DefaultRoute := True\<rparr>)
     [operatorRoute ''default-route'', operatorRoute ''a'', operatorRoute ''b'', operatorRoute ''e'',
      foreignRoute ''d''] =
   [operatorRoute ''b'', operatorRoute ''e'']"
  "obsoleteRoutes (protectingGenerator ''b'') (exampleConfig [])
     [operatorRoute ''x'', operatorRoute ''b'', operatorRoute ''y''] =
   [operatorRoute ''x'', operatorRoute ''b'', operatorRoute ''y'']"
  by (simp_all add: obsoleteRoutes_def isObsolete_def desiredRouteNames_def exampleConfig_def
        exampleGenerator_def protectingGenerator_def declaredRoute_def operatorRoute_def
        foreignRoute_def)

text \<open>
  The route theorem on three examples.  The example of the specification: with
  operator-created routes a, b and c, a route d of someone else, and a and c declared, one
  pass lists the routes and deletes b alone, and a, c and d remain.  With the default
  route enabled and a declared: b and e are deleted, the default route, a and d remain.
  With a route client that refuses to delete b: x is deleted, the deletion of b fails with
  its error, and b and y remain.
\<close>

theorem removeObsoleteRoutes_deletes_witness:
  "removeObsoleteRoutes exampleGenerator
     (exampleConfig [declaredRoute ''a'', declaredRoute ''c''])
     (startRun (exampleWorld\<lparr>ew_routes :=
        [operatorRoute ''a'', operatorRoute ''b'', operatorRoute ''c'', foreignRoute ''d'']\<rparr>)) =
     (None,
      \<lparr>world = exampleWorld\<lparr>ew_routes :=
         [operatorRoute ''a'', operatorRoute ''c'', foreignRoute ''d'']\<rparr>,
       calls =
         [CallRoutesList,
          CallRouteDelete ''openshift-image-registry'' ''b''
            \<lparr>GracePeriodSeconds = Some 0, PropagationPolicy = Some DeletePropagationForeground\<rparr>]\<rparr>) \<and>
   removeObsoleteRoutes exampleGenerator
     ((exampleConfig [declaredRoute ''a''])\<lparr>cfg_Spec_DefaultRoute := True\<rparr>)
     (startRun (exampleWorld\<lparr>ew_routes :=
        [operatorRoute ''default-route'', operatorRoute ''a'', operatorRoute ''b'',
         operatorRoute ''e'', foreignRoute ''d'']\<rparr>)) =
     (None,
      \<lparr>world = exampleWorld\<lparr>ew_routes :=
         [operatorRoute ''default-route'', operatorRoute ''a'', foreignRoute ''d'']\<rparr>,
       calls =
         [CallRoutesList,
          CallRouteDelete ''openshift-image-registry'' ''b''
            \<lparr>GracePeriodSeconds = Some 0, PropagationPolicy = Some DeletePropagationForeground\<rparr>,
          CallRouteDelete ''openshift-image-registry'' ''e''
            \<lparr>GracePeriodSeconds = Some 0, PropagationPolicy = Some DeletePropagationForeground\<rparr>]\<rparr>) \<and>
   removeObsoleteRoutes (protectingGenerator ''b'') (exampleConfig [])
     (startRun (exampleWorld\<lparr>ew_routes :=
        [operatorRoute ''x'', operatorRoute ''b'', operatorRoute ''y'']\<rparr>)) =
     (Some (ApiError ''forbidden''),
      \<lparr>world = exampleWorld\<lparr>ew_routes := [operatorRoute ''b'', operatorRoute ''y'']\<rparr>,
       calls =
         [CallRoutesList,
          CallRouteDelete ''openshift-image-registry'' ''x''
            \<lparr>GracePeriodSeconds = Some 0, PropagationPolicy = Some DeletePropagationForeground\<rparr>,
          CallRouteDelete ''openshift-image-registry'' ''b''
            \<lparr>GracePeriodSeconds = Some 0, PropagationPolicy = Some DeletePropagationForeground\<rparr>]\<rparr>)"
proof -
  let ?r1 = "[operatorRoute ''a'', operatorRoute ''b'', operatorRoute ''c'', foreignRoute ''d'']"
  let ?r2 = "[operatorRoute ''default-route'', operatorRoute ''a'', operatorRoute ''b'',
              operatorRoute ''e'', foreignRoute ''d'']"
  let ?r3 = "[operatorRoute ''x'', operatorRoute ''b'', operatorRoute ''y'']"
  let ?w1 = "exampleWorld\<lparr>ew_routes := ?r1\<rparr>"
  let ?w2 = "exampleWorld\<lparr>ew_routes := ?r2\<rparr>"
  let ?w3 = "exampleWorld\<lparr>ew_routes := ?r3\<rparr>"
  let ?c1 = "exampleConfig [declaredRoute ''a'', declaredRoute ''c'']"
  let ?c2 = "(exampleConfig [declaredRoute ''a''])\<lparr>cfg_Spec_DefaultRoute := True\<rparr>"
  let ?c3 = "exampleConfig []"
  have l1: "listers_Routes_List exampleGenerator (world (startRun ?w1)) = (Ok ?r1, ?w1)"
    and l2: "listers_Routes_List exampleGenerator (world (startRun ?w2)) = (Ok ?r2, ?w2)"
    and l3: "listers_Routes_List (protectingGenerator ''b'') (world (startRun ?w3)) = (Ok ?r3, ?w3)"
    by (simp_all add: exampleGenerator_def protectingGenerator_def startRun_def)
  have ns: "params_Deployment_Namespace exampleGenerator = ''openshift-image-registry''"
    "params_Deployment_Namespace (protectingGenerator ''b'') = ''openshift-image-registry''"
    by (simp_all add: exampleGenerator_def protectingGenerator_def)
  have d1: "nthDelete exampleGenerator [operatorRoute ''b''] ?w1 0 = None"
    by (simp add: nthDelete_0 exampleGenerator_def)
  have a1: "worldAfterDeletes exampleGenerator [operatorRoute ''b''] ?w1 =
              exampleWorld\<lparr>ew_routes := [operatorRoute ''a'', operatorRoute ''c'', foreignRoute ''d'']\<rparr>"
    by (simp add: worldAfterDeletes_Cons exampleGenerator_def operatorRoute_def foreignRoute_def)
  have d2: "nthDelete exampleGenerator [operatorRoute ''b'', operatorRoute ''e''] ?w2 0 = None"
    "nthDelete exampleGenerator [operatorRoute ''b'', operatorRoute ''e''] ?w2 (Suc 0) = None"
    by (simp_all add: nthDelete_0 nthDelete_Suc exampleGenerator_def)
  have a2: "worldAfterDeletes exampleGenerator [operatorRoute ''b'', operatorRoute ''e''] ?w2 =
              exampleWorld\<lparr>ew_routes :=
                [operatorRoute ''default-route'', operatorRoute ''a'', foreignRoute ''d'']\<rparr>"
    by (simp add: worldAfterDeletes_Cons exampleGenerator_def operatorRoute_def foreignRoute_def)
  have d3: "nthDelete (protectingGenerator ''b'') ?r3 ?w3 0 = None"
    "nthDelete (protectingGenerator ''b'') ?r3 ?w3 (Suc 0) = Some (ApiError ''forbidden'')"
    by (simp_all add: nthDelete_0 nthDelete_Suc protectingGenerator_def exampleGenerator_def
          operatorRoute_def)
  have a3: "worldAfterDeletes (protectingGenerator ''b'') [operatorRoute ''x'', operatorRoute ''b''] ?w3 =
              exampleWorld\<lparr>ew_routes := [operatorRoute ''b'', operatorRoute ''y'']\<rparr>"
    by (simp add: worldAfterDeletes_Cons protectingGenerator_def exampleGenerator_def operatorRoute_def)
  note t1 = removeObsoleteRoutes_deletes [OF example_routeset(1) l1 example_route_names(1), of ?c1]
  note t2 = removeObsoleteRoutes_deletes [OF example_routeset(1) l2 example_route_names(1), of ?c2]
  note t3 = removeObsoleteRoutes_deletes [OF example_routeset(2) l3 example_route_names(2), of ?c3]
  have h1: "\<forall>i<length [operatorRoute ''b'']. nthDelete exampleGenerator [operatorRoute ''b''] ?w1 i = None"
    using d1 by simp
  have h2: "\<forall>i<length [operatorRoute ''b'', operatorRoute ''e''].
              nthDelete exampleGenerator [operatorRoute ''b'', operatorRoute ''e''] ?w2 i = None"
    using d2 by (simp add: less_Suc_eq)
  have h3: "Suc 0 < length ?r3 \<and>
            (\<forall>i<Suc 0. nthDelete (protectingGenerator ''b'') ?r3 ?w3 i = None) \<and>
            nthDelete (protectingGenerator ''b'') ?r3 ?w3 (Suc 0) = Some (ApiError ''forbidden'')"
    using d3 by simp
  from t1 [THEN conjunct1, unfolded example_obsolete, THEN mp, OF h1]
  have r1: "removeObsoleteRoutes exampleGenerator ?c1 (startRun ?w1) =
     (None,
      \<lparr>world = exampleWorld\<lparr>ew_routes := [operatorRoute ''a'', operatorRoute ''c'', foreignRoute ''d'']\<rparr>,
       calls =
         [CallRoutesList,
          CallRouteDelete ''openshift-image-registry'' ''b''
            \<lparr>GracePeriodSeconds = Some 0, PropagationPolicy = Some DeletePropagationForeground\<rparr>]\<rparr>)"
    unfolding a1 ns by (simp add: startRun_def operatorRoute_def)
  from t2 [THEN conjunct1, unfolded example_obsolete, THEN mp, OF h2]
  have r2: "removeObsoleteRoutes exampleGenerator ?c2 (startRun ?w2) =
     (None,
      \<lparr>world = exampleWorld\<lparr>ew_routes :=
         [operatorRoute ''default-route'', operatorRoute ''a'', foreignRoute ''d'']\<rparr>,
       calls =
         [CallRoutesList,
          CallRouteDelete ''openshift-image-registry'' ''b''
            \<lparr>GracePeriodSeconds = Some 0, PropagationPolicy = Some DeletePropagationForeground\<rparr>,
          CallRouteDelete ''openshift-image-registry'' ''e''
            \<lparr>GracePeriodSeconds = Some 0, PropagationPolicy = Some DeletePropagationForeground\<rparr>]\<rparr>)"
    unfolding a2 ns by (simp add: startRun_def operatorRoute_def)
  from t3 [THEN conjunct2, unfolded example_obsolete, THEN spec, THEN spec, THEN mp, OF h3]
  have r3: "removeObsoleteRoutes (protectingGenerator ''b'') ?c3 (startRun ?w3) =
     (Some (ApiError ''forbidden''),
      \<lparr>world = exampleWorld\<lparr>ew_routes := [operatorRoute ''b'', operatorRoute ''y'']\<rparr>,
       calls =
         [CallRoutesList,
          CallRouteDelete ''openshift-image-registry'' ''x''
            \<lparr>GracePeriodSeconds = Some 0, PropagationPolicy = Some DeletePropagationForeground\<rparr>,
          CallRouteDelete ''openshift-image-registry'' ''b''
            \<lparr>GracePeriodSeconds = Some 0, PropagationPolicy = Some DeletePropagationForeground\<rparr>]\<rparr>)"
    using a3 unfolding ns by (simp add: startRun_def operatorRoute_def)
  from r1 r2 r3 show ?thesis by (intro conjI)
qed



subsection \<open>The handler returns at once\<close>

text \<open>
  Claim C8.  Whatever the dispatch and the status update after it do, \<open>Handle\<close> returns
  nil and leaves the cluster as it was: its first statement is \<open>return nil\<close>.
  \<open>NewHandler\<close> leaves the cluster as it was too, so neither \<open>Bootstrap\<close> nor the creation
  of the cluster-operator status has run: it exits the process when one of the two
  environment lookups fails, and otherwise returns the handler it has built, with a nil
  error, from the \<open>return\<close> that precedes those steps.
\<close>

theorem Handle_returns_first:
  "Handle deps h ctx event w = (Returned None, w) \<and>
   snd (NewHandler nd namespace w) = w \<and>
   fst (NewHandler nd namespace w) =
     (case k8sutil_GetWatchNamespace nd of
        Failed err \<Rightarrow> Exited ''Failed to get watch namespace: %v''
      | Ok operatorNamespace \<Rightarrow>
          (case k8sutil_GetOperatorName nd of
             Failed err \<Rightarrow> Exited ''Failed to get operator name: %v''
           | Ok operatorName \<Rightarrow>
               Returned
                 (Some \<lparr>h_params =
                          \<lparr>g_Deployment_Namespace = namespace,
                           g_Deployment_Labels = [(''docker-registry'', ''default'')],
                           g_Pod_ServiceAccount = ''registry'',
                           g_Container_Port = 5000,
                           g_Healthz_Route = ''/healthz'',
                           g_Healthz_TimeoutSeconds = 5,
                           g_Service_Name = ''image-registry'',
                           g_ImageConfig_Name = ''cluster''\<rparr>,
                        h_generateDeployment = resource_Deployment nd,
                        h_clusterStatus =
                          clusteroperator_NewStatusHandler nd operatorName operatorNamespace\<rparr>,
                  None)))"
  by (simp add: Handle_def NewHandler_def Let_def split: result.splits)

text \<open>
  The statements after the first are not idle: run on their own they call the dispatch,
  which the counting cluster records, while \<open>Handle\<close> leaves the count at zero.
\<close>

lemma Handle_skips_dispatch:
  "exec [Exec (Handle_dispatch countingDeps event), Return None] 0 = (Returned None, Suc 0)"
  "Handle countingDeps h ctx event 0 = (Returned None, 0)"
  by (simp_all add: Handle_def Handle_dispatch_def countingDeps_def)

subsection \<open>Retries\<close>

lemma DefaultBackoff_Steps_Suc: "DefaultBackoff_Steps = Suc 3"
  by (simp add: DefaultBackoff_Steps_def)

lemma RetryOnConflict_done:
  "fn s = (None, s') \<Longrightarrow> RetryOnConflict DefaultBackoff_Steps fn s = (None, s')"
  by (simp add: RetryOnConflict_def DefaultBackoff_Steps_def eval_nat_numeral)

lemma RetryOnConflict_abort:
  "fn s = (Some err, s') \<Longrightarrow> \<not> IsConflict err \<Longrightarrow>
   RetryOnConflict DefaultBackoff_Steps fn s = (Some err, s')"
  by (simp add: RetryOnConflict_def DefaultBackoff_Steps_def eval_nat_numeral)

lemma Errorf_not_Conflict [simp]: "\<not> IsConflict (Errorf f as)"
  by (simp add: IsConflict_def)

subsection \<open>Not found means create\<close>

lemma ApplyTemplate_attempt_create:
  assumes "sdk_Get sdk (tmpl_Object tmpl) (world st) = (Failed err, w1)"
    and "IsNotFound err"
    and "sdk_Create sdk (tmpl_Object tmpl) w1 = (None, w2)"
  shows "ApplyTemplate_attempt ops sdk tmpl dgst (modified, st) =
           (None, True,
            \<lparr>world = w2,
             calls = calls st @ [CallGet (tmpl_Object tmpl), CallCreate (tmpl_Object tmpl)]\<rparr>)"
  using assms by (simp add: ApplyTemplate_attempt_def do_Get_def do_Create_def)

lemma ApplyTemplate_attempt_get_error:
  assumes "sdk_Get sdk (tmpl_Object tmpl) (world st) = (Failed err, w1)"
    and "\<not> IsNotFound err"
  shows "ApplyTemplate_attempt ops sdk tmpl dgst (modified, st) =
           (Some (Errorf ''failed to get %s: %s'' [ArgStr (templateName ops tmpl), ArgErr err]),
            modified,
            \<lparr>world = w1, calls = calls st @ [CallGet (tmpl_Object tmpl)]\<rparr>)"
  using assms by (simp add: ApplyTemplate_attempt_def do_Get_def)

lemma Apply_attempt_create:
  assumes "Get gen (world st) = (Failed err, w1)"
    and "IsNotFound err"
    and "Create gen w1 = (Ok n, w2)"
  shows "Apply_attempt gen st =
           (None,
            \<lparr>world = w2,
             calls = calls st @ [CallMutatorGet (mut_TypeAndName gen),
                                 CallMutatorCreate (mut_TypeAndName gen)]\<rparr>)"
  using assms by (simp add: Apply_attempt_def logged_def)

lemma Apply_attempt_get_error:
  assumes "Get gen (world st) = (Failed err, w1)"
    and "\<not> IsNotFound err"
  shows "Apply_attempt gen st =
           (Some (Errorf ''failed to get object %s: %s'' [ArgStr (mut_TypeAndName gen), ArgErr err]),
            \<lparr>world = w1, calls = calls st @ [CallMutatorGet (mut_TypeAndName gen)]\<rparr>)"
  using assms by (simp add: Apply_attempt_def logged_def)

lemma Apply_generators_append:
  "Apply_generators (pre @ rest) st =
     (case Apply_generators pre st of
        (Some err, st1) \<Rightarrow> (Some err, st1)
      | (None, st1) \<Rightarrow> Apply_generators rest st1)"
proof (induction pre arbitrary: st)
  case Nil
  show ?case by simp
next
  case (Cons gen pre)
  obtain e st1 where r: "RetryOnConflict DefaultBackoff_Steps (Apply_attempt gen) st = (e, st1)"
    by (cases "RetryOnConflict DefaultBackoff_Steps (Apply_attempt gen) st")
  show ?case
  proof (cases e)
    case None
    with r Cons.IH [of st1] show ?thesis by simp
  next
    case (Some err)
    with r show ?thesis by simp
  qed
qed

lemma Apply_reaches_generator:
  assumes "syncStorage g cr st = (None, st1)"
    and "list_mutators g cr = Ok (pre @ gen # post)"
    and "Apply_generators pre st1 = (None, st2)"
  shows "Apply g cr st =
           (case Apply_generators (gen # post) st2 of
              (Some err, st3) \<Rightarrow> (Some err, st3)
            | (None, st3) \<Rightarrow>
                (case removeObsoleteRoutes g cr st3 of
                   (Some err, st4) \<Rightarrow>
                     (Some (Errorf ''unable to remove obsolete routes: %s'' [ArgErr err]), st4)
                 | (None, st4) \<Rightarrow> (None, st4)))"
  using assms by (simp add: Apply_def Apply_generators_append [of pre "gen # post"])

text \<open>
  Claim C9.  In \<open>ApplyTemplate\<close>, when the checksum can be computed and \<open>Get\<close> fails
  with a not-found error, \<open>Create\<close> is called with the template's object, and when that
  succeeds the result is nil (and \<open>modified\<close> is set); any other error of \<open>Get\<close> is
  returned, wrapped, with no further call.  In the loop of \<open>Apply\<close> of the generator, a
  mutator whose \<open>Get\<close> is not-found and whose \<open>Create\<close> succeeds is done after these two
  calls and the loop goes on with the next mutator; any other error of \<open>Get\<close> ends the loop
  with the wrapped error after that one call.  The same for \<open>Apply\<close> itself, once the
  storage is in sync and the mutators before this one have been applied: after not-found
  and a successful \<open>Create\<close> the result of \<open>Apply\<close> is that of the remaining mutators and
  of the removal of obsolete routes; any other error of \<open>Get\<close> is what \<open>Apply\<close> returns,
  wrapped, and neither the remaining mutators nor the routes are touched.
\<close>

theorem not_found_creates:
  "(checksum ops (tmpl_Object tmpl) = Ok dgst \<and>
    sdk_Get sdk (tmpl_Object tmpl) (world st) = (Failed err, w1) \<and>
    IsNotFound err \<and>
    sdk_Create sdk (tmpl_Object tmpl) w1 = (None, w2) \<longrightarrow>
      ApplyTemplate ops sdk tmpl modified st =
        (None, True,
         \<lparr>world = w2,
          calls = calls st @ [CallGet (tmpl_Object tmpl), CallCreate (tmpl_Object tmpl)]\<rparr>)) \<and>
   (checksum ops (tmpl_Object tmpl) = Ok dgst \<and>
    sdk_Get sdk (tmpl_Object tmpl) (world st) = (Failed err, w1) \<and>
    \<not> IsNotFound err \<longrightarrow>
      ApplyTemplate ops sdk tmpl modified st =
        (Some (Errorf ''failed to get %s: %s'' [ArgStr (templateName ops tmpl), ArgErr err]),
         modified,
         \<lparr>world = w1, calls = calls st @ [CallGet (tmpl_Object tmpl)]\<rparr>)) \<and>
   (Get gen (world gst) = (Failed gerr, gw1) \<and>
    IsNotFound gerr \<and>
    Create gen gw1 = (Ok n, gw2) \<longrightarrow>
      Apply_generators (gen # generators) gst =
        Apply_generators generators
          \<lparr>world = gw2,
           calls = calls gst @ [CallMutatorGet (mut_TypeAndName gen),
                                CallMutatorCreate (mut_TypeAndName gen)]\<rparr>) \<and>
   (Get gen (world gst) = (Failed gerr, gw1) \<and>
    \<not> IsNotFound gerr \<longrightarrow>
      Apply_generators (gen # generators) gst =
        (Some (Errorf ''unable to apply objects: %s''
                 [ArgErr (Errorf ''failed to get object %s: %s''
                            [ArgStr (mut_TypeAndName gen), ArgErr gerr])]),
         \<lparr>world = gw1, calls = calls gst @ [CallMutatorGet (mut_TypeAndName gen)]\<rparr>)) \<and>
   (syncStorage g cr ast = (None, ast1) \<and>
    list_mutators g cr = Ok (pre @ gen # post) \<and>
    Apply_generators pre ast1 = (None, ast2) \<and>
    Get gen (world ast2) = (Failed gerr, gw1) \<and>
    IsNotFound gerr \<and>
    Create gen gw1 = (Ok n, gw2) \<longrightarrow>
      Apply g cr ast =
        (case Apply_generators post
                \<lparr>world = gw2,
                 calls = calls ast2 @ [CallMutatorGet (mut_TypeAndName gen),
                                       CallMutatorCreate (mut_TypeAndName gen)]\<rparr> of
           (Some err, ast3) \<Rightarrow> (Some err, ast3)
         | (None, ast3) \<Rightarrow>
             (case removeObsoleteRoutes g cr ast3 of
                (Some err, ast4) \<Rightarrow>
                  (Some (Errorf ''unable to remove obsolete routes: %s'' [ArgErr err]), ast4)
              | (None, ast4) \<Rightarrow> (None, ast4)))) \<and>
   (syncStorage g cr ast = (None, ast1) \<and>
    list_mutators g cr = Ok (pre @ gen # post) \<and>
    Apply_generators pre ast1 = (None, ast2) \<and>
    Get gen (world ast2) = (Failed gerr, gw1) \<and>
    \<not> IsNotFound gerr \<longrightarrow>
      Apply g cr ast =
        (Some (Errorf ''unable to apply objects: %s''
                 [ArgErr (Errorf ''failed to get object %s: %s''
                            [ArgStr (mut_TypeAndName gen), ArgErr gerr])]),
         \<lparr>world = gw1, calls = calls ast2 @ [CallMutatorGet (mut_TypeAndName gen)]\<rparr>))"
proof (intro conjI impI)
  assume a: "checksum ops (tmpl_Object tmpl) = Ok dgst \<and>
    sdk_Get sdk (tmpl_Object tmpl) (world st) = (Failed err, w1) \<and>
    IsNotFound err \<and>
    sdk_Create sdk (tmpl_Object tmpl) w1 = (None, w2)"
  then have g: "sdk_Get sdk (tmpl_Object tmpl) (world st) = (Failed err, w1)"
    and nf: "IsNotFound err" and c: "sdk_Create sdk (tmpl_Object tmpl) w1 = (None, w2)"
    by simp_all
  from RetryOnConflict_done [of "ApplyTemplate_attempt ops sdk tmpl dgst" "(modified, st)",
         OF ApplyTemplate_attempt_create [OF g nf c, of ops dgst modified]] a
  show "ApplyTemplate ops sdk tmpl modified st =
        (None, True,
         \<lparr>world = w2,
          calls = calls st @ [CallGet (tmpl_Object tmpl), CallCreate (tmpl_Object tmpl)]\<rparr>)"
    by (simp add: ApplyTemplate_def)
next
  assume a: "checksum ops (tmpl_Object tmpl) = Ok dgst \<and>
    sdk_Get sdk (tmpl_Object tmpl) (world st) = (Failed err, w1) \<and>
    \<not> IsNotFound err"
  then have g: "sdk_Get sdk (tmpl_Object tmpl) (world st) = (Failed err, w1)"
    and nf: "\<not> IsNotFound err"
    by simp_all
  from RetryOnConflict_abort [of "ApplyTemplate_attempt ops sdk tmpl dgst" "(modified, st)",
         OF ApplyTemplate_attempt_get_error [OF g nf, of ops dgst modified]
         Errorf_not_Conflict] a
  show "ApplyTemplate ops sdk tmpl modified st =
        (Some (Errorf ''failed to get %s: %s'' [ArgStr (templateName ops tmpl), ArgErr err]),
         modified,
         \<lparr>world = w1, calls = calls st @ [CallGet (tmpl_Object tmpl)]\<rparr>)"
    by (simp add: ApplyTemplate_def)
next
  assume a: "Get gen (world gst) = (Failed gerr, gw1) \<and>
    IsNotFound gerr \<and>
    Create gen gw1 = (Ok n, gw2)"
  then have g: "Get gen (world gst) = (Failed gerr, gw1)"
    and nf: "IsNotFound gerr" and c: "Create gen gw1 = (Ok n, gw2)"
    by simp_all
  from RetryOnConflict_done [of "Apply_attempt gen" gst, OF Apply_attempt_create [OF g nf c]]
  show "Apply_generators (gen # generators) gst =
        Apply_generators generators
          \<lparr>world = gw2,
           calls = calls gst @ [CallMutatorGet (mut_TypeAndName gen),
                                CallMutatorCreate (mut_TypeAndName gen)]\<rparr>"
    by simp
next
  assume a: "Get gen (world gst) = (Failed gerr, gw1) \<and> \<not> IsNotFound gerr"
  then have g: "Get gen (world gst) = (Failed gerr, gw1)"
    and nf: "\<not> IsNotFound gerr"
    by simp_all
  from RetryOnConflict_abort [of "Apply_attempt gen" gst, OF Apply_attempt_get_error [OF g nf] Errorf_not_Conflict]
  show "Apply_generators (gen # generators) gst =
        (Some (Errorf ''unable to apply objects: %s''
                 [ArgErr (Errorf ''failed to get object %s: %s''
                            [ArgStr (mut_TypeAndName gen), ArgErr gerr])]),
         \<lparr>world = gw1, calls = calls gst @ [CallMutatorGet (mut_TypeAndName gen)]\<rparr>)"
    by simp
next
  assume a: "syncStorage g cr ast = (None, ast1) \<and>
    list_mutators g cr = Ok (pre @ gen # post) \<and>
    Apply_generators pre ast1 = (None, ast2) \<and>
    Get gen (world ast2) = (Failed gerr, gw1) \<and>
    IsNotFound gerr \<and>
    Create gen gw1 = (Ok n, gw2)"
  then have s: "syncStorage g cr ast = (None, ast1)"
    and l: "list_mutators g cr = Ok (pre @ gen # post)"
    and p: "Apply_generators pre ast1 = (None, ast2)"
    and g: "Get gen (world ast2) = (Failed gerr, gw1)"
    and nf: "IsNotFound gerr" and c: "Create gen gw1 = (Ok n, gw2)"
    by simp_all
  from RetryOnConflict_done [of "Apply_attempt gen" ast2, OF Apply_attempt_create [OF g nf c]]
  have step: "Apply_generators (gen # post) ast2 =
        Apply_generators post
          \<lparr>world = gw2,
           calls = calls ast2 @ [CallMutatorGet (mut_TypeAndName gen),
                                 CallMutatorCreate (mut_TypeAndName gen)]\<rparr>"
    by simp
  show "Apply g cr ast =
        (case Apply_generators post
                \<lparr>world = gw2,
                 calls = calls ast2 @ [CallMutatorGet (mut_TypeAndName gen),
                                       CallMutatorCreate (mut_TypeAndName gen)]\<rparr> of
           (Some err, ast3) \<Rightarrow> (Some err, ast3)
         | (None, ast3) \<Rightarrow>
             (case removeObsoleteRoutes g cr ast3 of
                (Some err, ast4) \<Rightarrow>
                  (Some (Errorf ''unable to remove obsolete routes: %s'' [ArgErr err]), ast4)
              | (None, ast4) \<Rightarrow> (None, ast4)))"
    unfolding Apply_reaches_generator [OF s l p] step ..
next
  assume a: "syncStorage g cr ast = (None, ast1) \<and>
    list_mutators g cr = Ok (pre @ gen # post) \<and>
    Apply_generators pre ast1 = (None, ast2) \<and>
    Get gen (world ast2) = (Failed gerr, gw1) \<and>
    \<not> IsNotFound gerr"
  then have s: "syncStorage g cr ast = (None, ast1)"
    and l: "list_mutators g cr = Ok (pre @ gen # post)"
    and p: "Apply_generators pre ast1 = (None, ast2)"
    and g: "Get gen (world ast2) = (Failed gerr, gw1)"
    and nf: "\<not> IsNotFound gerr"
    by simp_all
  from RetryOnConflict_abort [of "Apply_attempt gen" ast2, OF Apply_attempt_get_error [OF g nf] Errorf_not_Conflict]
  have step: "Apply_generators (gen # post) ast2 =
        (Some (Errorf ''unable to apply objects: %s''
                 [ArgErr (Errorf ''failed to get object %s: %s''
                            [ArgStr (mut_TypeAndName gen), ArgErr gerr])]),
         \<lparr>world = gw1, calls = calls ast2 @ [CallMutatorGet (mut_TypeAndName gen)]\<rparr>)"
    by simp
  show "Apply g cr ast =
        (Some (Errorf ''unable to apply objects: %s''
                 [ArgErr (Errorf ''failed to get object %s: %s''
                            [ArgStr (mut_TypeAndName gen), ArgErr gerr])]),
         \<lparr>world = gw1, calls = calls ast2 @ [CallMutatorGet (mut_TypeAndName gen)]\<rparr>)"
    unfolding Apply_reaches_generator [OF s l p] step by simp
qed


lemma example_Apply_step:
  assumes "map_of (ew_objects w) n = None"
  shows "RetryOnConflict DefaultBackoff_Steps (Apply_attempt (exampleMutator n)) \<lparr>world = w, calls = cs\<rparr> =
           (None, \<lparr>world = w\<lparr>ew_objects := (n, n) # ew_objects w\<rparr>,
                   calls = cs @ [CallMutatorGet n, CallMutatorCreate n]\<rparr>)"
proof -
  have g: "Get (exampleMutator n) (world \<lparr>world = w, calls = cs\<rparr>) = (Failed NotFound, w)"
    using assms by (simp add: exampleMutator_def)
  have nf: "IsNotFound NotFound"
    by (simp add: IsNotFound_def)
  have c: "Create (exampleMutator n) w = (Ok n, w\<lparr>ew_objects := (n, n) # ew_objects w\<rparr>)"
    by (simp add: exampleMutator_def)
  from RetryOnConflict_done [of "Apply_attempt (exampleMutator n)" "\<lparr>world = w, calls = cs\<rparr>",
         OF Apply_attempt_create [OF g nf c]]
  show ?thesis by (simp add: exampleMutator_def)
qed

lemma example_Apply_generators:
  assumes "distinct ns" and "\<forall>n\<in>set ns. map_of (ew_objects w) n = None"
  shows "Apply_generators (map exampleMutator ns) \<lparr>world = w, calls = cs\<rparr> =
           (None, \<lparr>world = w\<lparr>ew_objects := map (\<lambda>n. (n, n)) (rev ns) @ ew_objects w\<rparr>,
                   calls = cs @ concat (map (\<lambda>n. [CallMutatorGet n, CallMutatorCreate n]) ns)\<rparr>)"
  using assms
proof (induction ns arbitrary: w cs)
  case Nil
  show ?case by simp
next
  case (Cons n ns)
  let ?w' = "w\<lparr>ew_objects := (n, n) # ew_objects w\<rparr>"
  from Cons.prems have n: "map_of (ew_objects w) n = None"
    by simp
  from Cons.prems have d: "distinct ns" and nn: "n \<notin> set ns"
    by simp_all
  have f: "\<forall>m\<in>set ns. map_of (ew_objects ?w') m = None"
  proof
    fix m assume m: "m \<in> set ns"
    with nn have "m \<noteq> n" by auto
    moreover from Cons.prems(2) m have "map_of (ew_objects w) m = None" by simp
    ultimately show "map_of (ew_objects ?w') m = None" by simp
  qed
  show ?case
    by (simp add: example_Apply_step [OF n] Cons.IH [OF d f])
qed

text \<open>
  The theorem on the in-memory cluster of services and on the example cluster of the
  generator.  On an empty cluster \<open>ApplyTemplate\<close> creates the service, and every mutator
  of \<open>Apply\<close> creates its object; when \<open>Get\<close> is forbidden, \<open>ApplyTemplate\<close> and \<open>Apply\<close>
  return the wrapped error after that \<open>Get\<close>.
\<close>

theorem not_found_creates_witness:
  "ApplyTemplate (serviceOps ''sha256:00'') memorySdk serviceTemplate False (startRun []) =
     (None, True,
      \<lparr>world = [exampleService],
       calls = [CallGet exampleService, CallCreate exampleService]\<rparr>) \<and>
   ApplyTemplate (serviceOps ''sha256:00'') forbiddenSdk serviceTemplate False (startRun []) =
     (Some (Errorf ''failed to get %s: %s''
              [ArgStr (templateName (serviceOps ''sha256:00'') serviceTemplate),
               ArgErr (ApiError ''forbidden'')]),
      False,
      \<lparr>world = [], calls = [CallGet exampleService]\<rparr>) \<and>
   Apply_generators [exampleMutator ''service''] (startRun exampleWorld) =
     (None,
      \<lparr>world = exampleWorld\<lparr>ew_objects := [(''service'', ''service'')]\<rparr>,
       calls = [CallMutatorGet ''service'', CallMutatorCreate ''service'']\<rparr>) \<and>
   Apply_generators [forbiddenMutator ''service'', exampleMutator ''deployment''] (startRun exampleWorld) =
     (Some (Errorf ''unable to apply objects: %s''
              [ArgErr (Errorf ''failed to get object %s: %s''
                         [ArgStr ''service'', ArgErr (ApiError ''forbidden'')])]),
      \<lparr>world = exampleWorld, calls = [CallMutatorGet ''service'']\<rparr>) \<and>
   Apply exampleGenerator (exampleConfig []) (startRun exampleWorld) =
     (None,
      \<lparr>world = exampleWorld\<lparr>ew_objects := map (\<lambda>n. (n, n)) (rev [''clusterrole'', ''clusterrolebinding'', ''serviceaccount'', ''serviceca'', ''caconfig'',
      ''secret'', ''imageconfig'', ''nodecadaemonset'', ''service'', ''deployment'', ''clusteroperator''])\<rparr>,
       calls = [CallStorageChanged, CallStorageExists] @
               concat (map (\<lambda>n. [CallMutatorGet n, CallMutatorCreate n]) [''clusterrole'', ''clusterrolebinding'', ''serviceaccount'', ''serviceca'', ''caconfig'',
      ''secret'', ''imageconfig'', ''nodecadaemonset'', ''service'', ''deployment'', ''clusteroperator'']) @
               [CallRoutesList]\<rparr>) \<and>
   Apply forbiddingGenerator (exampleConfig []) (startRun exampleWorld) =
     (Some (Errorf ''unable to apply objects: %s''
              [ArgErr (Errorf ''failed to get object %s: %s''
                         [ArgStr ''service'', ArgErr (ApiError ''forbidden'')])]),
      \<lparr>world = exampleWorld\<lparr>ew_objects := map (\<lambda>n. (n, n)) (rev [''clusterrole'', ''clusterrolebinding'', ''serviceaccount'', ''serviceca'', ''caconfig'',
      ''secret'', ''imageconfig'', ''nodecadaemonset''])\<rparr>,
       calls = [CallStorageChanged, CallStorageExists] @
               concat (map (\<lambda>n. [CallMutatorGet n, CallMutatorCreate n]) [''clusterrole'', ''clusterrolebinding'', ''serviceaccount'', ''serviceca'', ''caconfig'',
      ''secret'', ''imageconfig'', ''nodecadaemonset'']) @
               [CallMutatorGet ''service'']\<rparr>)"
proof -
  let ?ops = "serviceOps ''sha256:00''"
  let ?m = "exampleMutator ''service''"
  let ?f = "forbiddenMutator ''service''"
  have ck: "checksum ?ops (tmpl_Object serviceTemplate) = Ok ''sha256:00''"
    by (simp add: serviceOps_def)
  have ob: "tmpl_Object serviceTemplate = exampleService"
    by (simp add: serviceTemplate_def)
  have g1: "sdk_Get memorySdk (tmpl_Object serviceTemplate) (world (startRun [])) = (Failed NotFound, [])"
    and c1: "sdk_Create memorySdk (tmpl_Object serviceTemplate) [] = (None, [exampleService])"
    and g2: "sdk_Get forbiddenSdk (tmpl_Object serviceTemplate) (world (startRun [])) =
               (Failed (ApiError ''forbidden''), [])"
    by (simp_all add: memorySdk_def forbiddenSdk_def startRun_def ob)
  have g3: "Get ?m (world (startRun exampleWorld)) = (Failed NotFound, exampleWorld)"
    and c3: "Create ?m exampleWorld = (Ok ''service'', exampleWorld\<lparr>ew_objects := [(''service'', ''service'')]\<rparr>)"
    and g4: "Get ?f (world (startRun exampleWorld)) = (Failed (ApiError ''forbidden''), exampleWorld)"
    and n3: "mut_TypeAndName ?m = ''service''" and n4: "mut_TypeAndName ?f = ''service''"
    by (simp_all add: exampleMutator_def forbiddenMutator_def startRun_def exampleWorld_def)
  have nf: "IsNotFound NotFound" "\<not> IsNotFound (ApiError ''forbidden'')"
    by (simp_all add: IsNotFound_def)
  note t1 = not_found_creates [where ops = ?ops and tmpl = serviceTemplate and dgst = "''sha256:00''"
      and sdk = memorySdk and st = "startRun []" and err = NotFound and ?w1.0 = "[]"
      and ?w2.0 = "[exampleService]" and modified = False and gen = ?m
      and gst = "startRun exampleWorld" and gerr = NotFound and ?gw1.0 = exampleWorld
      and n = "''service''" and ?gw2.0 = "exampleWorld\<lparr>ew_objects := [(''service'', ''service'')]\<rparr>"
      and generators = "[]"]
  note t2 = not_found_creates [where ops = ?ops and tmpl = serviceTemplate and dgst = "''sha256:00''"
      and sdk = forbiddenSdk and st = "startRun []" and err = "ApiError ''forbidden''" and ?w1.0 = "[]"
      and modified = False and gen = ?f
      and gst = "startRun exampleWorld" and gerr = "ApiError ''forbidden''" and ?gw1.0 = exampleWorld
      and generators = "[exampleMutator ''deployment'']"]
  from t1 [THEN conjunct1] ck g1 c1 nf(1)
  have r1: "ApplyTemplate ?ops memorySdk serviceTemplate False (startRun []) =
     (None, True,
      \<lparr>world = [exampleService],
       calls = [CallGet exampleService, CallCreate exampleService]\<rparr>)"
    by (simp add: ob startRun_def)
  from t2 [THEN conjunct2, THEN conjunct1] ck g2 nf(2)
  have r2: "ApplyTemplate ?ops forbiddenSdk serviceTemplate False (startRun []) =
     (Some (Errorf ''failed to get %s: %s''
              [ArgStr (templateName ?ops serviceTemplate), ArgErr (ApiError ''forbidden'')]),
      False,
      \<lparr>world = [], calls = [CallGet exampleService]\<rparr>)"
    by (simp add: ob startRun_def)
  from t1 [THEN conjunct2, THEN conjunct2, THEN conjunct1] g3 c3 nf(1)
  have r3: "Apply_generators [?m] (startRun exampleWorld) =
     (None,
      \<lparr>world = exampleWorld\<lparr>ew_objects := [(''service'', ''service'')]\<rparr>,
       calls = [CallMutatorGet ''service'', CallMutatorCreate ''service'']\<rparr>)"
    by (simp add: n3 startRun_def)
  from t2 [THEN conjunct2, THEN conjunct2, THEN conjunct2] g4 nf(2)
  have r4: "Apply_generators [?f, exampleMutator ''deployment''] (startRun exampleWorld) =
     (Some (Errorf ''unable to apply objects: %s''
              [ArgErr (Errorf ''failed to get object %s: %s''
                         [ArgStr ''service'', ArgErr (ApiError ''forbidden'')])]),
      \<lparr>world = exampleWorld, calls = [CallMutatorGet ''service'']\<rparr>)"
    by (simp add: n4 startRun_def)
  let ?cr = "exampleConfig []"
  let ?n8 = "[''clusterrole'', ''clusterrolebinding'', ''serviceaccount'', ''serviceca'', ''caconfig'',
      ''secret'', ''imageconfig'', ''nodecadaemonset'']"
  let ?pre = "map exampleMutator ?n8"
  let ?post = "map exampleMutator [''deployment'', ''clusteroperator'']"
  let ?a1 = "\<lparr>world = exampleWorld, calls = [CallStorageChanged, CallStorageExists]\<rparr>"
  let ?w2 = "exampleWorld\<lparr>ew_objects := map (\<lambda>n. (n, n)) (rev ?n8)\<rparr>"
  let ?a2 = "\<lparr>world = ?w2,
             calls = [CallStorageChanged, CallStorageExists] @
                     concat (map (\<lambda>n. [CallMutatorGet n, CallMutatorCreate n]) ?n8)\<rparr>"
  let ?w3 = "?w2\<lparr>ew_objects := (''service'', ''service'') # ew_objects ?w2\<rparr>"
  have ss: "syncStorage exampleGenerator ?cr (startRun exampleWorld) = (None, ?a1)"
    "syncStorage forbiddingGenerator ?cr (startRun exampleWorld) = (None, ?a1)"
    by (simp_all add: syncStorage_def forbiddingGenerator_def exampleGenerator_def exampleDriver_def
          exampleWorld_def logged_def startRun_def)
  have lm: "list_mutators exampleGenerator ?cr = Ok (?pre @ exampleMutator ''service'' # ?post)"
    "list_mutators forbiddingGenerator ?cr = Ok (?pre @ forbiddenMutator ''service'' # ?post)"
    by (simp_all add: list_mutators_def forbiddingGenerator_def exampleGenerator_def listRoutes_def
          exampleConfig_def)
  have ap: "Apply_generators ?pre ?a1 = (None, ?a2)"
    using example_Apply_generators [of ?n8 exampleWorld "[CallStorageChanged, CallStorageExists]"]
    by (simp add: exampleWorld_def)
  have g5: "Get (exampleMutator ''service'') (world ?a2) = (Failed NotFound, ?w2)"
    and c5: "Create (exampleMutator ''service'') ?w2 = (Ok ''service'', ?w3)"
    and g6: "Get (forbiddenMutator ''service'') (world ?a2) = (Failed (ApiError ''forbidden''), ?w2)"
    by (simp_all add: exampleMutator_def forbiddenMutator_def exampleWorld_def)
  note t5 = not_found_creates [THEN conjunct2, THEN conjunct2, THEN conjunct2, THEN conjunct2,
      THEN conjunct1, THEN mp,
      OF conjI [OF ss(1) conjI [OF lm(1) conjI [OF ap conjI [OF g5 conjI [OF nf(1) c5]]]]]]
  note t6 = not_found_creates [THEN conjunct2, THEN conjunct2, THEN conjunct2, THEN conjunct2,
      THEN conjunct2, THEN mp,
      OF conjI [OF ss(2) conjI [OF lm(2) conjI [OF ap conjI [OF g6 nf(2)]]]]]
  have rr: "removeObsoleteRoutes exampleGenerator ?cr \<lparr>world = w, calls = cs\<rparr> =
              (None, \<lparr>world = w, calls = cs @ [CallRoutesList]\<rparr>)" if "ew_routes w = []" for w cs
    using that by (simp add: removeObsoleteRoutes_def exampleGenerator_def logged_def)
  have post: "Apply_generators ?post \<lparr>world = ?w3, calls = cs\<rparr> =
      (None, \<lparr>world = ?w3\<lparr>ew_objects := map (\<lambda>n. (n, n)) (rev [''deployment'', ''clusteroperator'']) @
                                            ew_objects ?w3\<rparr>,
              calls = cs @ concat (map (\<lambda>n. [CallMutatorGet n, CallMutatorCreate n])
                                     [''deployment'', ''clusteroperator''])\<rparr>)" for cs
    using example_Apply_generators [of "[''deployment'', ''clusteroperator'']" ?w3 cs]
    by (simp add: exampleWorld_def)
  have r5: "Apply exampleGenerator ?cr (startRun exampleWorld) =
     (None,
      \<lparr>world = exampleWorld\<lparr>ew_objects := map (\<lambda>n. (n, n)) (rev [''clusterrole'', ''clusterrolebinding'', ''serviceaccount'', ''serviceca'', ''caconfig'',
      ''secret'', ''imageconfig'', ''nodecadaemonset'', ''service'', ''deployment'', ''clusteroperator''])\<rparr>,
       calls = [CallStorageChanged, CallStorageExists] @
               concat (map (\<lambda>n. [CallMutatorGet n, CallMutatorCreate n]) [''clusterrole'', ''clusterrolebinding'', ''serviceaccount'', ''serviceca'', ''caconfig'',
      ''secret'', ''imageconfig'', ''nodecadaemonset'', ''service'', ''deployment'', ''clusteroperator'']) @
               [CallRoutesList]\<rparr>)"
    unfolding t5 post by (simp add: rr exampleMutator_def exampleWorld_def)
  have r6: "Apply forbiddingGenerator ?cr (startRun exampleWorld) =
     (Some (Errorf ''unable to apply objects: %s''
              [ArgErr (Errorf ''failed to get object %s: %s''
                         [ArgStr ''service'', ArgErr (ApiError ''forbidden'')])]),
      \<lparr>world = exampleWorld\<lparr>ew_objects := map (\<lambda>n. (n, n)) (rev [''clusterrole'', ''clusterrolebinding'', ''serviceaccount'', ''serviceca'', ''caconfig'',
      ''secret'', ''imageconfig'', ''nodecadaemonset''])\<rparr>,
       calls = [CallStorageChanged, CallStorageExists] @
               concat (map (\<lambda>n. [CallMutatorGet n, CallMutatorCreate n]) [''clusterrole'', ''clusterrolebinding'', ''serviceaccount'', ''serviceca'', ''caconfig'',
      ''secret'', ''imageconfig'', ''nodecadaemonset'']) @
               [CallMutatorGet ''service'']\<rparr>)"
    unfolding t6 by (simp add: forbiddenMutator_def exampleMutator_def)
  from r1 r2 r3 r4 r5 r6 show ?thesis by (intro conjI)
qed


subsection \<open>The checksum fast path\<close>

text \<open>
  When \<open>Get\<close> returns the current object and its checksum annotation holds the digest of
  the desired object, \<open>ApplyTemplate\<close> and \<open>ApplyService\<close> return nil after that one
  \<open>Get\<close>: nothing is written, and \<open>modified\<close> is left as it was.
\<close>

lemma ApplyTemplate_fast_path:
  assumes "checksum ops (tmpl_Object tmpl) = Ok dgst"
    and "sdk_Get sdk (tmpl_Object tmpl) (world st) = (Ok current, w1)"
    and "Accessor ops current = Ok currentMeta"
    and "map_of (om_Annotations currentMeta) checksumOperatorAnnotation = Some dgst"
  shows "ApplyTemplate ops sdk tmpl modified st =
           (None, modified, \<lparr>world = w1, calls = calls st @ [CallGet (tmpl_Object tmpl)]\<rparr>)"
proof -
  have "ApplyTemplate_attempt ops sdk tmpl dgst (modified, st) =
          (None, modified, \<lparr>world = w1, calls = calls st @ [CallGet (tmpl_Object tmpl)]\<rparr>)"
    using assms by (simp add: ApplyTemplate_attempt_def do_Get_def)
  from RetryOnConflict_done [of "ApplyTemplate_attempt ops sdk tmpl dgst" "(modified, st)", OF this]
  show ?thesis
    using assms(1) by (simp add: ApplyTemplate_def)
qed

lemma ApplyService_fast_path:
  assumes "checksumOf expect = Ok dgst"
    and "sdk_Get sdk
           \<lparr>svc_APIVersion = svc_APIVersion expect, svc_Kind = svc_Kind expect,
            svc_ObjectMeta = svc_ObjectMeta expect, svc_Spec_Selector = [], svc_Spec_Type = [],
            svc_Spec_Ports = [], svc_Spec_ClusterIP = []\<rparr> (world st) = (Ok current, w1)"
    and "map_of (om_Annotations (svc_ObjectMeta current)) checksumOperatorAnnotation = Some dgst"
  shows "\<exists>c. ApplyService checksumOf sdk expect modified st =
           (None, expect, modified, \<lparr>world = w1, calls = calls st @ [CallGet c]\<rparr>)"
proof -
  have "\<exists>c. ApplyService_attempt sdk dgst (expect, modified, st) =
          (None, expect, modified, \<lparr>world = w1, calls = calls st @ [CallGet c]\<rparr>)"
    using assms by (simp add: ApplyService_attempt_def do_Get_def Let_def)
  then obtain c where "ApplyService_attempt sdk dgst (expect, modified, st) =
          (None, expect, modified, \<lparr>world = w1, calls = calls st @ [CallGet c]\<rparr>)" ..
  from RetryOnConflict_done [of "ApplyService_attempt sdk dgst" "(expect, modified, st)", OF this]
  show ?thesis
    using assms(1) by (simp add: ApplyService_def)
qed


lemma example_no_checksum:
  "map_of (om_Annotations (svc_ObjectMeta exampleService)) checksumOperatorAnnotation = None"
  by (simp add: exampleService_def GenerateService_def)

text \<open>
  Claim C4.  The fast path itself is as claimed (the two lemmas above), but two
  consecutive applies of an unchanged service do not leave the second without a write.
  On an empty cluster the first \<open>ApplyService\<close> creates the service as it was generated,
  without the checksum annotation: only the update path writes the annotation.  The second
  \<open>ApplyService\<close>, with the same service and the same digest, finds no annotation and
  updates the object, which writes the annotation.  Only the third makes no write.  The
  same holds for \<open>ApplyTemplate\<close>.
\<close>

theorem second_apply_after_create_updates:
  "ApplyService (\<lambda>s. Ok ''sha256:00'') memorySdk exampleService False (startRun []) =
     (None, exampleService, True,
      \<lparr>world = [exampleService],
       calls = [CallGet (serviceKey exampleService), CallCreate exampleService]\<rparr>) \<and>
   map_of (om_Annotations (svc_ObjectMeta exampleService)) checksumOperatorAnnotation = None \<and>
   ApplyService (\<lambda>s. Ok ''sha256:00'') memorySdk exampleService False (startRun [exampleService]) =
     (None, withChecksum ''sha256:00'' exampleService, True,
      \<lparr>world = [withChecksum ''sha256:00'' exampleService],
       calls = [CallGet (serviceKey exampleService),
                CallUpdate (withChecksum ''sha256:00'' exampleService)]\<rparr>) \<and>
   writes (snd (snd (snd
     (ApplyService (\<lambda>s. Ok ''sha256:00'') memorySdk exampleService False
        (startRun [exampleService]))))) =
     [CallUpdate (withChecksum ''sha256:00'' exampleService)] \<and>
   ApplyService (\<lambda>s. Ok ''sha256:00'') memorySdk exampleService False
     (startRun [withChecksum ''sha256:00'' exampleService]) =
     (None, exampleService, False,
      \<lparr>world = [withChecksum ''sha256:00'' exampleService],
       calls = [CallGet (serviceKey exampleService)]\<rparr>) \<and>
   ApplyTemplate (serviceOps ''sha256:00'') memorySdk serviceTemplate False (startRun []) =
     (None, True,
      \<lparr>world = [exampleService],
       calls = [CallGet exampleService, CallCreate exampleService]\<rparr>) \<and>
   ApplyTemplate (serviceOps ''sha256:00'') memorySdk serviceTemplate False (startRun [exampleService]) =
     (None, True,
      \<lparr>world = [withChecksum ''sha256:00'' exampleService],
       calls = [CallGet exampleService,
                CallUpdate (withChecksum ''sha256:00'' exampleService)]\<rparr>) \<and>
   writes (snd (snd
     (ApplyTemplate (serviceOps ''sha256:00'') memorySdk serviceTemplate False
        (startRun [exampleService])))) =
     [CallUpdate (withChecksum ''sha256:00'' exampleService)] \<and>
   ApplyTemplate (serviceOps ''sha256:00'') memorySdk serviceTemplate False
     (startRun [withChecksum ''sha256:00'' exampleService]) =
     (None, False,
      \<lparr>world = [withChecksum ''sha256:00'' exampleService],
       calls = [CallGet exampleService]\<rparr>)"
proof -
  let ?d = "''sha256:00''"
  let ?e = exampleService
  let ?s = "withChecksum ?d ?e"
  note defs = do_Get_def do_Create_def do_Update_def memorySdk_def startRun_def sameObject_def
    serviceKey_def withChecksum_def mergeObjectMeta_def exampleService_def GenerateService_def
    checksumOperatorAnnotation_def IsNotFound_def Let_def
  have a1: "ApplyService_attempt memorySdk ?d (?e, False, startRun []) =
              (None, ?e, True,
               \<lparr>world = [?e], calls = [CallGet (serviceKey ?e), CallCreate ?e]\<rparr>)"
    by (simp add: ApplyService_attempt_def defs)
  have a2: "ApplyService_attempt memorySdk ?d (?e, False, startRun [?e]) =
              (None, ?s, True,
               \<lparr>world = [?s], calls = [CallGet (serviceKey ?e), CallUpdate ?s]\<rparr>)"
    by (simp add: ApplyService_attempt_def defs)
  have a3: "ApplyService_attempt memorySdk ?d (?e, False, startRun [?s]) =
              (None, ?e, False, \<lparr>world = [?s], calls = [CallGet (serviceKey ?e)]\<rparr>)"
    by (simp add: ApplyService_attempt_def defs)
  note s1 = RetryOnConflict_done [of "ApplyService_attempt memorySdk ?d" "(?e, False, startRun [])", OF a1]
  note s2 = RetryOnConflict_done [of "ApplyService_attempt memorySdk ?d" "(?e, False, startRun [?e])", OF a2]
  note s3 = RetryOnConflict_done [of "ApplyService_attempt memorySdk ?d" "(?e, False, startRun [?s])", OF a3]
  have r1: "ApplyService (\<lambda>s. Ok ?d) memorySdk ?e False (startRun []) =
     (None, ?e, True, \<lparr>world = [?e], calls = [CallGet (serviceKey ?e), CallCreate ?e]\<rparr>)"
    by (simp add: ApplyService_def s1)
  have r2: "ApplyService (\<lambda>s. Ok ?d) memorySdk ?e False (startRun [?e]) =
     (None, ?s, True, \<lparr>world = [?s], calls = [CallGet (serviceKey ?e), CallUpdate ?s]\<rparr>)"
    by (simp add: ApplyService_def s2)
  have r3: "ApplyService (\<lambda>s. Ok ?d) memorySdk ?e False (startRun [?s]) =
     (None, ?e, False, \<lparr>world = [?s], calls = [CallGet (serviceKey ?e)]\<rparr>)"
    by (simp add: ApplyService_def s3)
  have w2: "writes (snd (snd (snd (ApplyService (\<lambda>s. Ok ?d) memorySdk ?e False (startRun [?e]))))) =
            [CallUpdate ?s]"
    unfolding r2 by (simp add: writes_def isWrite_def)
  let ?ops = "serviceOps ?d"
  have b1: "ApplyTemplate_attempt ?ops memorySdk serviceTemplate ?d (False, startRun []) =
              (None, True, \<lparr>world = [?e], calls = [CallGet ?e, CallCreate ?e]\<rparr>)"
    by (simp add: ApplyTemplate_attempt_def serviceTemplate_def serviceOps_def defs)
  have b2: "ApplyTemplate_attempt ?ops memorySdk serviceTemplate ?d (False, startRun [?e]) =
              (None, True, \<lparr>world = [?s], calls = [CallGet ?e, CallUpdate ?s]\<rparr>)"
    by (simp add: ApplyTemplate_attempt_def serviceTemplate_def serviceOps_def defs)
  have b3: "ApplyTemplate_attempt ?ops memorySdk serviceTemplate ?d (False, startRun [?s]) =
              (None, False, \<lparr>world = [?s], calls = [CallGet ?e]\<rparr>)"
    by (simp add: ApplyTemplate_attempt_def serviceTemplate_def serviceOps_def defs)
  note u1 = RetryOnConflict_done [of "ApplyTemplate_attempt ?ops memorySdk serviceTemplate ?d" "(False, startRun [])", OF b1]
  note u2 = RetryOnConflict_done [of "ApplyTemplate_attempt ?ops memorySdk serviceTemplate ?d" "(False, startRun [?e])", OF b2]
  note u3 = RetryOnConflict_done [of "ApplyTemplate_attempt ?ops memorySdk serviceTemplate ?d" "(False, startRun [?s])", OF b3]
  have ck: "checksum ?ops (tmpl_Object serviceTemplate) = Ok ?d"
    by (simp add: serviceOps_def)
  have q1: "ApplyTemplate ?ops memorySdk serviceTemplate False (startRun []) =
     (None, True, \<lparr>world = [?e], calls = [CallGet ?e, CallCreate ?e]\<rparr>)"
    by (simp add: ApplyTemplate_def ck u1)
  have q2: "ApplyTemplate ?ops memorySdk serviceTemplate False (startRun [?e]) =
     (None, True, \<lparr>world = [?s], calls = [CallGet ?e, CallUpdate ?s]\<rparr>)"
    by (simp add: ApplyTemplate_def ck u2)
  have q3: "ApplyTemplate ?ops memorySdk serviceTemplate False (startRun [?s]) =
     (None, False, \<lparr>world = [?s], calls = [CallGet ?e]\<rparr>)"
    by (simp add: ApplyTemplate_def ck u3)
  have v2: "writes (snd (snd (ApplyTemplate ?ops memorySdk serviceTemplate False (startRun [?e])))) =
            [CallUpdate ?s]"
    unfolding q2 by (simp add: writes_def isWrite_def)
  from r1 example_no_checksum r2 w2 r3 q1 q2 v2 q3 show ?thesis by (intro conjI)
qed


end
